theory Spec2Isabelle
  imports Complex_Main "HOL-Library.Word" "HOL-Library.Char_ord" "HOL-Library.Sublist" "HOL-Library.Multiset"
begin

section \<open>JavaScript strings\<close>

text \<open>
  A string is a list of \<^typ>\<open>char\<close>: a character of the model is a code unit below 256, read
  as in Latin-1. White space is what \<^verbatim>\<open>trim()\<close> strips and \<^verbatim>\<open>\s\<close> accepts among these: tab,
  line feed, vertical tab, form feed, carriage return, space and no-break space.
\<close>

definition isSpace :: "char \<Rightarrow> bool" where
  "isSpace c =
     (c \<in> set [CHR 0x09, CHR 0x0A, CHR 0x0B, CHR 0x0C, CHR 0x0D, CHR 0x20, CHR 0xA0])"

definition isDigit :: "char \<Rightarrow> bool" where
  "isDigit c = (CHR ''0'' \<le> c \<and> c \<le> CHR ''9'')"

definition isLowerAZ :: "char \<Rightarrow> bool" where
  "isLowerAZ c = (CHR ''a'' \<le> c \<and> c \<le> CHR ''z'')"

definition isUpperAZ :: "char \<Rightarrow> bool" where
  "isUpperAZ c = (CHR ''A'' \<le> c \<and> c \<le> CHR ''Z'')"

text \<open>The class \<^verbatim>\<open>\w\<close>.\<close>

definition isWord :: "char \<Rightarrow> bool" where
  "isWord c = (isLowerAZ c \<or> isUpperAZ c \<or> isDigit c \<or> c = CHR ''_'')"

text \<open>
  The letters of Latin-1 beyond ASCII: the capital letters from \<open>0xC0\<close> to \<open>0xDE\<close> without the
  multiplication sign, and the small letters from \<open>0xE0\<close> to \<open>0xFE\<close> without the division
  sign. The two cases of a letter differ in the bit of weight 32, which is set in the small
  letter.
\<close>

definition isUpperLatin :: "char \<Rightarrow> bool" where
  "isUpperLatin c = (CHR 0xC0 \<le> c \<and> c \<le> CHR 0xDE \<and> c \<noteq> CHR 0xD7)"

definition isLowerLatin :: "char \<Rightarrow> bool" where
  "isLowerLatin c = (CHR 0xE0 \<le> c \<and> c \<le> CHR 0xFE \<and> c \<noteq> CHR 0xF7)"

definition lowerChar :: "char \<Rightarrow> char" where
  "lowerChar c =
     (if isUpperAZ c \<or> isUpperLatin c
      then Char (digit0 c) (digit1 c) (digit2 c) (digit3 c) (digit4 c) True (digit6 c) (digit7 c)
      else c)"

text \<open>
  The capital letter of a small letter, where it is a character of the model: the micro
  sign, the sharp s and the y with diaeresis have none below 256.
\<close>

definition upperChar :: "char \<Rightarrow> char" where
  "upperChar c =
     (if isLowerAZ c \<or> isLowerLatin c
      then Char (digit0 c) (digit1 c) (digit2 c) (digit3 c) (digit4 c) False (digit6 c) (digit7 c)
      else c)"

definition toLowerCase :: "string \<Rightarrow> string" where
  "toLowerCase s = map lowerChar s"

text \<open>
  \<^verbatim>\<open>s.toUpperCase()\<close> can leave Latin-1, so its result is a list of code units: the micro sign
  becomes \<open>U+039C\<close>, the sharp s becomes \<open>SS\<close>, and the y with diaeresis becomes \<open>U+0178\<close>.
\<close>

definition codeUnits :: "string \<Rightarrow> nat list" where
  "codeUnits s = map of_char s"

definition upperUnits :: "char \<Rightarrow> nat list" where
  "upperUnits c =
     (if c = CHR 0xB5 then [0x39C]
      else if c = CHR 0xDF then [0x53, 0x53]
      else if c = CHR 0xFF then [0x178]
      else [of_char (upperChar c)])"

definition toUpperCase :: "string \<Rightarrow> nat list" where
  "toUpperCase s = concat (map upperUnits s)"

definition trimStart :: "string \<Rightarrow> string" where
  "trimStart s = dropWhile isSpace s"

definition trimEnd :: "string \<Rightarrow> string" where
  "trimEnd s = rev (dropWhile isSpace (rev s))"

definition trim :: "string \<Rightarrow> string" where
  "trim s = trimEnd (trimStart s)"

text \<open>\<^verbatim>\<open>s.slice(a, b)\<close> for indices \<open>0 \<le> a\<close>, \<open>0 \<le> b\<close>; both are clamped to the length.\<close>

definition strSlice :: "'a list \<Rightarrow> nat \<Rightarrow> nat \<Rightarrow> 'a list" where
  "strSlice s a b = take (b - a) (drop a s)"

text \<open>\<^verbatim>\<open>s.includes(w)\<close>.\<close>

fun strIncludes :: "string \<Rightarrow> string \<Rightarrow> bool" where
  "strIncludes [] w = (w = [])"
| "strIncludes (c # cs) w = (take (length w) (c # cs) = w \<or> strIncludes cs w)"

text \<open>\<^verbatim>\<open>s.lastIndexOf(c)\<close> for a one-character needle: the index, or \<open>-1\<close>.\<close>

fun lastIndexFrom :: "char \<Rightarrow> string \<Rightarrow> int \<Rightarrow> int \<Rightarrow> int" where
  "lastIndexFrom c [] i found = found"
| "lastIndexFrom c (x # xs) i found = lastIndexFrom c xs (i + 1) (if x = c then i else found)"

definition lastIndexOf :: "string \<Rightarrow> char \<Rightarrow> int" where
  "lastIndexOf s c = lastIndexFrom c s 0 (-1)"

section \<open>Regular expressions\<close>

text \<open>
  The fragment of ECMAScript regular expressions that the service uses, with the
  backtracking semantics of the language: alternatives are tried left to right, a greedy
  quantifier tries one more iteration before it tries the continuation, a lazy one the
  other way round, and a search returns the leftmost match.
\<close>

datatype rx =
    Str string                        \<comment> \<open>a sequence of literal characters\<close>
  | Dot                               \<comment> \<open>\<^verbatim>\<open>.\<close>: any character but a line terminator\<close>
  | Cls bool "(char \<times> char) list"      \<comment> \<open>\<^verbatim>\<open>[...]\<close>; \<open>True\<close> for \<^verbatim>\<open>[^...]\<close>; inclusive ranges\<close>
  | Seq rx rx
  | Alt rx rx
  | Rep nat "nat option" bool rx      \<comment> \<open>\<^verbatim>\<open>{lo,hi}\<close>, \<open>None\<close> for no upper bound; \<open>True\<close> if greedy\<close>
  | Grp nat rx                        \<comment> \<open>capture group number \<open>n\<close>\<close>
  | Bos                               \<comment> \<open>\<^verbatim>\<open>^\<close> without the m flag\<close>
  | Eos                               \<comment> \<open>\<^verbatim>\<open>$\<close> without the m flag\<close>
  | Wb                                \<comment> \<open>\<^verbatim>\<open>\b\<close>\<close>

text \<open>
  The input of a match is the text with, beside each character, the character of the
  other case when the i flag is set (the character itself otherwise): a pattern
  character matches an input character if it equals one of the two, which is the
  comparison of the canonicalised characters that the language prescribes.
\<close>

definition swapCase :: "char \<Rightarrow> char" where
  "swapCase c = (if isUpperAZ c \<or> isUpperLatin c then lowerChar c else upperChar c)"

definition prep :: "bool \<Rightarrow> string \<Rightarrow> (char \<times> char) list" where
  "prep ic s = map (\<lambda>c. (c, if ic then swapCase c else c)) s"

fun inRanges :: "(char \<times> char) list \<Rightarrow> char \<Rightarrow> bool" where
  "inRanges [] c = False"
| "inRanges ((lo, hi) # rs) c = ((lo \<le> c \<and> c \<le> hi) \<or> inRanges rs c)"

definition isLineTerminator :: "char \<Rightarrow> bool" where
  "isLineTerminator c = (c = CHR 0x0A \<or> c = CHR 0x0D)"

definition atWordBoundary :: "char option \<Rightarrow> (char \<times> char) list \<Rightarrow> bool" where
  "atWordBoundary p xs =
     ((case p of None \<Rightarrow> False | Some c \<Rightarrow> isWord c)
      \<noteq> (case xs of [] \<Rightarrow> False | x # _ \<Rightarrow> isWord (fst x)))"

fun decr :: "nat option \<Rightarrow> nat option" where
  "decr None = None"
| "decr (Some h) = Some (h - 1)"

text \<open>
  What remains to be matched is a stack of frames: a pattern, the check that an
  iteration of a quantifier has consumed input (an iteration that consumes nothing once
  the lower bound is reached is rejected, as the language specifies), or the end of a
  capture group, which records what the group matched.
\<close>

datatype frame =
    FRx rx
  | FChk nat                          \<comment> \<open>the length of the input when the iteration started\<close>
  | FCap nat "(char \<times> char) list"      \<comment> \<open>group number, the input where the group started\<close>

fun rxWeight :: "rx \<Rightarrow> nat" where
  "rxWeight (Seq a b) = rxWeight a + rxWeight b + 1"
| "rxWeight (Alt a b) = rxWeight a + rxWeight b + 1"
| "rxWeight (Rep lo hi g a) = (lo + 1) * (rxWeight a + 2)"
| "rxWeight (Grp n a) = rxWeight a + 2"
| "rxWeight r = 1"

fun stackWeight :: "frame list \<Rightarrow> nat \<Rightarrow> nat" where
  "stackWeight [] n = 0"
| "stackWeight (FRx r # k) n = rxWeight r + stackWeight k n"
| "stackWeight (FChk len # k) n = 1 + (if n < len then stackWeight k n else 0)"
| "stackWeight (FCap g start # k) n = 1 + stackWeight k n"

text \<open>
  \<open>run k p xs cs\<close> matches the stack \<open>k\<close> against the input \<open>xs\<close>, where \<open>p\<close> is the
  character before it and \<open>cs\<close> the captures so far (latest first); the result is the
  last character matched, the input left over and the captures of the first successful
  way to match, in the priority order of the language.
\<close>

function (sequential) run ::
    "frame list \<Rightarrow> char option \<Rightarrow> (char \<times> char) list \<Rightarrow> (nat \<times> string) list \<Rightarrow>
     (char option \<times> (char \<times> char) list \<times> (nat \<times> string) list) option" where
  "run [] p xs cs = Some (p, xs, cs)"
| "run (FRx (Str []) # k) p xs cs = run k p xs cs"
| "run (FRx (Str (c # w)) # k) p [] cs = None"
| "run (FRx (Str (c # w)) # k) p (x # xs) cs =
     (if c = fst x \<or> c = snd x then run (FRx (Str w) # k) (Some (fst x)) xs cs else None)"
| "run (FRx Dot # k) p [] cs = None"
| "run (FRx Dot # k) p (x # xs) cs =
     (if isLineTerminator (fst x) then None else run k (Some (fst x)) xs cs)"
| "run (FRx (Cls neg rs) # k) p [] cs = None"
| "run (FRx (Cls neg rs) # k) p (x # xs) cs =
     (if (inRanges rs (fst x) \<or> inRanges rs (snd x)) \<noteq> neg then run k (Some (fst x)) xs cs else None)"
| "run (FRx (Seq a b) # k) p xs cs = run (FRx a # FRx b # k) p xs cs"
| "run (FRx (Alt a b) # k) p xs cs =
     (case run (FRx a # k) p xs cs of
        Some r \<Rightarrow> Some r
      | None \<Rightarrow> run (FRx b # k) p xs cs)"
| "run (FRx (Rep lo (Some 0) g a) # k) p xs cs = run k p xs cs"
| "run (FRx (Rep (Suc lo) hi g a) # k) p xs cs =
     run (FRx a # FRx (Rep lo (decr hi) g a) # k) p xs cs"
| "run (FRx (Rep 0 hi True a) # k) p xs cs =
     (case run (FRx a # FChk (length xs) # FRx (Rep 0 (decr hi) True a) # k) p xs cs of
        Some r \<Rightarrow> Some r
      | None \<Rightarrow> run k p xs cs)"
| "run (FRx (Rep 0 hi False a) # k) p xs cs =
     (case run k p xs cs of
        Some r \<Rightarrow> Some r
      | None \<Rightarrow> run (FRx a # FChk (length xs) # FRx (Rep 0 (decr hi) False a) # k) p xs cs)"
| "run (FRx (Grp n a) # k) p xs cs = run (FRx a # FCap n xs # k) p xs cs"
| "run (FRx Bos # k) p xs cs = (if p = None then run k p xs cs else None)"
| "run (FRx Eos # k) p xs cs = (if xs = [] then run k p xs cs else None)"
| "run (FRx Wb # k) p xs cs = (if atWordBoundary p xs then run k p xs cs else None)"
| "run (FChk len # k) p xs cs = (if length xs < len then run k p xs cs else None)"
| "run (FCap n start # k) p xs cs =
     run k p xs ((n, map fst (take (length start - length xs) start)) # cs)"
  by pat_completeness auto
termination
  by (relation "inv_image (less_than <*lex*> less_than)
        (\<lambda>(k, p, xs, cs). (length xs, stackWeight k (length xs)))") auto

text \<open>
  The leftmost match of \<open>r\<close> in the input whose part from index \<open>i\<close> on is the third
  argument: the index where the match starts, the input left after it and the captures.
\<close>

fun findFrom :: "rx \<Rightarrow> char option \<Rightarrow> (char \<times> char) list \<Rightarrow> nat \<Rightarrow>
    (nat \<times> char option \<times> (char \<times> char) list \<times> (nat \<times> string) list) option" where
  "findFrom r p [] i =
     (case run [FRx r] p [] [] of
        None \<Rightarrow> None
      | Some m \<Rightarrow> Some (i, m))"
| "findFrom r p (x # xs) i =
     (case run [FRx r] p (x # xs) [] of
        None \<Rightarrow> findFrom r (Some (fst x)) xs (Suc i)
      | Some m \<Rightarrow> Some (i, m))"

text \<open>\<^verbatim>\<open>r.test(s)\<close> for a regular expression without the g flag; \<open>ic\<close> is the i flag.\<close>

definition rxTest :: "bool \<Rightarrow> rx \<Rightarrow> string \<Rightarrow> bool" where
  "rxTest ic r s = (findFrom r None (prep ic s) 0 \<noteq> None)"

text \<open>
  \<^verbatim>\<open>s.match(r)\<close> for a regular expression without the g flag: the matched text
  (\<^verbatim>\<open>m[0]\<close>) and the captures; \<^verbatim>\<open>m[n]\<close> is \<open>group m n\<close>, \<open>None\<close> when the group took
  no part in the match.
\<close>

definition rxMatch :: "bool \<Rightarrow> rx \<Rightarrow> string \<Rightarrow> (string \<times> (nat \<times> string) list) option" where
  "rxMatch ic r s =
     (case findFrom r None (prep ic s) 0 of
        None \<Rightarrow> None
      | Some (i, p, ys, cs) \<Rightarrow> Some (strSlice s i (length s - length ys), cs))"

definition group :: "string \<times> (nat \<times> string) list \<Rightarrow> nat \<Rightarrow> string option" where
  "group m n = map_of (snd m) n"

text \<open>
  \<^verbatim>\<open>s.replace(r, repl)\<close> for a regular expression without the g flag and a replacement
  text that refers to no group: the leftmost match is replaced.
\<close>

definition rxReplaceFirst :: "bool \<Rightarrow> rx \<Rightarrow> string \<Rightarrow> string \<Rightarrow> string" where
  "rxReplaceFirst ic r repl s =
     (case findFrom r None (prep ic s) 0 of
        None \<Rightarrow> s
      | Some (i, p, ys, cs) \<Rightarrow> take i s @ repl @ map fst ys)"

lemma run_length:
  "run k p xs cs = Some (p', ys, cs') \<Longrightarrow> length ys \<le> length xs"
  apply (induction k p xs cs arbitrary: p' ys cs' rule: run.induct)
  prefer 23
  subgoal by (simp only: run.simps)
  apply (auto split: if_splits option.splits)
  done

text \<open>
  The same with the g flag: the matches are looked for from left to right, each from the
  end of the one before; after an empty match the search moves on by one character, which
  is copied.
\<close>

function replaceLoop :: "rx \<Rightarrow> string \<Rightarrow> char option \<Rightarrow> (char \<times> char) list \<Rightarrow> string" where
  "replaceLoop r repl p [] =
     (case run [FRx r] p [] [] of
        None \<Rightarrow> []
      | Some m \<Rightarrow> repl)"
| "replaceLoop r repl p (x # xs) =
     (case run [FRx r] p (x # xs) [] of
        None \<Rightarrow> fst x # replaceLoop r repl (Some (fst x)) xs
      | Some (p', ys, cs) \<Rightarrow>
          if length ys < length (x # xs) then repl @ replaceLoop r repl p' ys
          else repl @ fst x # replaceLoop r repl (Some (fst x)) xs)"
  by pat_completeness auto
termination
  by (relation "measure (\<lambda>(r, repl, p, xs). length xs)") auto

definition rxReplaceAll :: "bool \<Rightarrow> rx \<Rightarrow> string \<Rightarrow> string \<Rightarrow> string" where
  "rxReplaceAll ic r repl s = replaceLoop r repl None (prep ic s)"

text \<open>
  \<^verbatim>\<open>s.split(r)\<close> for a pattern without groups. \<open>acc\<close> holds the characters since the
  last separator. A match that is empty and stands right after the last separator does
  not split; otherwise the piece before the match is pushed and the search goes on after
  the match.
\<close>

function splitLoop :: "rx \<Rightarrow> char option \<Rightarrow> (char \<times> char) list \<Rightarrow> string \<Rightarrow> string list" where
  "splitLoop r p [] acc = [acc]"
| "splitLoop r p (x # xs) acc =
     (case run [FRx r] p (x # xs) [] of
        None \<Rightarrow> splitLoop r (Some (fst x)) xs (acc @ [fst x])
      | Some (p', ys, cs) \<Rightarrow>
          if acc = [] \<and> length ys = length (x # xs)
          then splitLoop r (Some (fst x)) xs (acc @ [fst x])
          else acc # splitLoop r p' ys [])"
  by pat_completeness auto
termination
  by (relation "inv_image (less_than <*lex*> less_than)
        (\<lambda>(r, p, xs, acc). (length xs, if acc = [] then 0 else (1::nat)))")
     (auto dest: run_length)

definition rxSplit :: "bool \<Rightarrow> rx \<Rightarrow> string \<Rightarrow> string list" where
  "rxSplit ic r s =
     (if s = [] then (case run [FRx r] None [] [] of None \<Rightarrow> [[]] | Some m \<Rightarrow> [])
      else splitLoop r None (prep ic s) [])"

text \<open>Shorthands for writing the patterns.\<close>

definition sp :: rx where
  "sp = Cls False [(CHR 0x09, CHR 0x0D), (CHR 0x20, CHR 0x20), (CHR 0xA0, CHR 0xA0)]"
definition dg :: rx where "dg = Cls False [(CHR ''0'', CHR ''9'')]"
definition wd :: rx where
  "wd = Cls False [(CHR ''a'', CHR ''z''), (CHR ''A'', CHR ''Z''), (CHR ''0'', CHR ''9''), (CHR ''_'', CHR ''_'')]"
definition star :: "rx \<Rightarrow> rx" where "star r = Rep 0 None True r"
definition plus :: "rx \<Rightarrow> rx" where "plus r = Rep 1 None True r"
definition opt :: "rx \<Rightarrow> rx" where "opt r = Rep 0 (Some 1) True r"
definition seqs :: "rx list \<Rightarrow> rx" where "seqs rs = foldr Seq rs (Str [])"
fun alts :: "rx list \<Rightarrow> rx" where
  "alts [] = Cls False []"
| "alts [r] = r"
| "alts (r # rs) = Alt r (alts rs)"

subsection \<open>Evaluation on concrete inputs\<close>

text \<open>
  The rewrite rules with which the definitions are evaluated on concrete texts. They are
  used alone (\<open>simp only\<close>) and with the weak congruence rules of \<open>if\<close> and \<open>case\<close>, so
  that only the branch that is taken is evaluated.
\<close>

named_theorems ev

lemma length_Cons_Suc: "length (x # xs) = Suc (length xs)"
  by simp

lemma length_Nil_0: "length [] = 0"
  by simp

lemmas [ev] =
  simp_thms if_True if_False char.inject char.sel list.map fst_conv snd_conv prod.case
  option.case list.case option.distinct option.inject list.distinct list.inject
  nat.inject nat.distinct length_Cons_Suc length_Nil_0 take_Suc_Cons take_0 take.simps(1)
  drop_Suc_Cons drop_0 drop.simps(1)
  Suc_less_eq zero_less_Suc not_less0 Suc_le_mono le0 not_less_eq_eq [symmetric]
  diff_Suc_Suc diff_zero minus_nat.diff_0
  numeral_eq_Suc pred_numeral_simps BitM.simps One_nat_def
  append.simps filter.simps foldr.simps o_apply id_apply map_of.simps fun_upd_apply
  less_eq_char_simp lexordp_eq_simps less_bool_def le_bool_def
  isUpperAZ_def isLowerAZ_def isUpperLatin_def isLowerLatin_def isDigit_def isWord_def
  lowerChar_def upperChar_def swapCase_def
  toLowerCase_def prep_def strIncludes.simps strSlice_def
  run.simps findFrom.simps rxTest_def rxMatch_def group_def rxReplaceFirst_def
  replaceLoop.simps rxReplaceAll_def splitLoop.simps rxSplit_def
  inRanges.simps isLineTerminator_def atWordBoundary_def decr.simps
  sp_def dg_def wd_def star_def plus_def opt_def seqs_def alts.simps

section \<open>Document type detection\<close>

datatype DocumentTypeKind =
  Contract | Invoice | IdentityDocument | Nda | Sla | PurchaseOrder | Unknown

text \<open>The string each kind stands for.\<close>

fun kindName :: "DocumentTypeKind \<Rightarrow> string" where
  "kindName Contract = ''contract''"
| "kindName Invoice = ''invoice''"
| "kindName IdentityDocument = ''identity_document''"
| "kindName Nda = ''nda''"
| "kindName Sla = ''sla''"
| "kindName PurchaseOrder = ''purchase_order''"
| "kindName Unknown = ''unknown''"

text \<open>The indicator lists of \<^verbatim>\<open>detectDocumentType\<close>; every pattern carries the i flag.\<close>

definition contractIndicators :: "rx list" where
  "contractIndicators =
     [Str ''agreement'',
      Str ''contract'',
      Str ''parties'',
      seqs [Str ''between'', plus sp, Cls False [(CHR ''a'', CHR ''z'')]],
      Str ''whereas'',
      Str ''hereby'',
      seqs [Str ''term'', opt (Str ''s''), star sp, Str ''and'', star sp, Str ''conditions''],
      Str ''termination'',
      Str ''confidentiality'',
      Str ''liability'',
      Str ''indemnif'',
      seqs [Str ''governing'', star sp, Str ''law''],
      Str ''arbitration'',
      seqs [Str ''service'', star sp, Str ''agreement''],
      seqs [Str ''master'', star sp, Str ''agreement''],
      seqs [Str ''this'', plus sp, Str ''agreement''],
      seqs [Str ''party'', plus sp, Str ''of'', plus sp, Str ''the''],
      Str ''witnesseth'',
      Str ''herein'',
      Str ''notwithstanding'']"

definition invoiceIndicators :: "rx list" where
  "invoiceIndicators =
     [seqs [Str ''tax'', star sp, Str ''invoice''],
      seqs [Str ''invoice'', star sp, Str ''number''],
      seqs [Str ''bill'', star sp, Str ''to'', star sp, Str '':''],
      seqs [Str ''gst'', star sp, Str ''invoice''],
      seqs [Str ''vendor'', star sp, Str '':''],
      seqs [Str ''bill'', star sp, Str ''amount''],
      Str ''subtotal'',
      seqs [Str ''grand'', star sp, Str ''total''],
      seqs [Str ''due'', star sp, Str ''date''],
      seqs [Str ''payment'', star sp, Str ''terms'', star Dot, Str ''days''],
      seqs [Str ''net'', star sp, plus dg, star sp, Str ''days''],
      seqs [Str ''invoice'', star sp, Str ''date''],
      seqs [Str ''total'', star sp, Str ''amount''],
      seqs [Str ''balance'', star sp, Str ''due'']]"

definition idIndicators :: "rx list" where
  "idIndicators =
     [seqs [Str ''driver'', opt (Str [CHR 0x27]), opt (Str ''s''), star sp, Str ''licen'', Cls False [(CHR ''s'', CHR ''s''), (CHR ''c'', CHR ''c'')], Str ''e''],
      seqs [Str ''identification'', star sp, alts [Str ''card'', Str ''document'']],
      seqs [Str ''id'', star sp, Str ''card''],
      seqs [Str ''date'', star sp, Str ''of'', star sp, Str ''birth''],
      Str ''expiry'',
      seqs [Str ''customer'', star sp, Str ''number''],
      seqs [Str ''license'', star sp, Str ''number'']]"
definition ndaPattern :: rx where
  "ndaPattern =
     alts [Str ''nda'', seqs [Str ''non'', opt (Cls False [(CHR ''-'', CHR ''-''), (CHR 0x09, CHR 0x0D), (CHR 0x20, CHR 0x20), (CHR 0xA0, CHR 0xA0)]), Str ''disclosure''], seqs [Str ''confidentiality'', star sp, Str ''agreement'']]"

definition ndaSecretPattern :: rx where
  "ndaSecretPattern = alts [Str ''confidential'', Str ''proprietary'', seqs [Str ''trade'', star sp, Str ''secret'']]"

definition slaPattern :: rx where
  "slaPattern =
     alts [Str ''sla'', seqs [Str ''service'', star sp, Str ''level'', star sp, Str ''agreement''], seqs [Str ''service'', star sp, Str ''guarantee''], Str ''uptime'', seqs [Str ''response'', star sp, Str ''time'']]"

definition purchaseOrderPattern :: rx where
  "purchaseOrderPattern =
     alts [seqs [Str ''purchase'', star sp, Str ''order''], seqs [Str ''p'', opt (Str ''.''), Str ''o'', opt (Str ''.'')], seqs [Str ''po'', star sp, Str ''number''], seqs [Str ''order'', star sp, Str ''date''], seqs [Str ''ship'', star sp, Str ''to''], seqs [Str ''vendor'', star sp, Str ''quote'']]"

text \<open>\<^verbatim>\<open>indicators.filter(p => p.test(t)).length\<close>.\<close>

definition indicatorScore :: "rx list \<Rightarrow> string \<Rightarrow> nat" where
  "indicatorScore ps t = length (filter (\<lambda>p. rxTest True p t) ps)"

definition detectDocumentType :: "string \<Rightarrow> DocumentTypeKind" where
  "detectDocumentType rawText =
     (let t = toLowerCase rawText in
      if rawText = [] \<or> length rawText < 20 then Unknown
      else
        let contractScore = indicatorScore contractIndicators t in
        if 3 \<le> contractScore \<or> (strIncludes t ''agreement'' \<and> 2 \<le> contractScore) then Contract
        else if rxTest True ndaPattern t \<and> rxTest True ndaSecretPattern t then Nda
        else if rxTest True slaPattern t then Sla
        else if rxTest True purchaseOrderPattern t then PurchaseOrder
        else
          let invoiceScore = indicatorScore invoiceIndicators t in
          if 3 \<le> invoiceScore then Invoice
          else
            let idScore = indicatorScore idIndicators t in
            if 2 \<le> idScore then IdentityDocument
            else if 1 \<le> contractScore then Contract
            else Unknown)"

lemmas [ev] = indicatorScore_def

text \<open>A text that the detection takes for an identity document.\<close>

definition idCardText :: string where
  "idCardText = ''id card\<newline>dob: 1/2/1990\<newline>expiry: 2030''"

lemma idCardText_lower: "toLowerCase idCardText = idCardText"
  by (simp only: idCardText_def ev cong: if_weak_cong)

lemma idCardText_scores:
  "indicatorScore contractIndicators idCardText = 0"
  "indicatorScore invoiceIndicators idCardText = 0"
  "indicatorScore idIndicators idCardText = 2"
  by (simp only: idCardText_def contractIndicators_def invoiceIndicators_def idIndicators_def ev
        cong: if_weak_cong option.case_cong_weak list.case_cong_weak)+

lemma idCardText_tests:
  "\<not> rxTest True ndaPattern idCardText"
  "\<not> rxTest True slaPattern idCardText"
  "\<not> rxTest True purchaseOrderPattern idCardText"
  by (simp only: idCardText_def ndaPattern_def slaPattern_def purchaseOrderPattern_def ev
        cong: if_weak_cong option.case_cong_weak list.case_cong_weak)+

lemma idCardText_length: "length idCardText = 34"
  by (simp add: idCardText_def)

lemma idCardText_type: "detectDocumentType idCardText = IdentityDocument"
proof -
  have "idCardText \<noteq> []"
    using idCardText_length by auto
  then show ?thesis
    by (simp add: detectDocumentType_def Let_def idCardText_lower idCardText_scores
          idCardText_tests idCardText_length)
qed

text \<open>
  Claim C3. \<^verbatim>\<open>detectDocumentType\<close> returns \<open>unknown\<close> for every text shorter than 20
  characters. Otherwise it returns \<open>contract\<close> whenever at least 3 of its contract
  indicators match the lower-cased text, or that text contains \<open>agreement\<close> and at least 2
  indicators match; otherwise it tests the other types in the order nda, sla,
  purchase_order, invoice (at least 3 invoice indicators), identity_document (at least 2
  identity indicators), then falls back to \<open>contract\<close> if at least one contract indicator
  matched and to \<open>unknown\<close> otherwise.
\<close>

theorem detectDocumentType_cascade:
  "(length rawText < 20 \<longrightarrow> detectDocumentType rawText = Unknown)
   \<and> (20 \<le> length rawText \<longrightarrow>
        (let t = toLowerCase rawText;
             contractScore = indicatorScore contractIndicators t;
             strong = (3 \<le> contractScore \<or> (strIncludes t ''agreement'' \<and> 2 \<le> contractScore))
         in (strong \<longrightarrow> detectDocumentType rawText = Contract)
            \<and> (\<not> strong \<longrightarrow>
                 detectDocumentType rawText =
                   (if rxTest True ndaPattern t \<and> rxTest True ndaSecretPattern t then Nda
                    else if rxTest True slaPattern t then Sla
                    else if rxTest True purchaseOrderPattern t then PurchaseOrder
                    else if 3 \<le> indicatorScore invoiceIndicators t then Invoice
                    else if 2 \<le> indicatorScore idIndicators t then IdentityDocument
                    else if 1 \<le> contractScore then Contract
                    else Unknown))))"
  by (auto simp: detectDocumentType_def Let_def)

theorem detectDocumentType_cascade_witness:
  "length ''too short'' < 20 \<and> detectDocumentType ''too short'' = Unknown
   \<and> 20 \<le> length idCardText
   \<and> \<not> (3 \<le> indicatorScore contractIndicators (toLowerCase idCardText)
          \<or> (strIncludes (toLowerCase idCardText) ''agreement''
              \<and> 2 \<le> indicatorScore contractIndicators (toLowerCase idCardText)))
   \<and> detectDocumentType idCardText = IdentityDocument"
  using detectDocumentType_cascade [of "''too short''"] detectDocumentType_cascade [of idCardText]
  by (simp add: Let_def idCardText_lower idCardText_scores idCardText_tests idCardText_length)

section \<open>Text chunking\<close>

text \<open>
  \<^verbatim>\<open>chunkText\<close> walks over the text with a cursor \<open>start\<close>. Each iteration takes the
  slice of at most \<open>CHUNK_SIZE\<close> characters at the cursor; unless the slice reaches the
  end of the text it is cut after its last space when that space lies beyond index
  \<open>CHUNK_SIZE / 2\<close>, and the cursor moves to \<open>CHUNK_OVERLAP\<close> characters before the end of
  the slice. A slice that is not blank is pushed, trimmed.
\<close>

definition CHUNK_SIZE :: nat where "CHUNK_SIZE = 800"
definition CHUNK_OVERLAP :: nat where "CHUNK_OVERLAP = 100"

record chunk =
  c_text :: string
  c_pageNumber :: nat

definition chunkStep :: "string \<Rightarrow> nat \<Rightarrow> nat \<times> string" where
  "chunkStep t start =
     (let endIx = min (start + CHUNK_SIZE) (length t);
          sl = strSlice t start endIx
      in if endIx < length t then
           (let lastSpace = lastIndexOf sl CHR '' '' in
            if int CHUNK_SIZE div 2 < lastSpace
            then (start + nat lastSpace + 1 - CHUNK_OVERLAP, strSlice sl 0 (nat lastSpace + 1))
            else (endIx - CHUNK_OVERLAP, sl))
         else (length t, sl))"

lemma chunkStep_increases: "start < length t \<Longrightarrow> start < fst (chunkStep t start)"
  by (auto simp: chunkStep_def Let_def CHUNK_SIZE_def CHUNK_OVERLAP_def min_def)

lemma chunkStep_increases':
  "start < length t \<Longrightarrow> chunkStep t start = (start', sl) \<Longrightarrow> length t - start' < length t - start"
  using chunkStep_increases [of start t] by simp

function chunkLoop :: "string \<Rightarrow> nat \<Rightarrow> nat \<Rightarrow> chunk list \<Rightarrow> chunk list" where
  "chunkLoop t pageNumber start chunks =
     (if start < length t then
        (case chunkStep t start of
           (start', sl) \<Rightarrow>
             chunkLoop t pageNumber start'
               (if trim sl \<noteq> [] then chunks @ [\<lparr>c_text = trim sl, c_pageNumber = pageNumber\<rparr>]
                else chunks))
      else chunks)"
  by pat_completeness auto
termination
  by (relation "measure (\<lambda>(t, pageNumber, start, chunks). length t - start)")
     (auto dest: chunkStep_increases' [OF _ sym])

declare chunkLoop.simps [simp del]

definition chunkText :: "string \<Rightarrow> nat \<Rightarrow> chunk list" where
  "chunkText t pageNumber =
     (let chunks = chunkLoop t pageNumber 0 [];
          fallback = trim (strSlice t 0 CHUNK_SIZE)
      in if chunks \<noteq> [] then chunks
         else if fallback \<noteq> [] then [\<lparr>c_text = fallback, c_pageNumber = pageNumber\<rparr>]
         else [])"


subsection \<open>Facts about the string helpers\<close>

lemma lastIndexFrom_range:
  "lastIndexFrom c xs i found = found \<or>
   (i \<le> lastIndexFrom c xs i found \<and> lastIndexFrom c xs i found < i + int (length xs))"
proof (induction xs arbitrary: i found)
  case Nil
  then show ?case by simp
next
  case (Cons x xs)
  show ?case
    using Cons.IH [of "i + 1" "if x = c then i else found"]
    by (auto split: if_splits)
qed

lemma lastIndexOf_less: "lastIndexOf s c < int (length s)"
  using lastIndexFrom_range [of c s 0 "-1"] by (auto simp: lastIndexOf_def)

lemma strSlice_strSlice0: "strSlice (strSlice s a b) 0 k = strSlice s a (a + min k (b - a))"
  by (simp add: strSlice_def min_def)

lemma length_strSlice: "length (strSlice s a b) = min (b - a) (length s - a)"
  by (simp add: strSlice_def)

lemma trimStart_subset: "set (trimStart s) \<subseteq> set s"
  by (simp add: trimStart_def set_dropWhileD subsetI)

lemma dropWhile_all_iff: "(\<forall>c \<in> set (dropWhile P s). P c) \<longleftrightarrow> (\<forall>c \<in> set s. P c)"
  by (induction s) auto

lemma trim_empty_iff: "trim s = [] \<longleftrightarrow> (\<forall>c \<in> set s. isSpace c)"
proof -
  have "trim s = [] \<longleftrightarrow> dropWhile isSpace (rev (dropWhile isSpace s)) = []"
    by (simp add: trim_def trimEnd_def trimStart_def)
  also have "\<dots> \<longleftrightarrow> (\<forall>c \<in> set (dropWhile isSpace s). isSpace c)"
    by (simp del: set_rev) (simp only: set_rev)
  also have "\<dots> \<longleftrightarrow> (\<forall>c \<in> set s. isSpace c)"
    by (rule dropWhile_all_iff)
  finally show ?thesis .
qed

lemma trimEnd_Cons:
  assumes "\<not> isSpace x"
  shows "\<exists>w'. trimEnd (x # w) = x # w'"
proof -
  have "\<exists>zs. dropWhile isSpace (rev w @ [x]) = zs @ [x]"
    using assms by (simp add: dropWhile_append)
  then obtain zs where "dropWhile isSpace (rev w @ [x]) = zs @ [x]" by blast
  then have "trimEnd (x # w) = x # rev zs"
    by (simp add: trimEnd_def)
  then show ?thesis by blast
qed

lemma trimStart_trim: "trimStart (trim s) = trim s"
proof (cases "trimStart s")
  case Nil
  then have "trim s = []" by (simp add: trim_def trimEnd_def)
  then show ?thesis by (simp add: trimStart_def)
next
  case (Cons x w)
  then have "\<not> isSpace x"
    by (metis trimStart_def hd_dropWhile list.distinct(1) list.sel(1))
  then obtain w' where "trimEnd (x # w) = x # w'"
    using trimEnd_Cons by blast
  with Cons \<open>\<not> isSpace x\<close> show ?thesis
    by (simp add: trim_def trimStart_def)
qed

lemma trim_idem: "trim (trim s) = trim s"
proof -
  have "trim (trim s) = trimEnd (trim s)"
    by (simp add: trim_def [of "trim s"] trimStart_trim)
  also have "\<dots> = trim s"
    by (simp add: trim_def trimEnd_def)
  finally show ?thesis .
qed

lemma length_trim: "length (trim s) \<le> length s"
proof -
  have "length (trimEnd u) \<le> length u" for u
    by (simp add: trimEnd_def) (metis length_dropWhile_le length_rev)
  moreover have "length (trimStart s) \<le> length s"
    by (simp add: trimStart_def length_dropWhile_le)
  ultimately show ?thesis
    unfolding trim_def using le_trans by blast
qed

subsection \<open>One iteration\<close>

lemma chunkStep_cover:
  assumes "start < length t" and "chunkStep t start = (start', sl)"
  shows "strSlice t start (start + length sl) = sl \<and> start' \<le> start + length sl
         \<and> length sl \<le> CHUNK_SIZE \<and> start + length sl \<le> length t"
proof -
  define endIx where "endIx = min (start + CHUNK_SIZE) (length t)"
  define sl0 where "sl0 = strSlice t start endIx"
  define lastSpace where "lastSpace = lastIndexOf sl0 CHR '' ''"
  have len0: "length sl0 = endIx - start"
    using assms(1) by (auto simp: sl0_def endIx_def length_strSlice)
  have ls: "lastSpace < int (length sl0)"
    unfolding lastSpace_def by (rule lastIndexOf_less)
  consider (cut) "endIx < length t" "int CHUNK_SIZE div 2 < lastSpace"
    | (whole) "endIx < length t" "\<not> int CHUNK_SIZE div 2 < lastSpace"
    | (final) "\<not> endIx < length t"
    by blast
  then show ?thesis
  proof cases
    case cut
    have e: "start + CHUNK_SIZE < length t" "endIx = start + CHUNK_SIZE"
      using cut(1) by (simp_all add: endIx_def min_def split: if_splits)
    have eq: "start' = start + nat lastSpace + 1 - CHUNK_OVERLAP"
        "sl = strSlice sl0 0 (nat lastSpace + 1)"
      using assms(2) cut(2) e(1)
      by (simp_all add: chunkStep_def Let_def sl0_def lastSpace_def e(2) min_absorb1)
    have k: "nat lastSpace + 1 \<le> endIx - start"
      using ls len0 cut(2) by (simp add: CHUNK_SIZE_def)
    then have "strSlice t start (start + (nat lastSpace + 1)) = sl"
      by (simp add: eq(2) sl0_def strSlice_strSlice0 min_def)
    moreover have "length sl = nat lastSpace + 1"
      using k len0 by (simp add: eq(2) length_strSlice)
    ultimately show ?thesis
      using eq(1) k by (auto simp: endIx_def CHUNK_SIZE_def)
  next
    case whole
    have e: "start + CHUNK_SIZE < length t" "endIx = start + CHUNK_SIZE"
      using whole(1) by (simp_all add: endIx_def min_def split: if_splits)
    have eq: "start' = endIx - CHUNK_OVERLAP" "sl = sl0"
      using assms(2) whole(2) e(1)
      by (simp_all add: chunkStep_def Let_def sl0_def lastSpace_def e(2) min_absorb1)
    show ?thesis
      using len0 assms(1) whole(1) by (auto simp: eq sl0_def endIx_def CHUNK_SIZE_def min_def)
  next
    case final
    have e: "endIx = length t"
      using final by (simp add: endIx_def min_def split: if_splits)
    have eq: "start' = length t" "sl = sl0"
      using assms(2) final by (auto simp add: chunkStep_def Let_def sl0_def endIx_def)
    show ?thesis
      using len0 assms(1) final by (auto simp: eq sl0_def endIx_def CHUNK_SIZE_def min_def)
  qed
qed

subsection \<open>Progress of the cursor\<close>

text \<open>The cursor after one iteration of the loop.\<close>


definition nextStart :: "string \<Rightarrow> nat \<Rightarrow> nat" where
  "nextStart t start = fst (chunkStep t start)"

text \<open>
  Claim C9. \<^verbatim>\<open>chunkText\<close> terminates on every input. In an iteration with
  \<open>start < text.length\<close> the cursor strictly increases: by at least 301 when the slice is
  cut at a word boundary (\<open>lastSpace > CHUNK_SIZE / 2\<close>), by exactly
  \<open>CHUNK_SIZE - CHUNK_OVERLAP = 700\<close> when it is not cut and is not the last one, and to
  \<open>text.length\<close> on the last slice. So the cursor reaches the end of the text after at
  most \<open>text.length - start\<close> iterations. (The definition of \<open>chunkLoop\<close> above was
  accepted with a termination proof, on the same measure.)
\<close>

theorem chunkText_progress:
  assumes "start < length t"
  shows "(let endIx = min (start + CHUNK_SIZE) (length t);
              lastSpace = lastIndexOf (strSlice t start endIx) CHR '' '';
              start' = nextStart t start
          in start < start'
             \<and> (endIx < length t \<and> int CHUNK_SIZE div 2 < lastSpace \<longrightarrow> start + 301 \<le> start')
             \<and> (endIx < length t \<and> \<not> int CHUNK_SIZE div 2 < lastSpace \<longrightarrow>
                  start' = start + (CHUNK_SIZE - CHUNK_OVERLAP) \<and> CHUNK_SIZE - CHUNK_OVERLAP = 700)
             \<and> (\<not> endIx < length t \<longrightarrow> start' = length t))
         \<and> (\<exists>n \<le> length t - start. length t \<le> (nextStart t ^^ n) start)"
proof -
  have step: "s < nextStart t s" if "s < length t" for s
    using chunkStep_increases [OF that] by (simp add: nextStart_def)
  have fin: "\<exists>n \<le> length t - s. length t \<le> (nextStart t ^^ n) s" for s
  proof (induction "length t - s" arbitrary: s rule: less_induct)
    case less
    show ?case
    proof (cases "s < length t")
      case False
      then have "length t \<le> (nextStart t ^^ 0) s" by simp
      then show ?thesis by blast
    next
      case True
      let ?s' = "nextStart t s"
      have lt: "length t - ?s' < length t - s"
        using True step [OF True] by simp
      from less [OF lt] obtain n where n: "n \<le> length t - ?s'" "length t \<le> (nextStart t ^^ n) ?s'"
        by blast
      have "(nextStart t ^^ Suc n) s = (nextStart t ^^ n) ?s'"
        by (simp add: funpow_swap1)
      moreover have "Suc n \<le> length t - s"
        using n(1) lt by simp
      ultimately show ?thesis
        using n(2) by metis
    qed
  qed
  have "start < nextStart t start"
    by (rule step [OF assms])
  then show ?thesis
    using assms fin [of start]
    by (auto simp: Let_def nextStart_def chunkStep_def CHUNK_SIZE_def CHUNK_OVERLAP_def min_def)
qed

theorem chunkText_progress_witness:
  "(0::nat) < length ''hello world'' \<and> nextStart ''hello world'' 0 = length ''hello world''"
  using chunkText_progress [of 0 "''hello world''"]
  by (simp add: Let_def CHUNK_SIZE_def)


subsection \<open>The chunks\<close>

lemma chunkLoop_empty:
  "chunkLoop t pn start acc = [] \<Longrightarrow>
     acc = [] \<and> (\<forall>i. start \<le> i \<and> i < length t \<longrightarrow> isSpace (t ! i))"
proof (induction t pn start acc rule: chunkLoop.induct)
  case (1 t pn start acc)
  show ?case
  proof (cases "start < length t")
    case False
    then show ?thesis using "1.prems" by (subst (asm) chunkLoop.simps) auto
  next
    case True
    obtain start' sl where st: "chunkStep t start = (start', sl)"
      by (cases "chunkStep t start")
    let ?acc' = "if trim sl \<noteq> [] then acc @ [\<lparr>c_text = trim sl, c_pageNumber = pn\<rparr>] else acc"
    have res: "chunkLoop t pn start' ?acc' = []"
      using "1.prems" True st by (subst (asm) chunkLoop.simps) simp
    from "1.IH" [OF True st [symmetric] res]
    have acc': "?acc' = []" and later: "\<forall>i. start' \<le> i \<and> i < length t \<longrightarrow> isSpace (t ! i)"
      by simp_all
    from acc' have sp: "trim sl = []" and acc: "acc = []"
      by (auto split: if_splits)
    from chunkStep_cover [OF True st]
    have cov: "strSlice t start (start + length sl) = sl" "start' \<le> start + length sl"
      "start + length sl \<le> length t"
      by simp_all
    have here: "isSpace (t ! i)" if "start \<le> i" "i < start'" for i
    proof -
      have "i - start < length sl" using that cov(2) by simp
      then have "sl ! (i - start) \<in> set sl" by simp
      moreover have "sl ! (i - start) = t ! i"
      proof -
        have "sl ! (i - start) = take (length sl) (drop start t) ! (i - start)"
          using cov(1) [symmetric] by (simp add: strSlice_def)
        also have "\<dots> = drop start t ! (i - start)"
          using \<open>i - start < length sl\<close> by simp
        also have "\<dots> = t ! (start + (i - start))"
          using True by simp
        finally show ?thesis using that(1) by simp
      qed
      ultimately show ?thesis
        using sp by (auto simp: trim_empty_iff)
    qed
    show ?thesis
    proof (intro conjI allI impI)
      show "acc = []" by (rule acc)
    next
      fix i assume i: "start \<le> i \<and> i < length t"
      show "isSpace (t ! i)"
      proof (cases "i < start'")
        case True
        with i show ?thesis by (simp add: here)
      next
        case False
        with i later show ?thesis by simp
      qed
    qed
  qed
qed

lemma lastIndexFrom_absent: "c \<notin> set ys \<Longrightarrow> lastIndexFrom c ys i found = found"
  by (induction ys arbitrary: i found) auto

lemma lastIndexFrom_last:
  "c \<notin> set ys \<Longrightarrow> lastIndexFrom c (xs @ c # ys) i found = i + int (length xs)"
  by (induction xs arbitrary: i found) (auto simp: lastIndexFrom_absent)

lemma lastIndexOf_last: "c \<notin> set ys \<Longrightarrow> lastIndexOf (xs @ c # ys) c = int (length xs)"
  by (simp add: lastIndexOf_def lastIndexFrom_last)

lemma trim_unchanged: "s \<noteq> [] \<Longrightarrow> \<not> isSpace (hd s) \<Longrightarrow> \<not> isSpace (last s) \<Longrightarrow> trim s = s"
proof -
  assume s: "s \<noteq> []" and h: "\<not> isSpace (hd s)" and l: "\<not> isSpace (last s)"
  have 1: "trimStart s = s"
    using s h by (cases s) (simp_all add: trimStart_def)
  have "dropWhile isSpace (rev s) = rev s"
    using s l by (cases "rev s") (simp_all add: last_rev [symmetric] hd_rev)
  then show ?thesis
    by (simp add: trim_def 1 trimEnd_def)
qed

text \<open>
  The slices that the loop of \<^verbatim>\<open>chunkText\<close> takes from a cursor on: each with the cursor
  at which it starts.
\<close>

function chunkSlices :: "string \<Rightarrow> nat \<Rightarrow> (nat \<times> string) list" where
  "chunkSlices t start =
     (if start < length t
      then (start, snd (chunkStep t start)) # chunkSlices t (nextStart t start)
      else [])"
  by pat_completeness auto
termination
  by (relation "measure (\<lambda>(t, start). length t - start)")
     (use chunkStep_increases in \<open>auto simp: nextStart_def intro: diff_less_mono2\<close>)

declare chunkSlices.simps [simp del]

lemma chunkLoop_chunkSlices:
  "chunkLoop t pn start acc =
     acc @ map (\<lambda>(s, sl). \<lparr>c_text = trim sl, c_pageNumber = pn\<rparr>)
             (filter (\<lambda>(s, sl). trim sl \<noteq> []) (chunkSlices t start))"
proof (induction t pn start acc rule: chunkLoop.induct)
  case (1 t pn start acc)
  show ?case
  proof (cases "start < length t")
    case False
    then show ?thesis
      by (subst chunkLoop.simps, subst chunkSlices.simps) simp
  next
    case True
    obtain start' sl where st: "chunkStep t start = (start', sl)"
      by (cases "chunkStep t start")
    show ?thesis
      using "1.IH" [OF True st [symmetric]] True st
      by (subst chunkLoop.simps, subst chunkSlices.simps) (simp add: nextStart_def)
  qed
qed

lemma chunkStep_overlap:
  assumes "start < length t" "nextStart t start < length t"
  shows "nextStart t start + CHUNK_OVERLAP = start + length (snd (chunkStep t start))"
proof -
  have nf: "min (start + CHUNK_SIZE) (length t) < length t"
    using assms by (auto simp: nextStart_def chunkStep_def Let_def split: if_splits)
  then have lt: "start + CHUNK_SIZE < length t"
    by (simp add: min_def split: if_splits)
  let ?sl0 = "strSlice t start (start + CHUNK_SIZE)"
  have len0: "length ?sl0 = CHUNK_SIZE"
    using lt by (simp add: length_strSlice)
  have ls: "lastIndexOf ?sl0 CHR '' '' < int CHUNK_SIZE"
    using lastIndexOf_less [of ?sl0 "CHR '' ''"] len0 by simp
  show ?thesis
  proof (cases "int CHUNK_SIZE div 2 < lastIndexOf ?sl0 CHR '' ''")
    case True
    then have "chunkStep t start =
        (start + nat (lastIndexOf ?sl0 CHR '' '') + 1 - CHUNK_OVERLAP,
         strSlice ?sl0 0 (nat (lastIndexOf ?sl0 CHR '' '') + 1))"
      using lt by (simp add: chunkStep_def Let_def min_absorb1)
    moreover have "length (strSlice ?sl0 0 (nat (lastIndexOf ?sl0 CHR '' '') + 1))
        = nat (lastIndexOf ?sl0 CHR '' '') + 1"
      using ls True len0 by (simp add: length_strSlice [of ?sl0])
    moreover have "CHUNK_OVERLAP \<le> nat (lastIndexOf ?sl0 CHR '' '') + 1"
      using True by (simp add: CHUNK_SIZE_def CHUNK_OVERLAP_def)
    ultimately show ?thesis
      by (simp add: nextStart_def)
  next
    case False
    then have "chunkStep t start = (start + CHUNK_SIZE - CHUNK_OVERLAP, ?sl0)"
      using lt by (simp add: chunkStep_def Let_def min_absorb1)
    then show ?thesis
      using len0 by (simp add: nextStart_def CHUNK_SIZE_def CHUNK_OVERLAP_def)
  qed
qed

lemma chunkStep_final:
  assumes "start < length t" "\<not> nextStart t start < length t"
  shows "start + length (snd (chunkStep t start)) = length t"
proof -
  have "\<not> min (start + CHUNK_SIZE) (length t) < length t"
  proof
    assume nf: "min (start + CHUNK_SIZE) (length t) < length t"
    then have lt: "start + CHUNK_SIZE < length t"
      by (simp add: min_def split: if_splits)
    let ?sl0 = "strSlice t start (start + CHUNK_SIZE)"
    have "length ?sl0 = CHUNK_SIZE"
      using lt by (simp add: length_strSlice)
    then have "lastIndexOf ?sl0 CHR '' '' < int CHUNK_SIZE"
      using lastIndexOf_less [of ?sl0 "CHR '' ''"] by simp
    then have "nextStart t start < length t"
      using lt
      by (auto simp: nextStart_def chunkStep_def Let_def min_absorb1 CHUNK_SIZE_def
            CHUNK_OVERLAP_def)
    with assms(2) show False by simp
  qed
  then show ?thesis
    using assms(1) by (simp add: chunkStep_def Let_def length_strSlice min_def split: if_splits)
qed

lemma chunkStep_nonempty:
  assumes "start < length t"
  shows "0 < length (snd (chunkStep t start))"
proof -
  obtain start' sl where st: "chunkStep t start = (start', sl)"
    by (cases "chunkStep t start")
  from chunkStep_cover [OF assms st] chunkStep_increases [OF assms] st
  show ?thesis by (cases sl) auto
qed

lemma chunkSlices_hd: "start < length t \<Longrightarrow> fst (hd (chunkSlices t start)) = start"
  by (subst chunkSlices.simps) simp

lemma chunkSlices_empty_iff: "chunkSlices t start = [] \<longleftrightarrow> \<not> start < length t"
  by (subst chunkSlices.simps) simp

lemma chunkSlices_windows:
  "(s, sl) \<in> set (chunkSlices t start) \<Longrightarrow>
     sl = strSlice t s (s + length sl) \<and> 0 < length sl \<and> length sl \<le> CHUNK_SIZE
     \<and> s + length sl \<le> length t"
proof (induction t start rule: chunkSlices.induct)
  case (1 t start)
  show ?case
  proof (cases "start < length t")
    case False
    then show ?thesis using "1.prems" by (subst (asm) chunkSlices.simps) simp
  next
    case True
    obtain start' sl0 where st: "chunkStep t start = (start', sl0)"
      by (cases "chunkStep t start")
    from "1.prems" True
    consider "(s, sl) = (start, sl0)" | "(s, sl) \<in> set (chunkSlices t (nextStart t start))"
      by (subst (asm) chunkSlices.simps) (auto simp: st)
    then show ?thesis
    proof cases
      case 1
      then show ?thesis
        using chunkStep_cover [OF True st] chunkStep_nonempty [OF True] st by simp
    next
      case 2
      then show ?thesis by (rule "1.IH" [OF True])
    qed
  qed
qed

lemma chunkSlices_chained:
  "successively (\<lambda>(s, sl) (s', sl'). s' + CHUNK_OVERLAP = s + length sl) (chunkSlices t start)
   \<and> (start < length t \<longrightarrow>
        fst (last (chunkSlices t start)) + length (snd (last (chunkSlices t start))) = length t)"
proof (induction t start rule: chunkSlices.induct)
  case (1 t start)
  show ?case
  proof (cases "start < length t")
    case False
    then show ?thesis by (subst chunkSlices.simps) simp
  next
    case True
    let ?n = "nextStart t start"
    have unfold: "chunkSlices t start = (start, snd (chunkStep t start)) # chunkSlices t ?n"
      using True by (subst chunkSlices.simps) simp
    show ?thesis
    proof (cases "?n < length t")
      case False
      then have "chunkSlices t ?n = []"
        by (simp add: chunkSlices_empty_iff)
      then show ?thesis
        using unfold chunkStep_final [OF True False] by simp
    next
      case n: True
      then have ne: "chunkSlices t ?n \<noteq> []"
        by (simp add: chunkSlices_empty_iff)
      have "fst (hd (chunkSlices t ?n)) + CHUNK_OVERLAP = start + length (snd (chunkStep t start))"
        using chunkSlices_hd [OF n] chunkStep_overlap [OF True n] by simp
      then show ?thesis
        using "1.IH" [OF True] n ne unfold
        by (simp add: successively_Cons case_prod_beta)
    qed
  qed
qed

lemma chunkLoop_step:
  "start < length t \<Longrightarrow> chunkStep t start = (start', sl) \<Longrightarrow>
   chunkLoop t pn start acc =
     chunkLoop t pn start'
       (if trim sl \<noteq> [] then acc @ [\<lparr>c_text = trim sl, c_pageNumber = pn\<rparr>] else acc)"
  by (subst chunkLoop.simps) simp

lemma chunkLoop_done: "\<not> start < length t \<Longrightarrow> chunkLoop t pn start acc = acc"
  by (subst chunkLoop.simps) simp

lemma chunkText_chunkSlices:
  "chunkText t pn =
     map (\<lambda>(s, sl). \<lparr>c_text = trim sl, c_pageNumber = pn\<rparr>)
       (filter (\<lambda>(s, sl). trim sl \<noteq> []) (chunkSlices t 0))"
proof (cases "chunkLoop t pn 0 [] = []")
  case False
  then show ?thesis
    using chunkLoop_chunkSlices [of t pn 0 "[]"] by (simp add: chunkText_def Let_def)
next
  case True
  from chunkLoop_empty [OF True] have "\<forall>c \<in> set t. isSpace c"
    by (auto simp: in_set_conv_nth)
  then have "\<forall>c \<in> set (strSlice t 0 CHUNK_SIZE). isSpace c"
    by (auto simp: strSlice_def dest: in_set_takeD)
  then have "trim (strSlice t 0 CHUNK_SIZE) = []"
    by (simp add: trim_empty_iff)
  then show ?thesis
    using True chunkLoop_chunkSlices [of t pn 0 "[]"] by (simp add: chunkText_def Let_def)
qed

text \<open>
  A text of 1000 characters with one space, at index 401: 401 letters, the space, and 598
  letters.
\<close>

definition cutText :: string where
  "cutText = replicate 401 CHR ''a'' @ CHR '' '' # replicate 598 CHR ''b''"

lemma cutText_steps:
  "chunkStep cutText 0 = (302, replicate 401 CHR ''a'' @ '' '')"
  "chunkStep cutText 302 = (1000, replicate 99 CHR ''a'' @ CHR '' '' # replicate 598 CHR ''b'')"
proof -
  have sl: "strSlice cutText 0 800 = replicate 401 CHR ''a'' @ CHR '' '' # replicate 398 CHR ''b''"
    by (simp add: cutText_def strSlice_def)
  have "lastIndexOf (replicate 401 CHR ''a'' @ CHR '' '' # replicate 398 CHR ''b'') CHR '' '' = 401"
    by (subst lastIndexOf_last) simp_all
  then show "chunkStep cutText 0 = (302, replicate 401 CHR ''a'' @ '' '')"
    using sl
    by (simp add: chunkStep_def Let_def CHUNK_SIZE_def CHUNK_OVERLAP_def cutText_def strSlice_def)
  show "chunkStep cutText 302 = (1000, replicate 99 CHR ''a'' @ CHR '' '' # replicate 598 CHR ''b'')"
  proof -
    have "drop 302 (replicate 401 CHR ''a'') = replicate 99 CHR ''a''"
      by simp
    then show ?thesis
      by (simp add: chunkStep_def Let_def CHUNK_SIZE_def cutText_def strSlice_def)
  qed
qed

lemma cutText_trims:
  "trim (replicate 401 CHR ''a'' @ '' '') = replicate 401 CHR ''a''"
  "trim (replicate 99 CHR ''a'' @ CHR '' '' # replicate 598 CHR ''b'')
     = replicate 99 CHR ''a'' @ CHR '' '' # replicate 598 CHR ''b''"
proof -
  have a: "\<not> isSpace CHR ''a''" and b: "\<not> isSpace CHR ''b''" and s: "isSpace CHR '' ''"
    by (simp_all add: isSpace_def)
  have "(401::nat) = Suc 400"
    by simp
  then have r: "replicate 401 CHR ''a'' = CHR ''a'' # replicate 400 CHR ''a''"
    by (simp only: replicate_Suc)
  have "trimStart (replicate 401 CHR ''a'' @ '' '') = replicate 401 CHR ''a'' @ '' ''"
    by (simp add: r trimStart_def a del: replicate.simps replicate_Suc)
  moreover have "trimEnd (replicate 401 CHR ''a'' @ '' '') = replicate 401 CHR ''a''"
    by (simp add: trimEnd_def s r a del: replicate.simps replicate_Suc)
  ultimately show "trim (replicate 401 CHR ''a'' @ '' '') = replicate 401 CHR ''a''"
    by (simp add: trim_def)
  have "(99::nat) = Suc 98"
    by simp
  then have r99: "replicate 99 CHR ''a'' = CHR ''a'' # replicate 98 CHR ''a''"
    by (simp only: replicate_Suc)
  show "trim (replicate 99 CHR ''a'' @ CHR '' '' # replicate 598 CHR ''b'')
     = replicate 99 CHR ''a'' @ CHR '' '' # replicate 598 CHR ''b''"
    by (rule trim_unchanged) (simp_all add: a b r99 del: replicate.simps replicate_Suc)
qed

lemma chunkText_cutText:
  "chunkText cutText 2 =
     [\<lparr>c_text = replicate 401 CHR ''a'', c_pageNumber = 2\<rparr>,
      \<lparr>c_text = replicate 99 CHR ''a'' @ CHR '' '' # replicate 598 CHR ''b'', c_pageNumber = 2\<rparr>]"
proof -
  have len: "length cutText = 1000"
    by (simp add: cutText_def)
  have ne: "replicate 401 CHR ''a'' \<noteq> []"
    by simp
  have "chunkLoop cutText 2 0 [] =
     [\<lparr>c_text = replicate 401 CHR ''a'', c_pageNumber = 2\<rparr>,
      \<lparr>c_text = replicate 99 CHR ''a'' @ CHR '' '' # replicate 598 CHR ''b'', c_pageNumber = 2\<rparr>]"
    using ne
    by (simp add: chunkLoop_step [of 0 cutText 302 "replicate 401 CHR ''a'' @ '' ''"]
          chunkLoop_step [of 302 cutText 1000
            "replicate 99 CHR ''a'' @ CHR '' '' # replicate 598 CHR ''b''"]
          chunkLoop_done len cutText_steps cutText_trims del: replicate.simps replicate_Suc)
  then show ?thesis
    by (simp add: chunkText_def Let_def del: replicate.simps replicate_Suc)
qed

text \<open>
  Claim C6, as stated, makes every chunk a slice of \<open>CHUNK_SIZE = 800\<close> characters, and
  makes consecutive chunks overlap by 100 characters. It fails: the text above yields two
  chunks, of 401 and of 698 characters. The first is not the last chunk of its text: its slice
  is cut after the space, and the trimming takes the space away, so the two chunks have 99
  characters in common.
\<close>

theorem chunkText_size_counterexample:
  "chunkText cutText 2 =
     [\<lparr>c_text = replicate 401 CHR ''a'', c_pageNumber = 2\<rparr>,
      \<lparr>c_text = replicate 99 CHR ''a'' @ CHR '' '' # replicate 598 CHR ''b'', c_pageNumber = 2\<rparr>]
   \<and> length (replicate 401 CHR ''a'') = 401
   \<and> length (replicate 99 CHR ''a'' @ CHR '' '' # replicate 598 CHR ''b'') = 698
   \<and> CHUNK_SIZE = 800"
  by (simp add: chunkText_cutText CHUNK_SIZE_def del: replicate.simps replicate_Suc)

text \<open>
  Claim C6, amended. For every text and page number, the chunks that \<^verbatim>\<open>chunkText\<close>
  returns are, in order, the trimmed forms of the slices of a walk over the text, without
  the slices that are blank: each slice is a piece of the text of at least one and at most
  \<open>CHUNK_SIZE = 800\<close> characters, the first slice starts at index 0, each next slice starts
  \<open>CHUNK_OVERLAP = 100\<close> characters before the end of the slice before it, and the last
  slice ends with the text. So every chunk carries the page number, has at most 800
  characters, and is non-empty after trimming; and whenever the text contains a character
  that is not white space, at least one chunk is returned.
\<close>

theorem chunkText_chunks:
  "(\<exists>slices.
      chunkText t pn =
        map (\<lambda>(s, sl). \<lparr>c_text = trim sl, c_pageNumber = pn\<rparr>)
          (filter (\<lambda>(s, sl). trim sl \<noteq> []) slices)
      \<and> (\<forall>(s, sl) \<in> set slices.
            sl = strSlice t s (s + length sl) \<and> 0 < length sl \<and> length sl \<le> CHUNK_SIZE
            \<and> s + length sl \<le> length t)
      \<and> successively (\<lambda>(s, sl) (s', sl'). s' + CHUNK_OVERLAP = s + length sl) slices
      \<and> (t \<noteq> [] \<longrightarrow>
            slices \<noteq> [] \<and> fst (hd slices) = 0
            \<and> fst (last slices) + length (snd (last slices)) = length t))
   \<and> (\<forall>c \<in> set (chunkText t pn).
         c_pageNumber c = pn \<and> length (c_text c) \<le> CHUNK_SIZE
         \<and> trim (c_text c) = c_text c \<and> c_text c \<noteq> [])
   \<and> ((\<exists>x \<in> set t. \<not> isSpace x) \<longrightarrow> chunkText t pn \<noteq> [])"
proof (intro conjI)
  let ?slices = "chunkSlices t 0"
  have w: "\<forall>(s, sl) \<in> set ?slices.
            sl = strSlice t s (s + length sl) \<and> 0 < length sl \<and> length sl \<le> CHUNK_SIZE
            \<and> s + length sl \<le> length t"
    using chunkSlices_windows [of _ _ t 0] by blast
  have e: "t \<noteq> [] \<longrightarrow>
            ?slices \<noteq> [] \<and> fst (hd ?slices) = 0
            \<and> fst (last ?slices) + length (snd (last ?slices)) = length t"
    using chunkSlices_chained [of t 0] chunkSlices_hd [of 0 t] chunkSlices_empty_iff [of t 0]
    by simp
  show "\<exists>slices.
      chunkText t pn =
        map (\<lambda>(s, sl). \<lparr>c_text = trim sl, c_pageNumber = pn\<rparr>)
          (filter (\<lambda>(s, sl). trim sl \<noteq> []) slices)
      \<and> (\<forall>(s, sl) \<in> set slices.
            sl = strSlice t s (s + length sl) \<and> 0 < length sl \<and> length sl \<le> CHUNK_SIZE
            \<and> s + length sl \<le> length t)
      \<and> successively (\<lambda>(s, sl) (s', sl'). s' + CHUNK_OVERLAP = s + length sl) slices
      \<and> (t \<noteq> [] \<longrightarrow>
            slices \<noteq> [] \<and> fst (hd slices) = 0
            \<and> fst (last slices) + length (snd (last slices)) = length t)"
    using chunkText_chunkSlices [of t pn] w chunkSlices_chained [of t 0] e
    by (intro exI [of _ ?slices]) blast
  show "\<forall>c \<in> set (chunkText t pn).
         c_pageNumber c = pn \<and> length (c_text c) \<le> CHUNK_SIZE
         \<and> trim (c_text c) = c_text c \<and> c_text c \<noteq> []"
  proof
    fix c assume "c \<in> set (chunkText t pn)"
    then obtain s sl where m: "(s, sl) \<in> set ?slices" and ne: "trim sl \<noteq> []"
      and c: "c = \<lparr>c_text = trim sl, c_pageNumber = pn\<rparr>"
      by (auto simp: chunkText_chunkSlices)
    have "length (trim sl) \<le> length sl"
      by (rule length_trim)
    also have "\<dots> \<le> CHUNK_SIZE"
      using w m by auto
    finally show "c_pageNumber c = pn \<and> length (c_text c) \<le> CHUNK_SIZE
         \<and> trim (c_text c) = c_text c \<and> c_text c \<noteq> []"
      using ne by (simp add: c trim_idem)
  qed
  show "(\<exists>x \<in> set t. \<not> isSpace x) \<longrightarrow> chunkText t pn \<noteq> []"
  proof
    assume "\<exists>x \<in> set t. \<not> isSpace x"
    then obtain i where i: "i < length t" "\<not> isSpace (t ! i)"
      by (metis in_set_conv_nth)
    have "chunkLoop t pn 0 [] \<noteq> []"
      using chunkLoop_empty [of t pn 0 "[]"] i by auto
    then show "chunkText t pn \<noteq> []"
      by (simp add: chunkText_def Let_def)
  qed
qed

theorem chunkText_chunks_witness:
  "\<lparr>c_text = replicate 401 CHR ''a'', c_pageNumber = 2\<rparr> \<in> set (chunkText cutText 2)
   \<and> length (replicate 401 CHR ''a'') \<le> CHUNK_SIZE
   \<and> trim (replicate 401 CHR ''a'') = replicate 401 CHR ''a''
   \<and> cutText \<noteq> []
   \<and> (\<exists>x \<in> set cutText. \<not> isSpace x)
   \<and> chunkText cutText 2 \<noteq> []
   \<and> (\<exists>slices. chunkText cutText 2 =
                   map (\<lambda>(s, sl). \<lparr>c_text = trim sl, c_pageNumber = 2\<rparr>)
                     (filter (\<lambda>(s, sl). trim sl \<noteq> []) slices)
                 \<and> slices \<noteq> [] \<and> fst (hd slices) = 0
                 \<and> fst (last slices) + length (snd (last slices)) = length cutText)"
proof -
  have m: "\<lparr>c_text = replicate 401 CHR ''a'', c_pageNumber = 2\<rparr> \<in> set (chunkText cutText 2)"
    by (simp add: chunkText_cutText del: replicate.simps replicate_Suc)
  have ne: "cutText \<noteq> []"
    by (simp add: cutText_def)
  have ns: "\<exists>x \<in> set cutText. \<not> isSpace x"
    by (auto simp add: cutText_def isSpace_def)
  note claim = chunkText_chunks [of cutText 2]
  from claim m have "length (c_text \<lparr>c_text = replicate 401 CHR ''a'', c_pageNumber = 2\<rparr>) \<le> CHUNK_SIZE
      \<and> trim (c_text \<lparr>c_text = replicate 401 CHR ''a'', c_pageNumber = 2\<rparr>)
          = c_text \<lparr>c_text = replicate 401 CHR ''a'', c_pageNumber = 2\<rparr>"
    by blast
  then have c: "length (replicate 401 CHR ''a'') \<le> CHUNK_SIZE
      \<and> trim (replicate 401 CHR ''a'') = replicate 401 CHR ''a''"
    by (simp del: replicate.simps replicate_Suc)
  from claim ns have r: "chunkText cutText 2 \<noteq> []"
    by blast
  from claim ne have "\<exists>slices. chunkText cutText 2 =
                   map (\<lambda>(s, sl). \<lparr>c_text = trim sl, c_pageNumber = 2\<rparr>)
                     (filter (\<lambda>(s, sl). trim sl \<noteq> []) slices)
                 \<and> slices \<noteq> [] \<and> fst (hd slices) = 0
                 \<and> fst (last slices) + length (snd (last slices)) = length cutText"
    by blast
  with m c ne ns r show ?thesis
    by blast
qed

section \<open>Risk flags and their deduplication\<close>

type_synonym objectId = nat

datatype Severity = Low | Medium | High | Critical

record riskFlag =
  rf_documentId :: objectId
  rf_clauseReference :: string
  rf_riskType :: string
  rf_severity :: Severity
  rf_explanation :: string
  rf_suggestedClause :: "string option"
  rf_pageNumber :: "nat option"
  rf_regulatoryMapping :: "string list option"

text \<open>
  The deduplication of the pipeline: \<^verbatim>\<open>normalizeKey\<close>, the key of a flag, and the filter
  over the flags with the set \<^verbatim>\<open>seenRiskKey\<close> of the keys met so far.
\<close>

definition normalizeKey :: "string \<Rightarrow> string" where
  "normalizeKey str = strSlice (filter (\<lambda>c. isLowerAZ c \<or> isDigit c) (toLowerCase str)) 0 50"

definition riskKey :: "riskFlag \<Rightarrow> string" where
  "riskKey f =
     (let normalizedRef = normalizeKey (rf_clauseReference f);
          normalizedExplanation = normalizeKey (strSlice (rf_explanation f) 0 50)
      in rf_riskType f @ '':'' @ normalizedRef @ '':'' @ normalizedExplanation)"

fun dedupLoop :: "string list \<Rightarrow> riskFlag list \<Rightarrow> riskFlag list" where
  "dedupLoop seenRiskKey [] = []"
| "dedupLoop seenRiskKey (f # fs) =
     (if riskKey f \<in> set seenRiskKey then dedupLoop seenRiskKey fs
      else f # dedupLoop (riskKey f # seenRiskKey) fs)"

definition uniqueRiskFlags :: "riskFlag list \<Rightarrow> riskFlag list" where
  "uniqueRiskFlags riskFlags = dedupLoop [] riskFlags"

text \<open>
  The key as the triple of its three parts: the risk type, the clause reference reduced to
  its first 50 lower-case alphanumeric characters, and the first 50 characters of the
  explanation reduced in the same way.
\<close>

definition keyTriple :: "riskFlag \<Rightarrow> string \<times> string \<times> string" where
  "keyTriple f =
     (rf_riskType f,
      take 50 (filter (\<lambda>c. isLowerAZ c \<or> isDigit c) (toLowerCase (rf_clauseReference f))),
      take 50 (filter (\<lambda>c. isLowerAZ c \<or> isDigit c) (toLowerCase (take 50 (rf_explanation f)))))"

text \<open>
  Keeping, of a list, the first element for each key: the head is kept, the later elements
  with the key of the head are dropped, and so on with what remains.
\<close>

function keepFirst :: "('a \<Rightarrow> 'k) \<Rightarrow> 'a list \<Rightarrow> 'a list" where
  "keepFirst key [] = []"
| "keepFirst key (x # xs) = x # keepFirst key (filter (\<lambda>y. key y \<noteq> key x) xs)"
  by pat_completeness auto
termination
  by (relation "measure (\<lambda>(key, xs). length xs)") (auto simp: less_Suc_eq_le)

lemma normalizeKey_no_colon: "CHR '':'' \<notin> set (normalizeKey s)"
  by (auto simp: normalizeKey_def strSlice_def isLowerAZ_def isDigit_def dest!: in_set_takeD)

lemma normalizeKey_eq: "normalizeKey s = take 50 (filter (\<lambda>c. isLowerAZ c \<or> isDigit c) (toLowerCase s))"
  by (simp add: normalizeKey_def strSlice_def)

lemma split_at_first:
  "x \<notin> set p \<Longrightarrow> x \<notin> set p' \<Longrightarrow> p @ x # s = p' @ x # s' \<Longrightarrow> p = p' \<and> s = s'"
proof (induction p arbitrary: p')
  case Nil
  then show ?case by (cases p') auto
next
  case (Cons a p)
  then show ?case by (cases p') auto
qed

lemma split_at_last:
  assumes "x \<notin> set c" "x \<notin> set c'" "a @ x # c = a' @ x # c'"
  shows "a = a' \<and> c = c'"
proof -
  have "rev c @ x # rev a = rev c' @ x # rev a'"
    using arg_cong [OF assms(3), of rev] by simp
  then have "rev c = rev c' \<and> rev a = rev a'"
    using assms(1,2) by (intro split_at_first) simp_all
  then show ?thesis by simp
qed

lemma riskKey_eq_iff: "riskKey f = riskKey g \<longleftrightarrow> keyTriple f = keyTriple g"
proof
  assume "keyTriple f = keyTriple g"
  then show "riskKey f = riskKey g"
    by (simp add: keyTriple_def riskKey_def Let_def normalizeKey_eq strSlice_def)
next
  let ?nr = "\<lambda>f. normalizeKey (rf_clauseReference f)"
  let ?ne = "\<lambda>f. normalizeKey (strSlice (rf_explanation f) 0 50)"
  assume "riskKey f = riskKey g"
  then have eq: "(rf_riskType f @ CHR '':'' # ?nr f) @ CHR '':'' # ?ne f
      = (rf_riskType g @ CHR '':'' # ?nr g) @ CHR '':'' # ?ne g"
    by (simp add: riskKey_def Let_def)
  have 1: "rf_riskType f @ CHR '':'' # ?nr f = rf_riskType g @ CHR '':'' # ?nr g" and 2: "?ne f = ?ne g"
    using split_at_last [OF normalizeKey_no_colon normalizeKey_no_colon eq] by simp_all
  have "rf_riskType f = rf_riskType g \<and> ?nr f = ?nr g"
    using split_at_last [OF normalizeKey_no_colon normalizeKey_no_colon 1] .
  with 2 show "keyTriple f = keyTriple g"
    by (simp add: keyTriple_def normalizeKey_eq strSlice_def)
qed

lemma dedupLoop_seen:
  "set s' = insert k (set s) \<Longrightarrow> dedupLoop s' fs = dedupLoop s (filter (\<lambda>y. riskKey y \<noteq> k) fs)"
proof (induction fs arbitrary: s s')
  case Nil
  then show ?case by simp
next
  case (Cons a fs)
  have "set (riskKey a # s') = insert k (set (riskKey a # s))"
    using Cons.prems by auto
  from Cons.IH [OF this] Cons.IH [OF Cons.prems] Cons.prems
  show ?case by auto
qed

lemma uniqueRiskFlags_keepFirst: "uniqueRiskFlags fs = keepFirst riskKey fs"
  unfolding uniqueRiskFlags_def
proof (induction riskKey fs rule: keepFirst.induct)
  case 1
  then show ?case by simp
next
  case (2 x xs)
  have "dedupLoop [] (x # xs) = x # dedupLoop [riskKey x] xs" by simp
  also have "\<dots> = x # dedupLoop [] (filter (\<lambda>y. riskKey y \<noteq> riskKey x) xs)"
    by (simp add: dedupLoop_seen [of "[riskKey x]" "riskKey x" "[]"])
  finally show ?case using 2 by simp
qed

lemma keepFirst_cong:
  "(\<And>x y. key x = key y \<longleftrightarrow> key' x = key' y) \<Longrightarrow> keepFirst key xs = keepFirst key' xs"
proof (induction key xs rule: keepFirst.induct)
  case (1 key)
  then show ?case by simp
next
  case (2 key x xs)
  have "filter (\<lambda>y. key y \<noteq> key x) xs = filter (\<lambda>y. key' y \<noteq> key' x) xs"
    using "2.prems" by simp
  then show ?case using 2 by simp
qed

lemma keepFirst_set: "set (keepFirst key xs) \<subseteq> set xs"
  by (induction key xs rule: keepFirst.induct) auto

lemma keepFirst_subseq: "subseq (keepFirst key xs) xs"
proof (induction key xs rule: keepFirst.induct)
  case (1 key)
  then show ?case by simp
next
  case (2 key x xs)
  have "subseq (keepFirst key (filter (\<lambda>y. key y \<noteq> key x) xs)) xs"
    using "2.IH" subseq_filter_left subseq_order.order_trans by blast
  then show ?case by simp
qed

lemma keepFirst_distinct: "distinct (map key (keepFirst key xs))"
proof (induction key xs rule: keepFirst.induct)
  case (1 key)
  then show ?case by simp
next
  case (2 key x xs)
  have "key x \<notin> key ` set (keepFirst key (filter (\<lambda>y. key y \<noteq> key x) xs))"
    using keepFirst_set [of key "filter (\<lambda>y. key y \<noteq> key x) xs"] by auto
  then show ?case using 2 by simp
qed

lemma keepFirst_keys: "key ` set (keepFirst key xs) = key ` set xs"
proof (induction key xs rule: keepFirst.induct)
  case (1 key)
  then show ?case by simp
next
  case (2 key x xs)
  then show ?case by auto
qed

lemma find_filter:
  "(\<And>y. Q y \<Longrightarrow> P y) \<Longrightarrow> find Q (filter P xs) = find Q xs"
  by (induction xs) auto

lemma keepFirst_find: "x \<in> set (keepFirst key xs) \<Longrightarrow> find (\<lambda>y. key y = key x) xs = Some x"
proof (induction key xs rule: keepFirst.induct)
  case (1 key)
  then show ?case by simp
next
  case (2 key a xs)
  show ?case
  proof (cases "x = a")
    case True
    then show ?thesis by simp
  next
    case False
    with "2.prems" have mem: "x \<in> set (keepFirst key (filter (\<lambda>y. key y \<noteq> key a) xs))"
      by simp
    then have ne: "key x \<noteq> key a"
      using keepFirst_set [of key "filter (\<lambda>y. key y \<noteq> key a) xs"] by auto
    have "find (\<lambda>y. key y = key x) (a # xs) = find (\<lambda>y. key y = key x) xs"
      using ne by simp
    also have "\<dots> = find (\<lambda>y. key y = key x) (filter (\<lambda>y. key y \<noteq> key a) xs)"
      using ne by (intro find_filter [symmetric]) simp
    also have "\<dots> = Some x"
      by (rule "2.IH" [OF mem])
    finally show ?thesis .
  qed
qed

lemma keepFirst_idem: "keepFirst key (keepFirst key xs) = keepFirst key xs"
proof (induction key xs rule: keepFirst.induct)
  case (1 key)
  then show ?case by simp
next
  case (2 key x xs)
  define ys where "ys = keepFirst key (filter (\<lambda>y. key y \<noteq> key x) xs)"
  have "set ys \<subseteq> set (filter (\<lambda>y. key y \<noteq> key x) xs)"
    unfolding ys_def by (rule keepFirst_set)
  then have "\<forall>y \<in> set ys. key y \<noteq> key x"
    by auto
  then have f: "filter (\<lambda>y. key y \<noteq> key x) ys = ys"
    by (simp only: filter_id_conv)
  have ih: "keepFirst key ys = ys"
    unfolding ys_def by (rule "2.IH")
  have "keepFirst key (keepFirst key (x # xs)) = keepFirst key (x # ys)"
    by (simp only: keepFirst.simps ys_def)
  also have "\<dots> = x # keepFirst key (filter (\<lambda>y. key y \<noteq> key x) ys)"
    by (simp only: keepFirst.simps)
  also have "\<dots> = x # ys"
    by (simp only: f ih)
  also have "\<dots> = keepFirst key (x # xs)"
    by (simp only: keepFirst.simps ys_def)
  finally show ?case .
qed

text \<open>
  Claim C2. For every list of detected risk flags, the deduplication returns exactly the
  subsequence that keeps the first flag for each key, where the key is the triple of the
  risk type, the normalised clause reference and the normalised first 50 characters of
  the explanation: the result is \<open>keepFirst keyTriple\<close> of the list; it is a subsequence of
  the list, so the order of the kept flags is preserved; no two flags of it share a key;
  every key of the list is still there; each kept flag is the first flag of the list with
  its key; and filtering a second time changes nothing.
\<close>

theorem uniqueRiskFlags_first_per_key:
  "uniqueRiskFlags fs = keepFirst keyTriple fs
   \<and> subseq (uniqueRiskFlags fs) fs
   \<and> distinct (map keyTriple (uniqueRiskFlags fs))
   \<and> keyTriple ` set (uniqueRiskFlags fs) = keyTriple ` set fs
   \<and> (\<forall>f \<in> set (uniqueRiskFlags fs). find (\<lambda>g. keyTriple g = keyTriple f) fs = Some f)
   \<and> uniqueRiskFlags (uniqueRiskFlags fs) = uniqueRiskFlags fs"
proof -
  have eq: "uniqueRiskFlags fs = keepFirst keyTriple fs" for fs
    unfolding uniqueRiskFlags_keepFirst
    by (rule keepFirst_cong) (rule riskKey_eq_iff)
  show ?thesis
    unfolding eq
    using keepFirst_subseq [of keyTriple fs] keepFirst_distinct [of keyTriple fs]
      keepFirst_keys [of keyTriple fs] keepFirst_find [of _ keyTriple fs]
      keepFirst_idem [of keyTriple fs]
    by blast
qed

text \<open>Three flags, of which the third has the key of the first.\<close>

definition exampleFlag :: "string \<Rightarrow> string \<Rightarrow> string \<Rightarrow> riskFlag" where
  "exampleFlag rt cr ex =
     \<lparr>rf_documentId = 7, rf_clauseReference = cr, rf_riskType = rt, rf_severity = Medium,
      rf_explanation = ex, rf_suggestedClause = None, rf_pageNumber = Some 2,
      rf_regulatoryMapping = None\<rparr>"

definition exampleFlags :: "riskFlag list" where
  "exampleFlags =
     [exampleFlag ''compliance'' ''SOX compliance'' ''Missing SOX'',
      exampleFlag ''a:b'' ''c'' ''x'',
      exampleFlag ''compliance'' ''sox-Compliance!'' ''missing sox'']"

lemma exampleFlags_keys:
  "map riskKey exampleFlags = [''compliance:soxcompliance:missingsox'', ''a:b:c:x'', ''compliance:soxcompliance:missingsox'']"
  by (simp add: exampleFlags_def exampleFlag_def riskKey_def normalizeKey_def strSlice_def
        toLowerCase_def lowerChar_def isUpperAZ_def isLowerAZ_def isDigit_def)

lemma exampleFlags_unique:
  "uniqueRiskFlags exampleFlags = [exampleFlag ''compliance'' ''SOX compliance'' ''Missing SOX'', exampleFlag ''a:b'' ''c'' ''x'']"
  using exampleFlags_keys by (simp add: uniqueRiskFlags_def exampleFlags_def)

theorem uniqueRiskFlags_first_per_key_witness:
  "exampleFlag ''compliance'' ''SOX compliance'' ''Missing SOX'' \<in> set (uniqueRiskFlags exampleFlags)
   \<and> find (\<lambda>g. keyTriple g = keyTriple (exampleFlag ''compliance'' ''SOX compliance'' ''Missing SOX'')) exampleFlags
       = Some (exampleFlag ''compliance'' ''SOX compliance'' ''Missing SOX'')
   \<and> length (uniqueRiskFlags exampleFlags) = 2"
proof -
  have m: "exampleFlag ''compliance'' ''SOX compliance'' ''Missing SOX'' \<in> set (uniqueRiskFlags exampleFlags)"
    by (simp add: exampleFlags_unique)
  have "\<forall>f \<in> set (uniqueRiskFlags exampleFlags).
      find (\<lambda>g. keyTriple g = keyTriple f) exampleFlags = Some f"
    using uniqueRiskFlags_first_per_key [of exampleFlags] by blast
  with m have "find (\<lambda>g. keyTriple g = keyTriple (exampleFlag ''compliance'' ''SOX compliance'' ''Missing SOX'')) exampleFlags
       = Some (exampleFlag ''compliance'' ''SOX compliance'' ''Missing SOX'')"
    by blast
  moreover have "length (uniqueRiskFlags exampleFlags) = 2"
    by (simp add: exampleFlags_unique)
  ultimately show ?thesis
    using m by blast
qed

section \<open>Local embedding\<close>

text \<open>
  \<^verbatim>\<open>localEmbed\<close> counts, for each token of the text, the bucket that the hash of the token
  selects among \<open>EMBED_DIM = 64\<close>, and divides the counts by their Euclidean norm (by 1 when
  the norm is 0). The hash is computed on unsigned 32-bit integers (\<^verbatim>\<open>>>> 0\<close>). The numbers
  of the vector are modelled as real numbers: the counts are exact in the program too, and
  the square root and the division are taken without the rounding of IEEE doubles.
\<close>

definition EMBED_DIM :: nat where "EMBED_DIM = 64"

definition hashStr :: "string \<Rightarrow> 32 word" where
  "hashStr s = foldl (\<lambda>h c. h * 31 + of_nat (of_char c)) 0 s"

text \<open>
  \<^verbatim>\<open>text.toLowerCase().replace(/[^\w\s]/g, " ").split(/\s+/).filter((t) => t.length > 1)\<close>
\<close>

definition embedTokens :: "string \<Rightarrow> string list" where
  "embedTokens t =
     filter (\<lambda>w. 1 < length w)
       (rxSplit False (plus sp)
          (rxReplaceAll False
             (Cls True [(CHR ''a'', CHR ''z''), (CHR ''A'', CHR ''Z''), (CHR ''0'', CHR ''9''),
                        (CHR ''_'', CHR ''_''), (CHR 0x09, CHR 0x0D), (CHR 0x20, CHR 0x20),
                        (CHR 0xA0, CHR 0xA0)])
             '' '' (toLowerCase t)))"

definition bump :: "real list \<Rightarrow> string \<Rightarrow> real list" where
  "bump vec w = (let idx = unat (hashStr w) mod EMBED_DIM in vec[idx := vec ! idx + 1])"

definition sumSquares :: "real list \<Rightarrow> real" where
  "sumSquares vec = foldl (\<lambda>s v. s + v * v) 0 vec"

definition localEmbed :: "string \<Rightarrow> real list" where
  "localEmbed t =
     (let vec = foldl bump (replicate EMBED_DIM 0) (embedTokens t);
          norm = (if sqrt (sumSquares vec) = 0 then 1 else sqrt (sumSquares vec))
      in map (\<lambda>v. v / norm) vec)"

definition embedText :: "string \<Rightarrow> real list" where
  "embedText t = localEmbed t"















section \<open>Vector search\<close>

text \<open>
  \<^verbatim>\<open>vectorSearch\<close> over the stored embeddings. \<open>chromaEnabled\<close> is what
  \<^verbatim>\<open>isChromaEnabled()\<close> returns and \<open>chromaSearch\<close> stands for the search of the Chroma
  service; \<open>topK\<close> is a count (the one call site passes 5, which is also the default).
  Scores are real numbers. \<^verbatim>\<open>Array.prototype.sort\<close> is stable, and so is \<open>sort_key\<close>.
\<close>

record embedding =
  em_documentId :: objectId
  em_chunkId :: string
  em_sectionTitle :: "string option"
  em_pageNumber :: nat
  em_text :: string
  em_embeddingVector :: "real list"























section \<open>Heuristic extraction\<close>

text \<open>
  The records of the extraction. Bounding boxes, layout elements, signatures,
  relationships and cross references, which the pipeline only copies from the answer of
  the model into the stored structure, are left out.
\<close>

record extractedField =
  f_fieldName :: string
  f_value :: string
  f_pageNumber :: nat
  f_confidenceScore :: real

record docSection =
  s_title :: string
  s_content :: string
  s_pageNumber :: nat
  s_level :: "nat option"

record docTable =
  t_pageNumber :: nat
  t_headers :: "string list"
  t_rows :: "string list list"

text \<open>\<^verbatim>\<open>xs.join(sep)\<close>.\<close>

fun joinWith :: "string \<Rightarrow> string list \<Rightarrow> string" where
  "joinWith sep [] = []"
| "joinWith sep [x] = x"
| "joinWith sep (x # y # ys) = x @ sep @ joinWith sep (y # ys)"

text \<open>A number in a template string.\<close>

definition digitChar :: "nat \<Rightarrow> char" where
  "digitChar d = ''0123456789'' ! d"

function showNat :: "nat \<Rightarrow> string" where
  "showNat n = (if n < 10 then [digitChar n] else showNat (n div 10) @ [digitChar (n mod 10)])"
  by pat_completeness auto
termination
  by (relation "measure id") auto

declare showNat.simps [simp del]

text \<open>\<^verbatim>\<open>lines.map((l) => l.trim()).filter(Boolean)\<close> of \<^verbatim>\<open>s.split(/\r?\n/)\<close>.\<close>

definition newline :: rx where
  "newline = seqs [opt (Str [CHR 0x0D]), Str [CHR 0x0A]]"

definition trimmedLines :: "string \<Rightarrow> string list" where
  "trimmedLines s = filter (\<lambda>l. l \<noteq> []) (map trim (rxSplit False newline s))"

text \<open>\<^verbatim>\<open>line.split(/\s+/).filter(Boolean)\<close>.\<close>

definition splitWords :: "string \<Rightarrow> string list" where
  "splitWords line = filter (\<lambda>w. w \<noteq> []) (rxSplit False (plus sp) line)"

subsection \<open>Identity fields\<close>

definition idFieldPatterns :: "(string \<times> bool \<times> rx) list" where
  "idFieldPatterns =
     [(''Name'', True,
        seqs [alts [Str ''name'', seqs [Str ''customer'', star sp, Str ''name'']], star sp, Str '':'', star sp, Grp 1 (plus (Cls True [(CHR 0x0A, CHR 0x0A)]))]),
      (''Name'', False,
        Grp 1 (seqs [Wb, Cls False [(CHR ''A'', CHR ''Z'')], plus (Cls False [(CHR ''a'', CHR ''z'')]), Str '','', star sp, Cls False [(CHR ''A'', CHR ''Z'')], plus (Cls False [(CHR ''a'', CHR ''z'')]), Wb])),
      (''Date of Birth'', True,
        seqs [alts [seqs [Str ''date'', star sp, Str ''of'', star sp, Str ''birth''], Str ''dob''], star sp, Str '':'', star sp, Grp 1 (plus (Cls True [(CHR 0x0A, CHR 0x0A)]))]),
      (''Customer Number'', True,
        seqs [seqs [Str ''customer'', star sp, Str ''number''], star sp, Str '':'', star sp, Grp 1 (plus dg)]),
      (''License Number'', True,
        seqs [seqs [Str ''licen'', Cls False [(CHR ''s'', CHR ''s''), (CHR ''c'', CHR ''c'')], Str ''e'', star sp, alts [Str ''number'', seqs [Str ''no'', opt (Str ''.'')]]], star sp, Str '':'', star sp, Grp 1 (plus (Cls True [(CHR 0x0A, CHR 0x0A)]))]),
      (''Expiry'', True,
        seqs [alts [Str ''expiry'', seqs [Str ''date'', star sp, Str ''of'', star sp, Str ''expiry''], seqs [Str ''exp'', opt (Str ''.'')]], star sp, Str '':'', star sp, Grp 1 (plus (Cls True [(CHR 0x0A, CHR 0x0A)]))]),
      (''Address'', True,
        seqs [Str ''address'', star sp, Str '':'', star sp, Grp 1 (plus (Cls True [(CHR 0x0A, CHR 0x0A)]))])]"

text \<open>
  The loop of \<^verbatim>\<open>extractIdFieldsFromText\<close> over the patterns, with the set \<^verbatim>\<open>seen\<close> of the
  keys \<^verbatim>\<open>name:value\<close> pushed so far; the value is \<^verbatim>\<open>(m[1] ?? m[0]).trim()\<close>.
\<close>

fun idFieldLoop :: "string \<Rightarrow> string list \<Rightarrow> (string \<times> bool \<times> rx) list \<Rightarrow> extractedField list" where
  "idFieldLoop rawText seen [] = []"
| "idFieldLoop rawText seen ((name, ic, regex) # patterns) =
     (case rxMatch ic regex rawText of
        None \<Rightarrow> idFieldLoop rawText seen patterns
      | Some m \<Rightarrow>
          (let v = trim (case group m 1 of Some g \<Rightarrow> g | None \<Rightarrow> fst m);
               key = name @ '':'' @ strSlice v 0 50
           in if key \<in> set seen then idFieldLoop rawText seen patterns
              else \<lparr>f_fieldName = name, f_value = v, f_pageNumber = 1, f_confidenceScore = 0.88\<rparr>
                     # idFieldLoop rawText (key # seen) patterns))"

definition extractIdFieldsFromText :: "string \<Rightarrow> extractedField list" where
  "extractIdFieldsFromText rawText = idFieldLoop rawText [] idFieldPatterns"

subsection \<open>Tables\<close>

definition allDigits :: rx where
  "allDigits = seqs [Bos, plus dg, Eos]"

definition someDigits :: rx where
  "someDigits = plus (Cls False [(CHR ''0'', CHR ''9''), (CHR '','', CHR '','')])"

definition isInvoiceHeader :: "string \<Rightarrow> bool" where
  "isInvoiceHeader l \<longleftrightarrow>
     rxTest True (seqs [Str ''item'', plus sp, Str ''description'']) l
     \<and> rxTest True (Str ''quantity'') l
     \<and> (rxTest True (alts [Str ''total'', seqs [Str ''unit'', star sp, Str ''price'']]) l
        \<or> rxTest False someDigits l)"

text \<open>A data row of the invoice table, when the line is one.\<close>

definition invoiceRow :: "string \<Rightarrow> string list option" where
  "invoiceRow line =
     (let parts = splitWords line; n = length parts
      in if 5 \<le> n \<and> rxTest False allDigits (parts ! 0) \<and> rxTest False allDigits (parts ! (n - 3))
         then Some [parts ! 0, joinWith '' '' (strSlice parts 1 (n - 3)), parts ! (n - 3),
                    parts ! (n - 2), parts ! (n - 1)]
         else None)"

definition detectInvoiceTable :: "string \<Rightarrow> nat \<Rightarrow> docTable option" where
  "detectInvoiceTable pageText pageNumber =
     (let lines = trimmedLines pageText
      in case dropWhile (\<lambda>l. \<not> isInvoiceHeader l) lines of
           [] \<Rightarrow> None
         | headerLine # following \<Rightarrow>
             (let dataRows = List.map_filter invoiceRow following
              in if dataRows \<noteq> []
                 then Some \<lparr>t_pageNumber = pageNumber,
                        t_headers = [''Item'', ''Description'', ''Quantity'', ''Unit Price'', ''Total''],
                        t_rows = dataRows\<rparr>
                 else None))"

text \<open>The cells of a line of \<^verbatim>\<open>detectTablesFromText\<close>.\<close>

definition lineCells :: "string \<Rightarrow> string list" where
  "lineCells line =
     (let cells = filter (\<lambda>c. c \<noteq> [])
                    (map trim (rxSplit False (alts [Rep 2 None True sp, plus (Str [CHR 0x09])]) line))
      in if length cells < 2 then
           (let parts = splitWords line
            in if 3 \<le> length parts
                  \<and> (rxTest False allDigits (parts ! 0)
                     \<or> rxTest False (seqs [Bos, someDigits, opt (Str ''.''), star dg, Eos]) (parts ! 0))
                  \<and> rxTest False someDigits (parts ! (length parts - 1))
               then parts
               else if 2 \<le> length parts \<and> rxTest False someDigits (parts ! (length parts - 1))
               then parts
               else cells)
         else cells)"

text \<open>\<^verbatim>\<open>headerRow.indexOf(h)\<close>, for an \<open>h\<close> of the row.\<close>

fun indexOf :: "'a list \<Rightarrow> 'a \<Rightarrow> nat" where
  "indexOf [] h = 0"
| "indexOf (x # xs) h = (if x = h then 0 else Suc (indexOf xs h))"

definition detectTablesFromText :: "string \<Rightarrow> nat \<Rightarrow> docTable list" where
  "detectTablesFromText pageText pageNumber =
     (let tables = (case detectInvoiceTable pageText pageNumber of None \<Rightarrow> [] | Some t \<Rightarrow> [t]);
          lines = trimmedLines pageText
      in if length lines < 2 then tables
         else
           (let rows = filter (\<lambda>cells. 2 \<le> length cells) (map lineCells lines)
            in if 2 \<le> length rows \<and> tables = [] then
                 (let headerRow = hd rows;
                      dataRows = filter (\<lambda>r. \<exists>c \<in> set r. 0 < length c) (tl rows)
                  in if dataRows \<noteq> []
                     then tables @
                       [\<lparr>t_pageNumber = pageNumber,
                         t_headers = map (\<lambda>h. if h \<noteq> [] then h
                                              else ''Col'' @ showNat (indexOf headerRow h + 1)) headerRow,
                         t_rows = dataRows\<rparr>]
                     else tables)
               else tables))"

subsection \<open>Sections\<close>

definition blankLine :: rx where
  "blankLine = seqs [Str [CHR 0x0A], star sp, Str [CHR 0x0A]]"

definition endColon :: rx where
  "endColon = seqs [star sp, Str '':'', star sp, Eos]"

definition numberedHeading :: rx where
  "numberedHeading =
     seqs [Bos, alts [Str ''Section'', Str ''Article'', Str ''Clause'', Str ''Part''], plus sp, plus dg]"

text \<open>The section of a block, when its content is not empty.\<close>

definition blockSection :: "string \<Rightarrow> docSection option" where
  "blockSection block =
     (let lines = rxSplit False newline block;
          first = (case lines of [] \<Rightarrow> [] | l # ls \<Rightarrow> trim l);
          isHeader = (length first < 80
                       \<and> (codeUnits first = toUpperCase first
                          \<or> rxTest False (seqs [Str '':'', star sp, Eos]) first
                          \<or> rxTest True numberedHeading first));
          title = (if isHeader then rxReplaceFirst False endColon [] first else ''Content'');
          content = (if isHeader then trim (joinWith [CHR 0x0A] (tl lines)) else block)
      in if 0 < length content
         then Some \<lparr>s_title = title, s_content = content, s_pageNumber = 1, s_level = None\<rparr>
         else None)"

definition extractSectionsFromText :: "string \<Rightarrow> docSection list" where
  "extractSectionsFromText rawText =
     (let blocks = filter (\<lambda>b. b \<noteq> []) (map trim (rxSplit False blankLine rawText));
          sections = List.map_filter blockSection blocks
      in if sections \<noteq> [] then sections
         else [\<lparr>s_title = ''Document'', s_content = strSlice rawText 0 5000, s_pageNumber = 1,
                s_level = None\<rparr>])"

subsection \<open>Fields\<close>

definition fieldPatternsFromText :: "(string \<times> bool \<times> rx) list" where
  "fieldPatternsFromText =
     [(''Invoice Number'', True,
        seqs [Str ''Invoice'', star sp, Str ''Number'', star sp, Str '':'', star sp, Grp 1 (plus (Cls True [(CHR 0x09, CHR 0x0D), (CHR 0x20, CHR 0x20), (CHR 0xA0, CHR 0xA0), (CHR 0x0A, CHR 0x0A)]))]),
      (''Invoice Date'', True,
        seqs [Str ''Invoice'', star sp, Str ''Date'', star sp, Str '':'', star sp, Grp 1 (Rep 1 None False (Cls True [(CHR 0x0A, CHR 0x0A)])), alts [seqs [plus sp, Str ''Vendor''], seqs [star sp, Eos]]]),
      (''Vendor'', True,
        seqs [Str ''Vendor'', star sp, Str '':'', star sp, Grp 1 (Rep 1 None False (Cls True [(CHR 0x0A, CHR 0x0A)])), alts [seqs [plus sp, Str ''Bill''], seqs [star sp, Eos]]]),
      (''Bill To'', True,
        seqs [Str ''Bill'', star sp, Str ''To'', star sp, Str '':'', star sp, Grp 1 (Rep 1 None False (Cls True [(CHR 0x0A, CHR 0x0A)])), alts [seqs [plus sp, Str ''Payment''], seqs [star sp, Eos]]]),
      (''Payment Terms'', True,
        seqs [Str ''Payment'', star sp, Str ''Terms'', star sp, Str '':'', star sp, Grp 1 (plus (Cls True [(CHR 0x0A, CHR 0x0A)]))]),
      (''Subtotal'', True,
        seqs [Str ''Subtotal'', star sp, Str '':'', star sp, Grp 1 (plus (Cls True [(CHR 0x0A, CHR 0x0A)]))]),
      (''GST'', True,
        seqs [Str ''GST'', star sp, Str ''('', star (Cls True [(CHR '')'', CHR '')'')]), Str '')'', star sp, Str '':'', star sp, Grp 1 (plus (Cls True [(CHR 0x0A, CHR 0x0A)]))]),
      (''Grand Total'', True,
        seqs [Str ''Grand'', star sp, Str ''Total'', star sp, Str '':'', star sp, Grp 1 (plus (Cls True [(CHR 0x0A, CHR 0x0A)]))]),
      (''Due Date'', True,
        seqs [Str ''Due'', star sp, Str ''Date'', star sp, Str '':'', star sp, Grp 1 (plus (Cls True [(CHR 0x0A, CHR 0x0A)]))]),
      (''Parties'', True,
        seqs [alts [seqs [Str ''partie'', opt (Str ''s'')], Str ''between''], star sp, plus (Cls False [(CHR '':'', CHR '':''), (CHR 0x09, CHR 0x0D), (CHR 0x20, CHR 0x20), (CHR 0xA0, CHR 0xA0)]), Grp 1 (Rep 3 (Some 120) True (Cls True [(CHR 0x0A, CHR 0x0A)]))]),
      (''Effective Date'', True,
        seqs [Str ''effective'', star sp, Str ''date'', star sp, plus (Cls False [(CHR '':'', CHR '':''), (CHR 0x09, CHR 0x0D), (CHR 0x20, CHR 0x20), (CHR 0xA0, CHR 0xA0)]), Grp 1 (plus (Cls True [(CHR 0x0A, CHR 0x0A)]))]),
      (''Term'', True,
        seqs [alts [Str ''term'', Str ''duration''], star sp, plus (Cls False [(CHR '':'', CHR '':''), (CHR 0x09, CHR 0x0D), (CHR 0x20, CHR 0x20), (CHR 0xA0, CHR 0xA0)]), Grp 1 (plus (Cls True [(CHR 0x0A, CHR 0x0A)]))]),
      (''Client'', True,
        seqs [opt (seqs [Str ''between'', plus sp]), Grp 1 (seqs [plus (Cls False [(CHR ''A'', CHR ''Z''), (CHR ''a'', CHR ''z''), (CHR ''0'', CHR ''9''), (CHR 0x09, CHR 0x0D), (CHR 0x20, CHR 0x20), (CHR 0xA0, CHR 0xA0), (CHR ''.'', CHR ''.''), (CHR '','', CHR '',''), (CHR ''&'', CHR ''&'')]), opt (alts [seqs [Str ''Pvt'', opt (Str ''.'')], Str ''Private'', Str ''Limited'', seqs [Str ''Ltd'', opt (Str ''.'')], seqs [Str ''Inc'', opt (Str ''.'')], Str ''LLC''])]), star sp, Str ''('', star sp, opt (Cls False [(CHR 0x22, CHR 0x22), (CHR 0x27, CHR 0x27)]), Str ''Client'', opt (Cls False [(CHR 0x22, CHR 0x22), (CHR 0x27, CHR 0x27)]), star sp, Str '')'']),
      (''Service Provider'', True,
        seqs [Grp 1 (seqs [plus (Cls False [(CHR ''A'', CHR ''Z''), (CHR ''a'', CHR ''z''), (CHR ''0'', CHR ''9''), (CHR 0x09, CHR 0x0D), (CHR 0x20, CHR 0x20), (CHR 0xA0, CHR 0xA0), (CHR ''.'', CHR ''.''), (CHR '','', CHR '',''), (CHR ''&'', CHR ''&'')]), opt (alts [seqs [Str ''Pvt'', opt (Str ''.'')], Str ''Private'', Str ''Limited'', seqs [Str ''Ltd'', opt (Str ''.'')], seqs [Str ''Inc'', opt (Str ''.'')], Str ''LLC''])]), star sp, Str ''('', star sp, opt (Cls False [(CHR 0x22, CHR 0x22), (CHR 0x27, CHR 0x27)]), Str ''Service'', star sp, Str ''Provider'', opt (Cls False [(CHR 0x22, CHR 0x22), (CHR 0x27, CHR 0x27)]), star sp, Str '')''])]"

definition leadingBetween :: rx where
  "leadingBetween = seqs [Bos, star sp, Str ''between'', plus sp]"

text \<open>
  The loop of \<^verbatim>\<open>extractFieldsFromText\<close>. Group 1 takes part in every match of every
  pattern of the list, so \<^verbatim>\<open>m[1]\<close> is always a string.
\<close>

fun fieldLoop :: "string \<Rightarrow> (string \<times> bool \<times> rx) list \<Rightarrow> extractedField list" where
  "fieldLoop rawText [] = []"
| "fieldLoop rawText ((name, ic, regex) # patterns) =
     (case rxMatch ic regex rawText of
        None \<Rightarrow> fieldLoop rawText patterns
      | Some m \<Rightarrow>
          (case group m 1 of
             None \<Rightarrow> fieldLoop rawText patterns
           | Some g \<Rightarrow>
               \<lparr>f_fieldName = name, f_value = trim (rxReplaceFirst True leadingBetween [] (trim g)),
                f_pageNumber = 1, f_confidenceScore = 0.85\<rparr>
                 # fieldLoop rawText patterns))"

definition extractFieldsFromText :: "string \<Rightarrow> extractedField list" where
  "extractFieldsFromText rawText = fieldLoop rawText fieldPatternsFromText"

subsection \<open>Correction of recognised text\<close>

definition corrections :: "(bool \<times> rx \<times> string) list" where
  "corrections =
     [(True, Str ''Technatogees'', ''Technologies''),
      (True, Str ''Pot Lod'', ''Pvt Ltd''),
      (True, Str ''X77 Rated'', ''XYZ Retail''),
      (True, Str ''Serves Softee'', ''Services''),
      (True, Str ''Pt Ld'', ''Pvt Ltd''),
      (True, Str ''Payert Terma'', ''Payment Terms''),
      (True, Str ''Net 10 Says'', ''Net 30 Days''),
      (True, Str ''Lert het pay vee en mds'', ''Payment is due within''),
      (True, Str ''Latity Moer'', ''Liability''),
      (True, Str ''lately tented'', ''limited to''),
      (True, seqs [Str ''te $'', plus dg, opt (Cls False [(CHR '','', CHR '',''), (CHR ''.'', CHR ''.'')]), star dg, plus sp, plus dg], ''$10,000''),
      (True, Str ''limited to te'', ''limited to''),
      (True, seqs [Str ''$'', plus dg, Str '','', plus dg, plus sp, plus dg], ''$10,000,000''),
      (True, Str ''Termurster'', ''Termination''),
      (True, Str ''may ter erete'', ''may terminate''),
      (True, Str ''ath 0 dept'', ''with 30 days''),
      (True, Str ''tte e'', ''notice''),
      (True, Str ''orfdentent'', ''confidential''),
      (True, Str ''orfdertent'', ''confidential''),
      (True, Str ''orfdent'', ''confidential''),
      (True, Str ''orfertent'', ''confidential''),
      (True, seqs [alts [Str ''orfd'', Str ''orfer'', Str ''orfde''], star wd, Str ''tent''], ''confidential''),
      (True, seqs [alts [Str ''conf'', Str ''confi'', Str ''confid''], Cls False [(CHR '':'', CHR '':''), (CHR '';'', CHR '';''), (CHR ''.'', CHR ''.'')]], ''confidential:''),
      (True, Str ''Bott pete muatl'', ''Both parties must''),
      (True, Str ''hore ot ar rlert'', ''hold in confidence''),
      (True, Str ''Both parties muatl'', ''Both parties must''),
      (True, Str ''hold in confirdence'', ''hold in confidence''),
      (True, Str ''Both parties must beep'', ''Both parties must''),
      (True, Str ''beep'', ''''),
      (False, Rep 2 None True sp, '' '')]"

definition correctOcrText :: "string \<Rightarrow> string" where
  "correctOcrText t =
     (if t = [] \<or> length t < 10 then t
      else foldl (\<lambda>corrected (ic, pattern, replacement). rxReplaceAll ic pattern replacement corrected)
             t corrections)"

lemmas [ev] = joinWith.simps trimmedLines_def splitWords_def newline_def idFieldLoop.simps
  extractIdFieldsFromText_def fieldLoop.simps extractFieldsFromText_def leadingBetween_def
  trim_def trimStart_def trimEnd_def isSpace_def dropWhile.simps rev.simps
  list.set insert_iff empty_iff

section \<open>Risk detection\<close>

text \<open>
  The rules of the pipeline. Every pattern of the tables carries the i flag. A rule without
  the property \<^verbatim>\<open>missingOnly\<close> has \<open>rp_missingOnly = False\<close>, which is what
  \<^verbatim>\<open>"missingOnly" in r && r.missingOnly\<close> yields for it.
\<close>

record riskPattern =
  rp_pattern :: rx
  rp_risk :: string
  rp_severity :: Severity
  rp_missingOnly :: bool
  rp_clauseType :: "string option"

definition MISSING_CLAUSE_RISKS :: "riskPattern list" where
  "MISSING_CLAUSE_RISKS =
     [\<lparr>rp_pattern = alts [Str ''confidential'', Str ''confidentiality'', Str ''non-disclosure'', Str ''trade secret'', Str ''proprietary information'', Str ''classified information''],
        rp_risk = ''Confidentiality clause'', rp_severity = High, rp_missingOnly = True, rp_clauseType = Some ''confidentiality''\<rparr>,
      \<lparr>rp_pattern = alts [Str ''termination'', Str ''cancel'', Str ''terminate'', Str ''breach of contract'', Str ''notice period'', Str ''time limit''],
        rp_risk = ''Termination clause'', rp_severity = Medium, rp_missingOnly = True, rp_clauseType = Some ''termination''\<rparr>,
      \<lparr>rp_pattern = alts [Str ''limitation of liability'', seqs [Str ''limit'', star Dot, Str ''liability''], seqs [Str ''cap'', star Dot, Str ''liability''], Str ''maximum liability'', seqs [Str ''liable'', star Dot, Str ''damage'']],
        rp_risk = ''Limitation of liability'', rp_severity = High, rp_missingOnly = True, rp_clauseType = Some ''liability''\<rparr>,
      \<lparr>rp_pattern = alts [Str ''arbitration'', Str ''dispute resolution'', Str ''mediation'', Str ''governing law'', Str ''jurisdiction'', Str ''legal proceeding''],
        rp_risk = ''Arbitration/dispute resolution clause'', rp_severity = Medium, rp_missingOnly = True, rp_clauseType = Some ''arbitration''\<rparr>,
      \<lparr>rp_pattern = alts [Str ''payment terms'', Str ''payment schedule'', Str ''price'', Str ''fees'', Str ''compensation'', Str ''invoice'', Str ''payment due'', Str ''due date'', seqs [Str ''net '', plus dg], Str ''advance payment''],
        rp_risk = ''Payment terms'', rp_severity = High, rp_missingOnly = True, rp_clauseType = Some ''payment''\<rparr>,
      \<lparr>rp_pattern = alts [Str ''data protection'', Str ''privacy'', Str ''personal data'', Str ''gdpr'', Str ''hipaa'', Str ''information security'', Str ''data processing'', Str ''pii'', Str ''sensitive data''],
        rp_risk = ''Data protection clause'', rp_severity = High, rp_missingOnly = True, rp_clauseType = Some ''data_protection''\<rparr>]"

definition WEAK_CLAUSE_PATTERNS :: "riskPattern list" where
  "WEAK_CLAUSE_PATTERNS =
     [\<lparr>rp_pattern = seqs [alts [Str ''either party'', Str ''any party''], plus sp, alts [Str ''may'', Str ''can''], plus sp, alts [Str ''terminate'', Str ''cancel'', Str ''modify'', Str ''change''], plus sp, alts [Str ''at any time'', Str ''without notice'', Str ''at will'']],
        rp_risk = ''Unilateral termination without notice period'', rp_severity = High, rp_missingOnly = False, rp_clauseType = Some ''weak_termination''\<rparr>,
      \<lparr>rp_pattern = seqs [alts [Str ''reasonable'', Str ''appropriate'', Str ''necessary'', Str ''as needed'', Str ''as required''], plus sp, alts [Str ''effort'', Str ''cost'', Str ''time'', Str ''determination'']],
        rp_risk = (''Vague '' @ [CHR 0x27] @ ''reasonable effort'' @ [CHR 0x27] @ '' language without specific definitions''), rp_severity = Medium, rp_missingOnly = False, rp_clauseType = Some ''vague''\<rparr>,
      \<lparr>rp_pattern = alts [Str ''may consider'', Str ''may evaluate'', Str ''may assess'', Str ''subject to'', Str ''at discretion''],
        rp_risk = ''Discretionary language without clear criteria'', rp_severity = Medium, rp_missingOnly = False, rp_clauseType = Some ''vague''\<rparr>,
      \<lparr>rp_pattern = alts [Str ''without prejudice'', Str ''sole discretion'', Str ''absolute discretion'', Str ''irrevocable''],
        rp_risk = ''One-sided discretionary language'', rp_severity = Medium, rp_missingOnly = False, rp_clauseType = Some ''imbalance''\<rparr>,
      \<lparr>rp_pattern = alts [Str ''as soon as practicable'', Str ''within a reasonable time'', Str ''forthwith'', Str ''immediately''],
        rp_risk = ''Undefined timeframes'', rp_severity = Low, rp_missingOnly = False, rp_clauseType = Some ''vague''\<rparr>,
      \<lparr>rp_pattern = alts [Str ''indefinitely'', Str ''perpetual'', Str ''forever'', Str ''eternal''],
        rp_risk = ''Indefinite obligations'', rp_severity = High, rp_missingOnly = False, rp_clauseType = Some ''weak_termination''\<rparr>,
      \<lparr>rp_pattern = alts [Str ''notwithstanding'', Str ''without limiting'', Str ''except as otherwise''],
        rp_risk = ''Limiting language that may override other clauses'', rp_severity = Medium, rp_missingOnly = False, rp_clauseType = Some ''vague''\<rparr>]"

definition PAYMENT_RISK_PATTERNS :: "riskPattern list" where
  "PAYMENT_RISK_PATTERNS =
     [\<lparr>rp_pattern = alts [Str ''late payment'', Str ''late fee'', seqs [Str ''penalty'', star Dot, Str ''payment''], seqs [Str ''interest'', star Dot, Str ''overdue''], seqs [Str ''default'', star Dot, Str ''payment'']],
        rp_risk = ''Late payment penalty'', rp_severity = Medium, rp_missingOnly = True, rp_clauseType = None\<rparr>,
      \<lparr>rp_pattern = alts [Str ''refund'', seqs [Str ''return'', star Dot, Str ''money''], Str ''money back'', Str ''reimbursement'', seqs [Str ''cancel'', star Dot, Str ''payment'']],
        rp_risk = ''Refund policy'', rp_severity = Medium, rp_missingOnly = True, rp_clauseType = None\<rparr>,
      \<lparr>rp_pattern = alts [Str ''currency'', Str ''exchange rate'', Str ''forex'', Str ''conversion''],
        rp_risk = ''Currency/Exchange terms'', rp_severity = Medium, rp_missingOnly = True, rp_clauseType = None\<rparr>,
      \<lparr>rp_pattern = alts [Str ''price adjustment'', Str ''price change'', Str ''escalation'', Str ''price revision'', seqs [Str ''rate'', star Dot, Str ''increase'']],
        rp_risk = ''Price adjustment clause'', rp_severity = Medium, rp_missingOnly = True, rp_clauseType = None\<rparr>,
      \<lparr>rp_pattern = alts [Str ''unlimited liability'', seqs [Str ''unlimited'', star Dot, Str ''cost''], seqs [Str ''unlimited'', star Dot, Str ''expense''], seqs [Str ''no'', star Dot, Str ''cap'']],
        rp_risk = ''Unlimited financial exposure'', rp_severity = Critical, rp_missingOnly = False, rp_clauseType = None\<rparr>]"

definition COMPLIANCE_RISK_PATTERNS :: "riskPattern list" where
  "COMPLIANCE_RISK_PATTERNS =
     [\<lparr>rp_pattern = alts [Str ''sox'', Str ''sarbanes'', Str ''financial reporting'', Str ''audit''],
        rp_risk = ''SOX compliance'', rp_severity = Low, rp_missingOnly = True, rp_clauseType = None\<rparr>,
      \<lparr>rp_pattern = alts [seqs [Str ''iso '', plus dg], seqs [Str ''iso'', star Dot, Str ''standard''], seqs [Str ''iso'', star Dot, Str ''certification'']],
        rp_risk = ''ISO compliance'', rp_severity = Low, rp_missingOnly = True, rp_clauseType = None\<rparr>,
      \<lparr>rp_pattern = alts [Str ''pci dss'', Str ''payment card'', seqs [Str ''credit card'', star Dot, Str ''data'']],
        rp_risk = ''PCI DSS compliance'', rp_severity = Low, rp_missingOnly = True, rp_clauseType = None\<rparr>,
      \<lparr>rp_pattern = alts [Str ''ccpa'', Str ''california consumer'', seqs [Str ''privacy'', star Dot, Str ''california'']],
        rp_risk = ''CCPA compliance'', rp_severity = Low, rp_missingOnly = True, rp_clauseType = None\<rparr>,
      \<lparr>rp_pattern = alts [seqs [Str ''industry'', star Dot, Str ''standard''], Str ''best practice'', seqs [Str ''regulatory'', star Dot, Str ''requirement'']],
        rp_risk = ''Industry standards'', rp_severity = Low, rp_missingOnly = True, rp_clauseType = None\<rparr>]"

definition IMBALANCE_RISK_PATTERNS :: "riskPattern list" where
  "IMBALANCE_RISK_PATTERNS =
     [\<lparr>rp_pattern = seqs [alts [Str ''vendor'', Str ''supplier'', Str ''service provider'', Str ''contractor''], star Dot, Str ''shall'', star Dot, alts [Str ''not'', Str ''never'']],
        rp_risk = ''Vendor has no obligations while client has all obligations'', rp_severity = High, rp_missingOnly = False, rp_clauseType = Some ''imbalance''\<rparr>,
      \<lparr>rp_pattern = seqs [alts [Str ''client'', Str ''customer'', Str ''buyer''], star Dot, Str ''shall'', star Dot, alts [Str ''immediately'', Str ''at once'', Str ''without delay'']],
        rp_risk = ''Client has immediate obligations while vendor has flexibility'', rp_severity = Medium, rp_missingOnly = False, rp_clauseType = Some ''imbalance''\<rparr>,
      \<lparr>rp_pattern = alts [seqs [Str ''vendor'', star Dot, Str ''not liable''], seqs [Str ''vendor'', star Dot, Str ''immune''], seqs [Str ''vendor'', star Dot, Str ''exempt'']],
        rp_risk = ''Vendor liability exemption'', rp_severity = High, rp_missingOnly = False, rp_clauseType = Some ''imbalance''\<rparr>,
      \<lparr>rp_pattern = alts [seqs [Str ''client'', star Dot, Str ''entire risk''], seqs [Str ''client'', star Dot, Str ''assume'', star Dot, Str ''risk''], seqs [Str ''client'', star Dot, Str ''responsible'', star Dot, Str ''all'']],
        rp_risk = ''All risk on client side'', rp_severity = High, rp_missingOnly = False, rp_clauseType = Some ''imbalance''\<rparr>,
      \<lparr>rp_pattern = alts [seqs [Str ''unilateral'', star Dot, Str ''amendment''], seqs [Str ''unilateral'', star Dot, Str ''change''], seqs [Str ''modify'', star Dot, Str ''without notice'']],
        rp_risk = ''One-sided amendment rights'', rp_severity = High, rp_missingOnly = False, rp_clauseType = Some ''imbalance''\<rparr>,
      \<lparr>rp_pattern = alts [seqs [Str ''waiver'', star Dot, Str ''any'', star Dot, Str ''right''], seqs [Str ''waive'', star Dot, Str ''claim''], seqs [Str ''waive'', star Dot, Str ''remedy'']],
        rp_risk = ''Waiver of rights'', rp_severity = Medium, rp_missingOnly = False, rp_clauseType = Some ''imbalance''\<rparr>,
      \<lparr>rp_pattern = alts [seqs [Str ''exclusive'', star Dot, Str ''remedy''], seqs [Str ''sole'', star Dot, Str ''remedy''], seqs [Str ''only'', star Dot, Str ''remedy'']],
        rp_risk = ''Exclusive/sole remedy limitations'', rp_severity = Medium, rp_missingOnly = False, rp_clauseType = Some ''imbalance''\<rparr>]"

definition SIGNATURE_RISK_PATTERNS :: "riskPattern list" where
  "SIGNATURE_RISK_PATTERNS =
     [\<lparr>rp_pattern = alts [Str ''signature'', Str ''sign here'', seqs [Str ''authori'', Cls False [(CHR ''s'', CHR ''s''), (CHR ''z'', CHR ''z'')], Str ''ed''], Str ''signed''],
        rp_risk = ''Signature block'', rp_severity = Low, rp_missingOnly = True, rp_clauseType = None\<rparr>,
      \<lparr>rp_pattern = alts [seqs [Str ''date'', star Dot, alts [Str ''of'', Str ''execution'', Str ''signature'', Str ''signing'']], Str ''executed on'', Str ''dated''],
        rp_risk = ''Execution date'', rp_severity = Low, rp_missingOnly = True, rp_clauseType = None\<rparr>,
      \<lparr>rp_pattern = alts [Str ''witness'', Str ''notary'', Str ''attest'', Str ''attorney''],
        rp_risk = ''Witness/Notarization'', rp_severity = Low, rp_missingOnly = True, rp_clauseType = None\<rparr>,
      \<lparr>rp_pattern = alts [seqs [Str ''company'', star Dot, Str ''name''], seqs [Str ''entity'', star Dot, Str ''name''], seqs [Str ''party'', star Dot, Str ''name'']],
        rp_risk = ''Party identification'', rp_severity = Low, rp_missingOnly = True, rp_clauseType = None\<rparr>,
      \<lparr>rp_pattern = alts [Str ''title'', Str ''position'', Str ''role'', Str ''authority''],
        rp_risk = ''Signatory authority'', rp_severity = Low, rp_missingOnly = True, rp_clauseType = None\<rparr>]"

definition STRUCTURAL_RISK_PATTERNS :: "riskPattern list" where
  "STRUCTURAL_RISK_PATTERNS =
     [\<lparr>rp_pattern = alts [Str ''table of contents'', Str ''index'', Str ''table of cases''],
        rp_risk = ''Table of contents'', rp_severity = Low, rp_missingOnly = True, rp_clauseType = None\<rparr>,
      \<lparr>rp_pattern = alts [Str ''definitions'', Str ''definition of terms'', Str ''defined terms''],
        rp_risk = ''Definitions section'', rp_severity = Medium, rp_missingOnly = True, rp_clauseType = None\<rparr>,
      \<lparr>rp_pattern = alts [Str ''recitals'', Str ''whereas'', Str ''preamble'', Str ''background''],
        rp_risk = ''Recitals/Background'', rp_severity = Low, rp_missingOnly = True, rp_clauseType = None\<rparr>,
      \<lparr>rp_pattern = alts [Str ''schedule'', Str ''appendix'', Str ''exhibit'', Str ''annex''],
        rp_risk = ''Schedules/Appendices'', rp_severity = Low, rp_missingOnly = True, rp_clauseType = None\<rparr>,
      \<lparr>rp_pattern = alts [Str ''amendment'', Str ''modification'', Str ''addendum'', Str ''revised''],
        rp_risk = ''Amendment clause'', rp_severity = Medium, rp_missingOnly = True, rp_clauseType = None\<rparr>,
      \<lparr>rp_pattern = alts [Str ''entire agreement'', Str ''whole agreement'', Str ''integrated''],
        rp_risk = ''Entire agreement clause'', rp_severity = Medium, rp_missingOnly = True, rp_clauseType = None\<rparr>,
      \<lparr>rp_pattern = alts [Str ''severability'', Str ''separability'', seqs [Str ''invalid'', star Dot, Str ''enforce'']],
        rp_risk = ''Severability clause'', rp_severity = Medium, rp_missingOnly = True, rp_clauseType = None\<rparr>,
      \<lparr>rp_pattern = alts [seqs [Str ''notice'', star Dot, Str ''address''], seqs [Str ''contact'', star Dot, Str ''information''], Str ''communication details''],
        rp_risk = ''Notice details'', rp_severity = Low, rp_missingOnly = True, rp_clauseType = None\<rparr>]"

definition AMBIGUITY_RISK_PATTERNS :: "riskPattern list" where
  "AMBIGUITY_RISK_PATTERNS =
     [\<lparr>rp_pattern = alts [Str ''reasonable effort'', Str ''reasonable time'', Str ''reasonable cost'', Str ''reasonable''],
        rp_risk = (''Undefined '' @ [CHR 0x27] @ ''reasonable'' @ [CHR 0x27] @ '' standard''), rp_severity = Medium, rp_missingOnly = False, rp_clauseType = Some ''ambiguity''\<rparr>,
      \<lparr>rp_pattern = alts [Str ''as needed'', Str ''as necessary'', Str ''as appropriate'', Str ''as required''],
        rp_risk = ''Undefined triggers for actions'', rp_severity = Medium, rp_missingOnly = False, rp_clauseType = Some ''ambiguity''\<rparr>,
      \<lparr>rp_pattern = alts [Str ''may consider'', Str ''may evaluate'', Str ''may determine'', Str ''at discretion''],
        rp_risk = ''Subjective decision-making without criteria'', rp_severity = Medium, rp_missingOnly = False, rp_clauseType = Some ''ambiguity''\<rparr>,
      \<lparr>rp_pattern = alts [Str ''best practice'', Str ''industry standard'', Str ''commercially reasonable''],
        rp_risk = ''Undefined industry standards'', rp_severity = Medium, rp_missingOnly = False, rp_clauseType = Some ''ambiguity''\<rparr>,
      \<lparr>rp_pattern = alts [Str ''material breach'', Str ''substantial breach'', Str ''significant default''],
        rp_risk = (''Undefined '' @ [CHR 0x27] @ ''material/substantial'' @ [CHR 0x27] @ '' threshold''), rp_severity = Medium, rp_missingOnly = False, rp_clauseType = Some ''ambiguity''\<rparr>,
      \<lparr>rp_pattern = alts [Str ''force majeure'', Str ''act of god'', Str ''unforeseeable''],
        rp_risk = ''Undefined force majeure events'', rp_severity = Low, rp_missingOnly = False, rp_clauseType = Some ''ambiguity''\<rparr>,
      \<lparr>rp_pattern = alts [Str ''good faith'', Str ''fair dealing'', Str ''honest''],
        rp_risk = ''Undefined good faith standards'', rp_severity = Low, rp_missingOnly = False, rp_clauseType = Some ''ambiguity''\<rparr>]"

definition METADATA_RISK_PATTERNS :: "riskPattern list" where
  "METADATA_RISK_PATTERNS =
     [\<lparr>rp_pattern = alts [seqs [Str ''effective'', plus sp, alts [Str ''date'', Str ''on'', Str ''from''], star sp, plus wd], seqs [Str ''effective:'', star sp, plus wd], seqs [Str ''commencement'', star sp, Str ''date''], seqs [Str ''start'', star sp, Str ''date'']],
        rp_risk = ''Effective date'', rp_severity = Low, rp_missingOnly = True, rp_clauseType = None\<rparr>,
      \<lparr>rp_pattern = alts [seqs [Str ''expiration'', star sp, Str ''date''], seqs [Str ''end'', star sp, Str ''date''], seqs [Str ''termination'', star sp, Str ''date''], Str ''expiry'', seqs [Str ''ending'', star sp, Str ''date'']],
        rp_risk = ''Expiration/Termination date'', rp_severity = Medium, rp_missingOnly = True, rp_clauseType = None\<rparr>,
      \<lparr>rp_pattern = alts [seqs [Str ''term'', star sp, alts [Str ''and'', Str ''of'', Str ''duration'', Str ''period'']], seqs [Str ''duration'', plus sp, Str ''of''], seqs [Str ''period'', plus sp, Str ''of''], seqs [plus dg, star sp, Str ''month'', opt (Str ''s'')], seqs [plus dg, star sp, Str ''year'', opt (Str ''s'')]],
        rp_risk = ''Term duration'', rp_severity = Medium, rp_missingOnly = True, rp_clauseType = None\<rparr>,
      \<lparr>rp_pattern = alts [Str ''renewal'', seqs [Str ''automatic'', star sp, Str ''renewal''], seqs [Str ''extend'', star sp, Str ''term'']],
        rp_risk = ''Renewal terms'', rp_severity = Medium, rp_missingOnly = True, rp_clauseType = None\<rparr>,
      \<lparr>rp_pattern = alts [Str ''deadline'', seqs [Str ''due'', star sp, Str ''date''], seqs [Str ''payment'', star sp, Str ''due''], seqs [Str ''time'', star sp, Str ''is'', star sp, Str ''of'', star sp, Str ''the'', star sp, Str ''essence'']],
        rp_risk = ''Critical deadlines'', rp_severity = Low, rp_missingOnly = True, rp_clauseType = None\<rparr>]"

definition GST_INVOICE_COMPLIANCE :: "riskPattern list" where
  "GST_INVOICE_COMPLIANCE =
     [\<lparr>rp_pattern = alts [Str ''gstin'', seqs [Str ''gst'', star sp, Str ''in''], seqs [Str ''gst'', star sp, Str ''number''], seqs [Str ''tax'', star sp, Str ''identification'']],
        rp_risk = ''Missing GSTIN (vendor/buyer)'', rp_severity = High, rp_missingOnly = False, rp_clauseType = None\<rparr>,
      \<lparr>rp_pattern = alts [Str ''address'', seqs [Str ''registered'', star sp, Str ''address''], seqs [Str ''billing'', star sp, Str ''address'']],
        rp_risk = ''Missing full address (supplier/recipient)'', rp_severity = High, rp_missingOnly = False, rp_clauseType = None\<rparr>,
      \<lparr>rp_pattern = alts [seqs [Str ''place'', star sp, Str ''of'', star sp, Str ''supply''], seqs [Str ''state'', star sp, Str ''code''], seqs [Str ''supply'', star sp, Str ''state'']],
        rp_risk = ''Missing Place of Supply'', rp_severity = High, rp_missingOnly = False, rp_clauseType = None\<rparr>,
      \<lparr>rp_pattern = alts [seqs [Str ''sac'', star sp, Str ''code''], seqs [Str ''hsn'', star sp, Str ''code''], seqs [Str ''service'', star sp, Str ''code''], Str ''harmonized''],
        rp_risk = ''Missing SAC/HSN code for service/goods'', rp_severity = Medium, rp_missingOnly = False, rp_clauseType = None\<rparr>]"


text \<open>\<^verbatim>\<open>REQUIRED_FIELDS[finalDocType] ?? REQUIRED_FIELDS.contract\<close>.\<close>

definition REQUIRED_FIELDS :: "(string \<times> string list) list" where
  "REQUIRED_FIELDS =
     [(''contract'', [''parties'', ''effective date'', ''term'', ''termination'']),
      (''invoice'', [''invoice number'', ''date'', ''total'', ''due date'', ''vendor'', ''bill to'']),
      (''identity_document'', [])]"

definition requiredForType :: "string \<Rightarrow> string list" where
  "requiredForType finalDocType =
     (case map_of REQUIRED_FIELDS finalDocType of
        Some required \<Rightarrow> required
      | None \<Rightarrow> [''parties'', ''effective date'', ''term'', ''termination''])"

definition fieldPatterns :: "(string \<times> rx list) list" where
  "fieldPatterns =
     [(''effective date'',
        [seqs [Str ''effective'', plus sp, alts [Str ''date'', Str ''on'', Str ''from''], plus sp, plus wd],
         seqs [Str ''effective:'', star sp, plus wd, plus sp, plus dg],
         seqs [Str ''commencement'', star sp, Str ''date''],
         seqs [Str ''start'', star sp, Str ''date'', plus sp, opt (alts [Str ''of'', seqs [Str ''of'', plus sp]])],
         seqs [Str ''effective'', plus sp, Rep 1 (Some 2) True dg, Cls False [(CHR ''/'', CHR ''/''), (CHR ''_'', CHR ''_''), (CHR ''-'', CHR ''-'')], Rep 1 (Some 2) True dg, Cls False [(CHR ''/'', CHR ''/''), (CHR ''_'', CHR ''_''), (CHR ''-'', CHR ''-'')], Rep 2 (Some 4) True dg],
         seqs [Str ''effective'', plus sp, plus wd, plus sp, Rep 1 (Some 2) True dg, opt (Str '',''), plus sp, Rep 4 (Some 4) True dg]]),
      (''termination'',
        [seqs [Str ''termination'', star sp, alts [Str ''clause'', Str ''date'', Str ''period'', Str ''notice'']],
         seqs [Str ''term'', star Dot, Str ''terminat''],
         seqs [Str ''notice'', star sp, Str ''period''],
         seqs [Str ''ending'', plus sp, Str ''date'']]),
      (''term'',
        [seqs [Str ''term'', star sp, alts [Str ''and'', Str ''of'', Str ''period'', Str ''duration'']],
         seqs [Str ''duration'', plus sp, Str ''of''],
         seqs [Str ''period'', plus sp, Str ''of''],
         seqs [plus dg, star sp, Str ''month'', opt (Str ''s'')],
         seqs [plus dg, star sp, Str ''year'', opt (Str ''s'')]]),
      (''parties'',
        [seqs [Str ''between'', plus sp, plus wd],
         seqs [Str ''by'', plus sp, Str ''and'', plus sp, Str ''between''],
         seqs [Str ''party'', plus sp, alts [Str ''of'', seqs [Str ''of'', plus sp, Str ''the'']]],
         alts [Str ''incorporated'', Str ''company'', Str ''pvt'', Str ''ltd'', Str ''limited'', Str ''inc.'']]),
      (''invoice number'',
        [seqs [Str ''invoice'', star sp, alts [Str ''no'', Str ''number'', Str ''#'', Str ''.''], star sp, plus dg],
         seqs [Str ''inv'', star sp, opt (alts [Str ''no'', Str ''#'']), star sp, plus dg]]),
      (''date'',
        [seqs [Str ''date:'', star sp, plus dg],
         seqs [Str ''dated'', plus sp, plus dg],
         seqs [Rep 1 (Some 2) True dg, Cls False [(CHR ''/'', CHR ''/''), (CHR ''_'', CHR ''_''), (CHR ''-'', CHR ''-'')], Rep 1 (Some 2) True dg, Cls False [(CHR ''/'', CHR ''/''), (CHR ''_'', CHR ''_''), (CHR ''-'', CHR ''-'')], Rep 2 (Some 4) True dg]]),
      (''total'',
        [seqs [Str ''total'', star sp, alts [Str ''amount'', Str ''due'', Str ''payable'']],
         seqs [Str ''grand'', star sp, Str ''total''],
         seqs [Str ''inr'', star sp, plus dg],
         seqs [Str ''$'', star sp, plus dg]]),
      (''due date'',
        [seqs [Str ''due'', star sp, Str ''date''],
         seqs [Str ''payment'', star sp, Str ''due''],
         seqs [Str ''payable'', star sp, Str ''by''],
         seqs [Str ''net'', star sp, plus dg]]),
      (''vendor'',
        [alts [Str ''vendor'', Str ''supplier'', Str ''provider'', Str ''contractor'']]),
      (''bill to'',
        [alts [seqs [Str ''bill'', star sp, Str ''to''], seqs [Str '' billed'', star sp, Str ''to'']],
         seqs [Str ''billing'', star sp, Str ''address'']])]"

text \<open>The answer of \<^verbatim>\<open>detectRisksSemantic\<close>, a call to the generative model.\<close>

record semanticRisk =
  sm_riskType :: string
  sm_severity :: Severity
  sm_explanation :: string
  sm_suggestedClause :: "string option"
  sm_regulatoryReferences :: "string list option"

text \<open>A flag of the rules: page 1, no suggested clause, no regulatory mapping.\<close>

definition ruleFlag :: "objectId \<Rightarrow> string \<Rightarrow> string \<Rightarrow> Severity \<Rightarrow> string \<Rightarrow> riskFlag" where
  "ruleFlag documentId clauseReference riskType severity explanation =
     \<lparr>rf_documentId = documentId, rf_clauseReference = clauseReference, rf_riskType = riskType,
      rf_severity = severity, rf_explanation = explanation, rf_suggestedClause = None,
      rf_pageNumber = Some 1, rf_regulatoryMapping = None\<rparr>"

definition matches :: "riskPattern \<Rightarrow> string \<Rightarrow> bool" where
  "matches r rawText = rxTest True (rp_pattern r) rawText"

text \<open>A template string prints a missing \<^verbatim>\<open>clauseType\<close> as \<open>undefined\<close>.\<close>

definition clauseTypeText :: "riskPattern \<Rightarrow> string" where
  "clauseTypeText r = (case rp_clauseType r of Some c \<Rightarrow> c | None \<Rightarrow> ''undefined'')"

definition missingClauseFlags :: "objectId \<Rightarrow> string \<Rightarrow> riskFlag list" where
  "missingClauseFlags documentId rawText =
     List.map_filter (\<lambda>r.
        if \<not> matches r rawText \<and> (rp_missingOnly r \<or> strIncludes (rp_risk r) ''Missing'')
        then Some (ruleFlag documentId (rp_risk r) ''missing_clause'' (rp_severity r)
               (''Missing essential '' @ clauseTypeText r @ '' clause: '' @ rp_risk r
                @ ''. This is critical for comprehensive contract protection.''))
        else None) MISSING_CLAUSE_RISKS"

definition weakClauseFlags :: "objectId \<Rightarrow> string \<Rightarrow> riskFlag list" where
  "weakClauseFlags documentId rawText =
     List.map_filter (\<lambda>w.
        if matches w rawText
        then Some (ruleFlag documentId (rp_risk w) ''weak_clause'' (rp_severity w)
               (''Weak clause detected: '' @ rp_risk w
                @ ''. This language may create ambiguity or unfair terms.''))
        else None) WEAK_CLAUSE_PATTERNS"

definition paymentFlags :: "objectId \<Rightarrow> string \<Rightarrow> riskFlag list" where
  "paymentFlags documentId rawText =
     List.map_filter (\<lambda>p.
        if \<not> matches p rawText \<and> rp_missingOnly p
        then Some (ruleFlag documentId (rp_risk p) ''payment_risk'' (rp_severity p)
               (''Missing payment term: '' @ rp_risk p @ ''. This could lead to financial disputes.''))
        else if matches p rawText \<and> rp_severity p = Critical
        then Some (ruleFlag documentId (rp_risk p) ''payment_risk'' (rp_severity p)
               (''Critical financial exposure: '' @ rp_risk p
                @ ''. This could result in unlimited liability.''))
        else None) PAYMENT_RISK_PATTERNS"

definition complianceFlags :: "objectId \<Rightarrow> string \<Rightarrow> riskFlag list" where
  "complianceFlags documentId rawText =
     List.map_filter (\<lambda>c.
        if \<not> matches c rawText \<and> rp_missingOnly c
        then Some (ruleFlag documentId (rp_risk c) ''compliance'' (rp_severity c)
               (''Missing '' @ rp_risk c @ '' clause. Required for regulatory compliance.''))
        else None) COMPLIANCE_RISK_PATTERNS"

definition imbalanceFlags :: "objectId \<Rightarrow> string \<Rightarrow> riskFlag list" where
  "imbalanceFlags documentId rawText =
     List.map_filter (\<lambda>i.
        if matches i rawText
        then Some (ruleFlag documentId (rp_risk i) ''contract_imbalance'' (rp_severity i)
               (''Contract imbalance detected: '' @ rp_risk i
                @ ''. One party may have significantly more power or protection.''))
        else None) IMBALANCE_RISK_PATTERNS"

definition signatureFlags :: "objectId \<Rightarrow> string \<Rightarrow> riskFlag list" where
  "signatureFlags documentId rawText =
     List.map_filter (\<lambda>s.
        if \<not> matches s rawText \<and> rp_missingOnly s
        then Some (ruleFlag documentId (rp_risk s) ''signature_authorization'' Medium
               (''Missing '' @ rp_risk s
                @ ''. Required for proper document execution and enforceability.''))
        else None) SIGNATURE_RISK_PATTERNS"

definition structuralFlags :: "objectId \<Rightarrow> string \<Rightarrow> riskFlag list" where
  "structuralFlags documentId rawText =
     List.map_filter (\<lambda>st.
        if \<not> matches st rawText \<and> rp_missingOnly st
        then Some (ruleFlag documentId (rp_risk st) ''structural'' (rp_severity st)
               (''Missing structural element: '' @ rp_risk st
                @ ''. May affect document organization and enforceability.''))
        else None) STRUCTURAL_RISK_PATTERNS"

definition ambiguityFlags :: "objectId \<Rightarrow> string \<Rightarrow> riskFlag list" where
  "ambiguityFlags documentId rawText =
     List.map_filter (\<lambda>a.
        if matches a rawText
        then Some (ruleFlag documentId (rp_risk a) ''ambiguity'' (rp_severity a)
               (''Ambiguous language detected: '' @ rp_risk a
                @ ''. This vague wording could lead to disputes.''))
        else None) AMBIGUITY_RISK_PATTERNS"

definition metadataFlags :: "objectId \<Rightarrow> string \<Rightarrow> riskFlag list" where
  "metadataFlags documentId rawText =
     List.map_filter (\<lambda>m.
        if \<not> matches m rawText \<and> rp_missingOnly m
        then Some (ruleFlag documentId (rp_risk m) ''metadata_validity'' (rp_severity m)
               (''Missing metadata: '' @ rp_risk m
                @ ''. Required for document validity and timeline clarity.''))
        else None) METADATA_RISK_PATTERNS"

text \<open>
  The flag of the semantic analysis: none when the model gives no answer or a severity
  \<open>low\<close>; a severity \<open>critical\<close> is stored as \<open>high\<close>.
\<close>

definition semanticFlags ::
    "(string \<Rightarrow> semanticRisk option) \<Rightarrow> objectId \<Rightarrow> string \<Rightarrow> riskFlag list" where
  "semanticFlags detectRisksSemantic documentId rawText =
     (if 100 < length rawText then
        (case detectRisksSemantic (strSlice rawText 0 5000) of
           None \<Rightarrow> []
         | Some semantic \<Rightarrow>
             if sm_severity semantic \<noteq> Low
             then [\<lparr>rf_documentId = documentId,
                     rf_clauseReference = ''AI-detected risk in document'',
                     rf_riskType = sm_riskType semantic,
                     rf_severity = (if sm_severity semantic = Critical then High
                                    else sm_severity semantic),
                     rf_explanation = sm_explanation semantic,
                     rf_suggestedClause = sm_suggestedClause semantic,
                     rf_pageNumber = Some 1,
                     rf_regulatoryMapping = sm_regulatoryReferences semantic\<rparr>]
             else [])
      else [])"

definition gstFlags :: "objectId \<Rightarrow> string \<Rightarrow> riskFlag list" where
  "gstFlags documentId rawText =
     List.map_filter (\<lambda>g.
        if \<not> matches g rawText
        then Some (ruleFlag documentId (rp_risk g) ''compliance'' (rp_severity g)
               (''GST invoice validity: '' @ rp_risk g
                @ ''. Required for valid Input Tax Credit (ITC) under Indian GST rules.''))
        else None) GST_INVOICE_COMPLIANCE"

text \<open>Whether a required field is found: in the lower-cased text, or by one of its patterns.\<close>

definition fieldFound :: "string \<Rightarrow> string \<Rightarrow> bool" where
  "fieldFound rawText field =
     (strIncludes (toLowerCase rawText) field
      \<or> (case map_of fieldPatterns field of
            None \<Rightarrow> False
          | Some patterns \<Rightarrow> list_ex (\<lambda>pattern. rxTest True pattern rawText) patterns))"

definition requiredFieldFlags :: "objectId \<Rightarrow> string \<Rightarrow> string \<Rightarrow> riskFlag list" where
  "requiredFieldFlags documentId finalDocType rawText =
     List.map_filter (\<lambda>field.
        if \<not> fieldFound rawText field
        then Some (ruleFlag documentId (''Missing required: '' @ field) ''validation'' Medium
               (''Document type '' @ [CHR 0x22] @ finalDocType @ [CHR 0x22]
                @ '' typically requires '' @ [CHR 0x22] @ field @ [CHR 0x22]
                @ ''. Not found or not extracted.''))
        else None) (requiredForType finalDocType)"

text \<open>\<^verbatim>\<open>rawText.replace(/[^a-zA-Z0-9]/g, "").length < 50\<close>.\<close>

definition isLowQualityText :: "string \<Rightarrow> bool" where
  "isLowQualityText rawText \<longleftrightarrow>
     length (filter (\<lambda>c. isLowerAZ c \<or> isUpperAZ c \<or> isDigit c) rawText) < 50"

text \<open>All the flags that the pipeline pushes, in the order in which it pushes them.\<close>

definition detectRisks ::
    "(string \<Rightarrow> semanticRisk option) \<Rightarrow> objectId \<Rightarrow> string \<Rightarrow> string \<Rightarrow> riskFlag list" where
  "detectRisks detectRisksSemantic documentId finalDocType rawText =
     (if finalDocType = ''contract'' \<and> \<not> isLowQualityText rawText
      then missingClauseFlags documentId rawText @ weakClauseFlags documentId rawText
           @ paymentFlags documentId rawText @ complianceFlags documentId rawText
           @ imbalanceFlags documentId rawText @ signatureFlags documentId rawText
           @ structuralFlags documentId rawText @ ambiguityFlags documentId rawText
           @ metadataFlags documentId rawText
           @ semanticFlags detectRisksSemantic documentId rawText
      else [])
     @ (if finalDocType = ''invoice'' then gstFlags documentId rawText else [])
     @ requiredFieldFlags documentId finalDocType rawText"

text \<open>
  The schema of the risk flag model: the three texts are required, and the severity is one
  of \<open>low\<close>, \<open>medium\<close> and \<open>high\<close>. A required text must not be empty.
\<close>

definition riskFlagSchema :: "riskFlag \<Rightarrow> bool" where
  "riskFlagSchema f \<longleftrightarrow>
     rf_clauseReference f \<noteq> [] \<and> rf_riskType f \<noteq> [] \<and> rf_explanation f \<noteq> []
     \<and> rf_severity f \<in> set [Low, Medium, High]"

text \<open>The risk score of the pipeline.\<close>

definition riskScoreOf :: "string \<Rightarrow> riskFlag list \<Rightarrow> int" where
  "riskScoreOf finalDocType uniqueFlags =
     (let high = int (length (filter (\<lambda>f. rf_severity f = High \<or> rf_severity f = Critical) uniqueFlags));
          medium = int (length (filter (\<lambda>f. rf_severity f = Medium) uniqueFlags));
          lowOrInfo = int (length (filter (\<lambda>f. rf_severity f = Low) uniqueFlags))
      in if finalDocType = ''identity_document'' then min 15 (lowOrInfo * 5)
         else min 100 (high * 25 + medium * 15 + lowOrInfo * 5))"

section \<open>The document pipeline\<close>

subsection \<open>Collections\<close>

datatype DocumentStatus = Pending | Processing | Completed | Failed | UnderReview

text \<open>
  A document of the collection. Dates and the free metadata are left out; an absent
  \<^verbatim>\<open>category\<close> is the empty string.
\<close>

record document =
  d_userId :: objectId
  d_documentName :: string
  d_version :: string
  d_documentType :: string
  d_category :: string
  d_riskScore :: int
  d_status :: DocumentStatus
  d_filePath :: string
  d_originalName :: string
  d_mimeType :: string
  d_summary :: "nat list option"

record page =
  pg_pageNumber :: nat
  pg_rawText :: string
  pg_sections :: "(string \<times> string) list"

text \<open>A clause. Its identifier, which is random when the model gives none, is left out.\<close>

record clause =
  cl_title :: string
  cl_content :: string
  cl_pageNumber :: nat

record storedField = extractedField +
  f_reviewed :: bool

record documentStructure =
  ds_pages :: "page list"
  ds_sections :: "docSection list"
  ds_tables :: "docTable list"
  ds_clauses :: "clause list"
  ds_extractedFields :: "storedField list"
  ds_documentType :: string

text \<open>
  The database: the four collections that the pipeline writes. \<open>st_statusWrites\<close> is a
  history that no code reads: every write of a status to the document collection is
  appended to it, so that the order of the writes of a run can be stated.
\<close>

record store =
  st_documents :: "objectId \<rightharpoonup> document"
  st_structures :: "objectId \<rightharpoonup> documentStructure"
  st_embeddings :: "embedding list"
  st_riskFlags :: "riskFlag list"
  st_statusWrites :: "(objectId \<times> DocumentStatus) list"

text \<open>\<^verbatim>\<open>a || b\<close> on strings.\<close>

definition orElse :: "string \<Rightarrow> string \<Rightarrow> string" where
  "orElse a b = (if a \<noteq> [] then a else b)"

text \<open>\<^verbatim>\<open>n || 1\<close> on numbers.\<close>

definition orOne :: "nat \<Rightarrow> nat" where
  "orOne n = (if n = 0 then 1 else n)"

subsection \<open>Upload\<close>

record uploadedFile =
  uf_path :: string
  uf_originalname :: string
  uf_mimetype :: string

text \<open>The body of the upload request; an absent property is the empty string.\<close>

record uploadBody =
  ub_documentName :: string
  ub_title :: string
  ub_documentType :: string
  ub_fileType :: string
  ub_category :: string
  ub_version :: string

text \<open>The document that \<^verbatim>\<open>POST /api/documents\<close> creates.\<close>

definition newDocument :: "objectId \<Rightarrow> uploadBody \<Rightarrow> uploadedFile \<Rightarrow> document" where
  "newDocument userId body file =
     \<lparr>d_userId = userId,
      d_documentName = orElse (ub_documentName body) (orElse (ub_title body) (uf_originalname file)),
      d_version = orElse (ub_version body) ''1.0'',
      d_documentType = orElse (ub_documentType body) (orElse (ub_fileType body) ''contract''),
      d_category = orElse (ub_category body) [],
      d_riskScore = 0,
      d_status = Pending,
      d_filePath = uf_path file,
      d_originalName = uf_originalname file,
      d_mimeType = uf_mimetype file,
      d_summary = None\<rparr>"

text \<open>
  \<^verbatim>\<open>DocumentModel.create\<close>, with the identifier that the database gives to the new
  document. The schema requires a name, a type, a path and an original name.
\<close>

definition documentSchema :: "document \<Rightarrow> bool" where
  "documentSchema d \<longleftrightarrow>
     d_documentName d \<noteq> [] \<and> d_documentType d \<noteq> [] \<and> d_filePath d \<noteq> []
     \<and> d_originalName d \<noteq> []"

definition createDocument :: "store \<Rightarrow> objectId \<Rightarrow> document \<Rightarrow> store option" where
  "createDocument st newId d =
     (if documentSchema d
      then Some (st\<lparr>st_documents := (st_documents st)(newId \<mapsto> d),
                    st_statusWrites := st_statusWrites st @ [(newId, d_status d)]\<rparr>)
      else None)"

subsection \<open>The generative model\<close>

text \<open>
  The structure that the extraction functions return. \<open>x_insights\<close> and \<open>x_documentType\<close>
  are optional in the interface.
\<close>

record extractedStructure =
  x_sections :: "docSection list"
  x_clauses :: "clause list"
  x_extractedFields :: "extractedField list"
  x_tables :: "docTable list"
  x_summary :: string
  x_insights :: "string option"
  x_documentType :: "string option"

record imageStructure = extractedStructure +
  x_rawText :: string

text \<open>
  The JSON that the generative model answers for a PDF, as far as
  \<^verbatim>\<open>extractStructureFromPdf\<close> reads it: \<open>None\<close> is a property that is absent, or that is
  not an array where an array is asked for.
\<close>

record parsedSection =
  ps_title :: "string option"
  ps_content :: "string option"
  ps_pageNumber :: "nat option"
  ps_level :: "nat option"

record parsedClause =
  pc_title :: "string option"
  pc_content :: "string option"
  pc_pageNumber :: "nat option"

record parsedField =
  pf_fieldName :: "string option"
  pf_value :: string
  pf_pageNumber :: "nat option"
  pf_confidenceScore :: "real option"

record parsedStructure =
  pa_sections :: "parsedSection list option"
  pa_clauses :: "parsedClause list option"
  pa_extractedFields :: "parsedField list option"
  pa_tables :: "docTable list option"
  pa_summary :: "string option"
  pa_documentType :: "string option"

text \<open>
  What the pipeline does not compute itself. \<open>en_genAI\<close> tells whether an API key is set;
  \<open>en_generateStructure\<close> and \<open>en_generateRisk\<close> are the answers of a model, given its
  name and the text in the prompt, \<open>None\<close> when the call or the parsing of its answer
  throws; the other functions are given the path of the file for its content, and are
  \<open>None\<close> when they throw.
\<close>

record env =
  en_genAI :: bool
  en_GENERATION_MODEL :: string
  en_readFile :: "string \<Rightarrow> bool"
  en_ocrExtractText :: "string \<Rightarrow> string \<Rightarrow> string option"
  en_extractStructureFromImage :: "string \<Rightarrow> string \<Rightarrow> imageStructure option"
  en_extractText :: "string \<Rightarrow> (nat \<times> string list) option"
  en_generateStructure :: "string \<Rightarrow> nat \<Rightarrow> string \<Rightarrow> parsedStructure option"
  en_generateRisk :: "string \<Rightarrow> string \<Rightarrow> semanticRisk option"

definition modelsToTry :: "env \<Rightarrow> string list" where
  "modelsToTry e = [en_GENERATION_MODEL e, ''gemini-1.5-pro'', ''gemini-2.0-flash'']"

text \<open>The loop over the models: the first answer that does not throw.\<close>

fun firstAnswer :: "(string \<Rightarrow> 'a option) \<Rightarrow> string list \<Rightarrow> 'a option" where
  "firstAnswer ask [] = None"
| "firstAnswer ask (modelId # modelIds) =
     (case ask modelId of Some answer \<Rightarrow> Some answer | None \<Rightarrow> firstAnswer ask modelIds)"

definition defaultResult :: extractedStructure where
  "defaultResult =
     \<lparr>x_sections = [], x_clauses = [], x_extractedFields = [], x_tables = [], x_summary = [],
      x_insights = None, x_documentType = None\<rparr>"

definition orEmpty :: "string option \<Rightarrow> string" where
  "orEmpty s = (case s of None \<Rightarrow> [] | Some t \<Rightarrow> t)"

definition orPageOne :: "nat option \<Rightarrow> nat" where
  "orPageOne n = (case n of None \<Rightarrow> 1 | Some k \<Rightarrow> orOne k)"

definition structureOfParsed :: "parsedStructure \<Rightarrow> extractedStructure" where
  "structureOfParsed parsed =
     \<lparr>x_sections =
        (case pa_sections parsed of
           None \<Rightarrow> []
         | Some ss \<Rightarrow> map (\<lambda>s. \<lparr>s_title = orEmpty (ps_title s), s_content = orEmpty (ps_content s),
                                s_pageNumber = orPageOne (ps_pageNumber s),
                                s_level = Some (orPageOne (ps_level s))\<rparr>) ss),
      x_clauses =
        (case pa_clauses parsed of
           None \<Rightarrow> []
         | Some cs \<Rightarrow> map (\<lambda>c. \<lparr>cl_title = orEmpty (pc_title c), cl_content = orEmpty (pc_content c),
                                cl_pageNumber = orPageOne (pc_pageNumber c)\<rparr>) cs),
      x_extractedFields =
        (case pa_extractedFields parsed of
           None \<Rightarrow> []
         | Some fs \<Rightarrow> map (\<lambda>f. \<lparr>f_fieldName = orEmpty (pf_fieldName f), f_value = pf_value f,
                                f_pageNumber = orPageOne (pf_pageNumber f),
                                f_confidenceScore =
                                  (case pf_confidenceScore f of None \<Rightarrow> 0.5 | Some c \<Rightarrow> c)\<rparr>) fs),
      x_tables = (case pa_tables parsed of None \<Rightarrow> [] | Some ts \<Rightarrow> ts),
      x_summary = orEmpty (pa_summary parsed),
      x_insights = None,
      x_documentType = pa_documentType parsed\<rparr>"

definition extractStructureFromPdf :: "env \<Rightarrow> string \<Rightarrow> nat \<Rightarrow> extractedStructure" where
  "extractStructureFromPdf e rawText pageCount =
     (if \<not> en_genAI e then defaultResult\<lparr>x_summary := ''API key not set.''\<rparr>
      else (case firstAnswer (\<lambda>modelId. en_generateStructure e modelId pageCount
                                  (strSlice rawText 0 32000)) (modelsToTry e) of
              Some parsed \<Rightarrow> structureOfParsed parsed
            | None \<Rightarrow> defaultResult))"

definition detectRisksSemantic :: "env \<Rightarrow> string \<Rightarrow> semanticRisk option" where
  "detectRisksSemantic e clauseText =
     (if \<not> en_genAI e then None
      else firstAnswer (\<lambda>modelId. en_generateRisk e modelId (strSlice clauseText 0 4000))
             (modelsToTry e))"

subsection \<open>Extraction\<close>

datatype pipelineError = DocumentNotFound | ReadFileError | OcrError | PdfError | ValidationError

text \<open>What the two branches of the pipeline compute.\<close>

record extraction =
  ex_rawText :: string
  ex_pages :: "page list"
  ex_sections :: "docSection list"
  ex_tables :: "docTable list"
  ex_clauses :: "clause list"
  ex_documentType :: string
  ex_extractedForDb :: "storedField list"
  ex_summary :: string

definition stored :: "extractedField \<Rightarrow> storedField" where
  "stored f =
     \<lparr>f_fieldName = f_fieldName f, f_value = f_value f, f_pageNumber = f_pageNumber f,
      f_confidenceScore = f_confidenceScore f, f_reviewed = False\<rparr>"

text \<open>A field of the model for an image: its confidence is at most 0.7, and 0.6 when it is 0.\<close>

definition storedImageField :: "extractedField \<Rightarrow> storedField" where
  "storedImageField f =
     \<lparr>f_fieldName = f_fieldName f, f_value = f_value f, f_pageNumber = f_pageNumber f,
      f_confidenceScore = (if f_confidenceScore f \<noteq> 0 then min (f_confidenceScore f) 0.7 else 0.6),
      f_reviewed = False\<rparr>"

definition imageDefault :: imageStructure where
  "imageDefault =
     \<lparr>x_sections = [], x_clauses = [], x_extractedFields = [], x_tables = [], x_summary = [],
      x_insights = Some [], x_documentType = None, x_rawText = []\<rparr>"

definition extractImage :: "env \<Rightarrow> string \<Rightarrow> string \<Rightarrow> pipelineError + extraction" where
  "extractImage e filePath mimeType =
     (case en_ocrExtractText e filePath mimeType of
        None \<Rightarrow> Inl OcrError
      | Some ocrText \<Rightarrow>
          (let imageResult = (case en_extractStructureFromImage e filePath mimeType of
                                Some r \<Rightarrow> r | None \<Rightarrow> imageDefault);
               rawText = correctOcrText (orElse (trim (x_rawText imageResult)) ocrText);
               sections = map (\<lambda>s. s\<lparr>s_pageNumber := orOne (s_pageNumber s),
                                      s_level := Some (orPageOne (s_level s))\<rparr>)
                            (x_sections imageResult);
               aiFields = x_extractedFields imageResult;
               extractedForDb = (if 0 < length aiFields then map storedImageField aiFields
                                 else map stored (extractFieldsFromText rawText))
           in Inr \<lparr>ex_rawText = rawText,
                   ex_pages = [\<lparr>pg_pageNumber = 1, pg_rawText = rawText,
                                pg_sections = map (\<lambda>s. (s_title s, s_content s))
                                                (x_sections imageResult)\<rparr>],
                   ex_sections = sections,
                   ex_tables = (if x_tables imageResult \<noteq> [] then x_tables imageResult
                                else detectTablesFromText rawText 1),
                   ex_clauses = map (\<lambda>c. c\<lparr>cl_pageNumber := orOne (cl_pageNumber c)\<rparr>)
                                  (x_clauses imageResult),
                   ex_documentType = orElse (orEmpty (x_documentType imageResult)) ''unknown'',
                   ex_extractedForDb = extractedForDb,
                   ex_summary =
                     orElse (joinWith [CHR 0x0A, CHR 0x0A]
                               (filter (\<lambda>s. s \<noteq> [])
                                  [x_summary imageResult, orEmpty (x_insights imageResult)]))
                       (if ocrText \<noteq> []
                        then ''Image processed with OCR. '' @ showNat (length sections)
                             @ '' sections, '' @ showNat (length extractedForDb) @ '' fields.''
                        else ''Image processed.'')\<rparr>))"

text \<open>The pages of a PDF: one for each page number; a page without a text has the empty text.\<close>

definition pdfPages :: "nat \<Rightarrow> string list \<Rightarrow> string \<Rightarrow> page list" where
  "pdfPages numPages textArray rawText =
     (let pages = map (\<lambda>i. \<lparr>pg_pageNumber = i + 1,
                            pg_rawText = (if i < length textArray then textArray ! i else []),
                            pg_sections = []\<rparr>) [0..<numPages]
      in if pages = [] then [\<lparr>pg_pageNumber = 1, pg_rawText = rawText, pg_sections = []\<rparr>]
         else pages)"

definition heuristicTables :: "page list \<Rightarrow> docTable list" where
  "heuristicTables pages =
     concat (map (\<lambda>(i, p). detectTablesFromText (pg_rawText p) (i + 1)) (enumerate 0 pages))"

text \<open>The fields of a PDF before they are stored.\<close>

definition mergeFields :: "extractedField list \<Rightarrow> extractedField list \<Rightarrow> extractedField list" where
  "mergeFields aiFields heuristicFields =
     (if 0 < length aiFields
      then aiFields @ filter (\<lambda>h. \<not> list_ex (\<lambda>a. toLowerCase (f_fieldName a)
                                                 = toLowerCase (f_fieldName h)) aiFields)
                        heuristicFields
      else heuristicFields)"

definition extractPdf :: "env \<Rightarrow> string \<Rightarrow> pipelineError + extraction" where
  "extractPdf e filePath =
     (case en_extractText e filePath of
        None \<Rightarrow> Inl PdfError
      | Some (totalPages, pageTexts) \<Rightarrow>
          (let rawText = joinWith [CHR 0x0A] pageTexts;
               numPages = orOne totalPages;
               pages = pdfPages numPages pageTexts rawText;
               ai = extractStructureFromPdf e rawText numPages
           in Inr \<lparr>ex_rawText = rawText,
                   ex_pages = pages,
                   ex_sections = (if 0 < length (x_sections ai) then x_sections ai
                                  else extractSectionsFromText rawText),
                   ex_tables = (if 0 < length (x_tables ai) then x_tables ai
                                else heuristicTables pages),
                   ex_clauses = x_clauses ai,
                   ex_documentType = orElse (orEmpty (x_documentType ai)) ''unknown'',
                   ex_extractedForDb =
                     map stored (mergeFields (x_extractedFields ai) (extractFieldsFromText rawText)),
                   ex_summary = trim (x_summary ai)\<rparr>))"

text \<open>
  The identity fields that are pushed after the extraction: those whose name, in lower
  case, is not yet among the keys.
\<close>

fun idFieldPush :: "extractedField list \<Rightarrow> string list \<Rightarrow> storedField list \<Rightarrow> storedField list" where
  "idFieldPush [] existingKeys extractedForDb = extractedForDb"
| "idFieldPush (f # idFields) existingKeys extractedForDb =
     (if toLowerCase (f_fieldName f) \<notin> set existingKeys
      then idFieldPush idFields (existingKeys @ [toLowerCase (f_fieldName f)])
             (extractedForDb @ [stored f])
      else idFieldPush idFields existingKeys extractedForDb)"

definition withIdFields :: "DocumentTypeKind \<Rightarrow> string \<Rightarrow> storedField list \<Rightarrow> storedField list" where
  "withIdFields heuristicType rawText extractedForDb =
     (if heuristicType = IdentityDocument
      then idFieldPush (extractIdFieldsFromText rawText)
             (map (\<lambda>f. toLowerCase (f_fieldName f)) extractedForDb) extractedForDb
      else extractedForDb)"

definition finalDocTypeOf :: "string \<Rightarrow> DocumentTypeKind \<Rightarrow> string" where
  "finalDocTypeOf documentType heuristicType =
     (if documentType \<noteq> [] \<and> documentType \<noteq> ''unknown'' then documentType
      else kindName heuristicType)"

subsection \<open>Chunks and embeddings\<close>

definition chunksForEmbedding ::
    "page list \<Rightarrow> docSection list \<Rightarrow> clause list \<Rightarrow> string \<Rightarrow> (chunk \<times> string option) list" where
  "chunksForEmbedding pages sections clauses rawText =
     (let chunks =
            concat (map (\<lambda>p. map (\<lambda>c. (c, None)) (chunkText (pg_rawText p) (pg_pageNumber p))) pages)
            @ concat (map (\<lambda>s. map (\<lambda>c. (c, Some (s_title s)))
                                 (chunkText (s_content s) (s_pageNumber s))) sections)
            @ concat (map (\<lambda>cl. map (\<lambda>c. (c, Some (cl_title cl)))
                                  (chunkText (cl_content cl) (cl_pageNumber cl))) clauses)
      in if chunks = [] \<and> trim rawText \<noteq> []
         then [(\<lparr>c_text = trim (strSlice rawText 0 CHUNK_SIZE), c_pageNumber = 1\<rparr>, None)]
         else chunks)"

definition validChunks :: "(chunk \<times> string option) list \<Rightarrow> (chunk \<times> string option) list" where
  "validChunks chunks = filter (\<lambda>(c, title). 0 < length (trim (c_text c))) chunks"

text \<open>
  The embeddings that are created, one for each valid chunk. An object identifier is a
  number here, and is printed in decimal.
\<close>

definition newEmbeddings :: "objectId \<Rightarrow> (chunk \<times> string option) list \<Rightarrow> embedding list" where
  "newEmbeddings documentId chunks =
     List.map_filter (\<lambda>(i, (c, title)).
        (let t = trim (c_text c); vec = embedText t
         in if t = [] then None
            else if 0 < length vec
            then Some \<lparr>em_documentId = documentId,
                       em_chunkId = ''chunk_'' @ showNat documentId @ ''_'' @ showNat i,
                       em_sectionTitle = title, em_pageNumber = c_pageNumber c, em_text = t,
                       em_embeddingVector = vec\<rparr>
            else None)) (enumerate 0 chunks)"

subsection \<open>The run\<close>

text \<open>
  The label of the type in the summary. The capital of its first character can leave
  Latin-1, so the label and the summary are lists of code units.
\<close>

definition typeLabel :: "string \<Rightarrow> nat list" where
  "typeLabel finalDocType =
     (if finalDocType = ''identity_document'' then codeUnits ''Identity document''
      else if finalDocType = ''invoice'' then codeUnits ''Invoice''
      else if finalDocType \<noteq> ''unknown''
      then (case finalDocType of
              [] \<Rightarrow> []
            | c # cs \<Rightarrow>
                toUpperCase [c]
                @ codeUnits (map (\<lambda>x. if x = CHR ''_'' then CHR '' '' else x) cs))
      else codeUnits ''Document'')"

definition finalSummaryOf ::
    "string \<Rightarrow> string \<Rightarrow> nat \<Rightarrow> nat \<Rightarrow> nat \<Rightarrow> nat \<Rightarrow> nat list" where
  "finalSummaryOf summary finalDocType sections clauses extracted tables =
     (if trim summary \<noteq> [] then codeUnits (trim summary)
      else typeLabel finalDocType
           @ codeUnits ('' processed. '' @ showNat sections @ '' sections, ''
                        @ showNat clauses @ '' clauses, '' @ showNat extracted @ '' fields, ''
                        @ showNat tables @ '' table(s) detected.''))"

text \<open>\<^verbatim>\<open>DocumentModel.updateOne({ _id: documentId }, { status })\<close>.\<close>

definition setStatus :: "objectId \<Rightarrow> DocumentStatus \<Rightarrow> store \<Rightarrow> store" where
  "setStatus documentId status st =
     (case st_documents st documentId of
        None \<Rightarrow> st
      | Some d \<Rightarrow> st\<lparr>st_documents := (st_documents st)(documentId \<mapsto> d\<lparr>d_status := status\<rparr>),
                     st_statusWrites := st_statusWrites st @ [(documentId, status)]\<rparr>)"

text \<open>The last update of a run that throws nothing.\<close>

definition complete :: "objectId \<Rightarrow> int \<Rightarrow> nat list \<Rightarrow> string \<Rightarrow> store \<Rightarrow> store" where
  "complete documentId riskScore finalSummary finalDocType st =
     (case st_documents st documentId of
        None \<Rightarrow> st
      | Some d \<Rightarrow>
          st\<lparr>st_documents := (st_documents st)(documentId \<mapsto>
                 d\<lparr>d_status := Completed, d_riskScore := riskScore,
                   d_summary := Some finalSummary, d_documentType := finalDocType\<rparr>),
             st_statusWrites := st_statusWrites st @ [(documentId, Completed)]\<rparr>)"

text \<open>
  The flags that a run hands to \<^verbatim>\<open>RiskFlagModel.insertMany\<close>.
\<close>

definition flagsToInsert :: "env \<Rightarrow> objectId \<Rightarrow> extraction \<Rightarrow> riskFlag list" where
  "flagsToInsert e documentId ex =
     (let rawText = ex_rawText ex;
          finalDocType = finalDocTypeOf (ex_documentType ex) (detectDocumentType rawText)
      in uniqueRiskFlags (detectRisks (detectRisksSemantic e) documentId finalDocType rawText))"

text \<open>
  The block under \<^verbatim>\<open>try\<close>, after the file is read and the extraction is done.
  \<^verbatim>\<open>insertMany\<close> validates every flag against the schema before it inserts any, and throws
  when one is not valid.
\<close>

definition afterExtraction ::
    "env \<Rightarrow> objectId \<Rightarrow> extraction \<Rightarrow> store \<Rightarrow> store \<times> (pipelineError + int \<times> nat list)" where
  "afterExtraction e documentId ex st =
     (let rawText = ex_rawText ex;
          heuristicType = detectDocumentType rawText;
          finalDocType = finalDocTypeOf (ex_documentType ex) heuristicType;
          extractedForDb = withIdFields heuristicType rawText (ex_extractedForDb ex);
          st1 = st\<lparr>st_structures := (st_structures st)(documentId \<mapsto>
                     \<lparr>ds_pages = ex_pages ex, ds_sections = ex_sections ex,
                      ds_tables = ex_tables ex, ds_clauses = ex_clauses ex,
                      ds_extractedFields = extractedForDb, ds_documentType = finalDocType\<rparr>)\<rparr>;
          chunks = validChunks (chunksForEmbedding (ex_pages ex) (ex_sections ex)
                                  (ex_clauses ex) rawText);
          st2 = st1\<lparr>st_embeddings := st_embeddings st1 @ newEmbeddings documentId chunks\<rparr>;
          st3 = st2\<lparr>st_riskFlags := filter (\<lambda>f. rf_documentId f \<noteq> documentId) (st_riskFlags st2)\<rparr>;
          uniqueFlags = flagsToInsert e documentId ex
      in if 0 < length uniqueFlags \<and> \<not> list_all riskFlagSchema uniqueFlags
         then (st3, Inl ValidationError)
         else (let st4 = st3\<lparr>st_riskFlags := st_riskFlags st3 @ uniqueFlags\<rparr>;
                   riskScore = riskScoreOf finalDocType uniqueFlags;
                   finalSummary = finalSummaryOf (ex_summary ex) finalDocType
                                    (length (ex_sections ex)) (length (ex_clauses ex))
                                    (length extractedForDb) (length (ex_tables ex))
               in (complete documentId riskScore finalSummary finalDocType st4,
                   Inr (riskScore, finalSummary))))"

definition isImage :: "string \<Rightarrow> bool" where
  "isImage mimeType = rxTest False (seqs [Bos, Str ''image/'']) mimeType"

definition tryBlock ::
    "env \<Rightarrow> objectId \<Rightarrow> string \<Rightarrow> string \<Rightarrow> store \<Rightarrow> store \<times> (pipelineError + int \<times> nat list)" where
  "tryBlock e documentId filePath mimeType st =
     (if \<not> en_readFile e filePath then (st, Inl ReadFileError)
      else (case (if isImage mimeType then extractImage e filePath mimeType
                  else extractPdf e filePath) of
              Inl err \<Rightarrow> (st, Inl err)
            | Inr ex \<Rightarrow> afterExtraction e documentId ex st))"

text \<open>
  \<^verbatim>\<open>runDocumentPipeline\<close>: the store after the run, and either the error that is thrown or
  the result that is returned.
\<close>

definition runDocumentPipeline ::
    "env \<Rightarrow> store \<Rightarrow> objectId \<Rightarrow> string \<Rightarrow> store \<times> (pipelineError + int \<times> nat list)" where
  "runDocumentPipeline e st documentId filePath =
     (case st_documents st documentId of
        None \<Rightarrow> (st, Inl DocumentNotFound)
      | Some doc \<Rightarrow>
          (let st1 = setStatus documentId Processing st;
               mimeType = orElse (d_mimeType doc) ''application/pdf''
           in (case tryBlock e documentId filePath mimeType st1 of
                 (st2, Inl err) \<Rightarrow> (setStatus documentId Failed st2, Inl err)
               | (st2, Inr result) \<Rightarrow> (st2, Inr result))))"

subsection \<open>The store after a run\<close>

lemma setStatus_documents:
  "st_documents st documentId = Some doc \<Longrightarrow>
   st_documents (setStatus documentId s st) = (st_documents st)(documentId \<mapsto> doc\<lparr>d_status := s\<rparr>)"
  by (simp add: setStatus_def)

lemma setStatus_writes:
  "st_documents st documentId = Some doc \<Longrightarrow>
   st_statusWrites (setStatus documentId s st) = st_statusWrites st @ [(documentId, s)]"
  by (simp add: setStatus_def)

lemma setStatus_other [simp]:
  "st_structures (setStatus documentId s st) = st_structures st"
  "st_embeddings (setStatus documentId s st) = st_embeddings st"
  "st_riskFlags (setStatus documentId s st) = st_riskFlags st"
  by (simp_all add: setStatus_def split: option.splits)

lemma complete_other [simp]:
  "st_structures (complete documentId r s t st) = st_structures st"
  "st_embeddings (complete documentId r s t st) = st_embeddings st"
  "st_riskFlags (complete documentId r s t st) = st_riskFlags st"
  by (simp_all add: complete_def split: option.splits)

text \<open>The structure that a run stores for an extraction.\<close>

definition structureOf :: "extraction \<Rightarrow> documentStructure" where
  "structureOf ex =
     \<lparr>ds_pages = ex_pages ex, ds_sections = ex_sections ex, ds_tables = ex_tables ex,
      ds_clauses = ex_clauses ex,
      ds_extractedFields = withIdFields (detectDocumentType (ex_rawText ex)) (ex_rawText ex)
                             (ex_extractedForDb ex),
      ds_documentType = finalDocTypeOf (ex_documentType ex) (detectDocumentType (ex_rawText ex))\<rparr>"

text \<open>What a run returns, or throws, after an extraction.\<close>

definition resultOf :: "env \<Rightarrow> objectId \<Rightarrow> extraction \<Rightarrow> pipelineError + int \<times> nat list" where
  "resultOf e documentId ex =
     (let uniqueFlags = flagsToInsert e documentId ex;
          finalDocType = ds_documentType (structureOf ex)
      in if uniqueFlags \<noteq> [] \<and> \<not> list_all riskFlagSchema uniqueFlags then Inl ValidationError
         else Inr (riskScoreOf finalDocType uniqueFlags,
                   finalSummaryOf (ex_summary ex) finalDocType (length (ex_sections ex))
                     (length (ex_clauses ex)) (length (ds_extractedFields (structureOf ex)))
                     (length (ex_tables ex))))"

lemma afterExtraction_structure:
  "st_structures (fst (afterExtraction e documentId ex st)) = (st_structures st)(documentId \<mapsto> structureOf ex)"
  by (simp add: afterExtraction_def structureOf_def Let_def)

lemma afterExtraction_result:
  "snd (afterExtraction e documentId ex st) = resultOf e documentId ex"
  by (simp add: afterExtraction_def resultOf_def structureOf_def Let_def)

lemma afterExtraction_flags:
  "st_riskFlags (fst (afterExtraction e documentId ex st)) =
     filter (\<lambda>f. rf_documentId f \<noteq> documentId) (st_riskFlags st)
     @ (if list_all riskFlagSchema (flagsToInsert e documentId ex) then flagsToInsert e documentId ex else [])"
  by (auto simp add: afterExtraction_def Let_def)

lemma afterExtraction_documents:
  "st_documents st documentId = Some doc \<Longrightarrow>
   st_documents (fst (afterExtraction e documentId ex st)) =
     (case resultOf e documentId ex of
        Inl err \<Rightarrow> st_documents st
      | Inr (riskScore, finalSummary) \<Rightarrow>
          (st_documents st)(documentId \<mapsto>
             doc\<lparr>d_status := Completed, d_riskScore := riskScore, d_summary := Some finalSummary,
                 d_documentType := ds_documentType (structureOf ex)\<rparr>))"
  by (simp add: afterExtraction_def resultOf_def structureOf_def Let_def complete_def)

lemma afterExtraction_writes:
  "st_documents st documentId = Some doc \<Longrightarrow>
   st_statusWrites (fst (afterExtraction e documentId ex st)) =
     (case resultOf e documentId ex of
        Inl err \<Rightarrow> st_statusWrites st
      | Inr r \<Rightarrow> st_statusWrites st @ [(documentId, Completed)])"
  by (simp add: afterExtraction_def resultOf_def structureOf_def Let_def complete_def)

text \<open>The first part of the block under \<^verbatim>\<open>try\<close>: reading the file, and one of the two branches.\<close>

definition extractionOf :: "env \<Rightarrow> string \<Rightarrow> string \<Rightarrow> pipelineError + extraction" where
  "extractionOf e filePath mimeType =
     (if \<not> en_readFile e filePath then Inl ReadFileError
      else if isImage mimeType then extractImage e filePath mimeType
      else extractPdf e filePath)"

lemma tryBlock_extract:
  "tryBlock e documentId filePath mimeType st =
     (case extractionOf e filePath mimeType of
        Inl err \<Rightarrow> (st, Inl err)
      | Inr ex \<Rightarrow> afterExtraction e documentId ex st)"
  by (simp add: tryBlock_def extractionOf_def)

lemma runDocumentPipeline_not_found:
  "st_documents st documentId = None \<Longrightarrow>
   runDocumentPipeline e st documentId filePath = (st, Inl DocumentNotFound)"
  by (simp add: runDocumentPipeline_def)

lemma runDocumentPipeline_result:
  assumes "st_documents st documentId = Some doc"
  shows "snd (runDocumentPipeline e st documentId filePath) =
           (case extractionOf e filePath (orElse (d_mimeType doc) ''application/pdf'') of
              Inl err \<Rightarrow> Inl err
            | Inr ex \<Rightarrow> resultOf e documentId ex)"
proof (cases "extractionOf e filePath (orElse (d_mimeType doc) ''application/pdf'')")
  case (Inl err)
  then show ?thesis using assms by (simp add: runDocumentPipeline_def tryBlock_extract)
next
  case (Inr ex)
  obtain st2 r where a: "afterExtraction e documentId ex (setStatus documentId Processing st) = (st2, r)"
    by (cases "afterExtraction e documentId ex (setStatus documentId Processing st)")
  from a have "r = resultOf e documentId ex"
    using afterExtraction_result [of e documentId ex "setStatus documentId Processing st"] by simp
  then show ?thesis using assms Inr a
    by (simp add: runDocumentPipeline_def tryBlock_extract split: sum.splits)
qed

lemma runDocumentPipeline_store:
  assumes "st_documents st documentId = Some doc"
  shows "fst (runDocumentPipeline e st documentId filePath) =
           (case extractionOf e filePath (orElse (d_mimeType doc) ''application/pdf'') of
              Inl err \<Rightarrow> setStatus documentId Failed (setStatus documentId Processing st)
            | Inr ex \<Rightarrow>
                (case resultOf e documentId ex of
                   Inl err \<Rightarrow> setStatus documentId Failed
                                (fst (afterExtraction e documentId ex (setStatus documentId Processing st)))
                 | Inr r \<Rightarrow> fst (afterExtraction e documentId ex (setStatus documentId Processing st))))"
proof (cases "extractionOf e filePath (orElse (d_mimeType doc) ''application/pdf'')")
  case (Inl err)
  then show ?thesis using assms by (simp add: runDocumentPipeline_def tryBlock_extract)
next
  case (Inr ex)
  obtain st2 r where a: "afterExtraction e documentId ex (setStatus documentId Processing st) = (st2, r)"
    by (cases "afterExtraction e documentId ex (setStatus documentId Processing st)")
  from a have "r = resultOf e documentId ex"
    using afterExtraction_result [of e documentId ex "setStatus documentId Processing st"] by simp
  then show ?thesis using assms Inr a
    by (simp add: runDocumentPipeline_def tryBlock_extract split: sum.splits)
qed

lemma runDocumentPipeline_documents:
  assumes doc: "st_documents st documentId = Some doc"
  shows "st_documents (fst (runDocumentPipeline e st documentId filePath)) =
           (case snd (runDocumentPipeline e st documentId filePath) of
              Inl err \<Rightarrow> (st_documents st)(documentId \<mapsto> doc\<lparr>d_status := Failed\<rparr>)
            | Inr (riskScore, finalSummary) \<Rightarrow>
                (st_documents st)(documentId \<mapsto>
                   doc\<lparr>d_status := Completed, d_riskScore := riskScore,
                       d_summary := Some finalSummary,
                       d_documentType :=
                         (case st_structures (fst (runDocumentPipeline e st documentId filePath)) documentId of
                            Some s \<Rightarrow> ds_documentType s | None \<Rightarrow> [])\<rparr>))"
proof -
  let ?st1 = "setStatus documentId Processing st"
  have d1: "st_documents ?st1 documentId = Some (doc\<lparr>d_status := Processing\<rparr>)"
    using doc by (simp add: setStatus_documents)
  have m1: "st_documents ?st1 = (st_documents st)(documentId \<mapsto> doc\<lparr>d_status := Processing\<rparr>)"
    using doc by (simp add: setStatus_documents)
  show ?thesis
  proof (cases "extractionOf e filePath (orElse (d_mimeType doc) ''application/pdf'')")
    case (Inl err)
    then show ?thesis
      using doc d1 m1
      by (simp add: runDocumentPipeline_result [OF doc] runDocumentPipeline_store [OF doc]
            setStatus_documents [OF d1])
  next
    case (Inr ex)
    show ?thesis
    proof (cases "resultOf e documentId ex")
      case (Inl err)
      have d2: "st_documents (fst (afterExtraction e documentId ex ?st1)) documentId
                  = Some (doc\<lparr>d_status := Processing\<rparr>)"
        using Inl d1 by (simp add: afterExtraction_documents [OF d1])
      show ?thesis
        using Inr Inl m1
        by (simp add: runDocumentPipeline_result [OF doc] runDocumentPipeline_store [OF doc]
              setStatus_documents [OF d2] afterExtraction_documents [OF d1])
    next
      case (Inr r)
      obtain riskScore finalSummary where r: "r = (riskScore, finalSummary)" by (cases r)
      show ?thesis
        using \<open>extractionOf e filePath (orElse (d_mimeType doc) ''application/pdf'') = Inr ex\<close> Inr r m1
        by (simp add: runDocumentPipeline_result [OF doc] runDocumentPipeline_store [OF doc]
              afterExtraction_documents [OF d1] afterExtraction_structure)
    qed
  qed
qed

lemma runDocumentPipeline_writes:
  assumes doc: "st_documents st documentId = Some doc"
  shows "st_statusWrites (fst (runDocumentPipeline e st documentId filePath)) =
           st_statusWrites st @ [(documentId, Processing),
             (documentId, case snd (runDocumentPipeline e st documentId filePath) of
                            Inl err \<Rightarrow> Failed | Inr r \<Rightarrow> Completed)]"
proof -
  let ?st1 = "setStatus documentId Processing st"
  have d1: "st_documents ?st1 documentId = Some (doc\<lparr>d_status := Processing\<rparr>)"
    using doc by (simp add: setStatus_documents)
  have w1: "st_statusWrites ?st1 = st_statusWrites st @ [(documentId, Processing)]"
    using doc by (simp add: setStatus_writes)
  show ?thesis
  proof (cases "extractionOf e filePath (orElse (d_mimeType doc) ''application/pdf'')")
    case (Inl err)
    then show ?thesis
      using w1
      by (simp add: runDocumentPipeline_result [OF doc] runDocumentPipeline_store [OF doc]
            setStatus_writes [OF d1])
  next
    case (Inr ex)
    show ?thesis
    proof (cases "resultOf e documentId ex")
      case (Inl err)
      have d2: "st_documents (fst (afterExtraction e documentId ex ?st1)) documentId
                  = Some (doc\<lparr>d_status := Processing\<rparr>)"
        using Inl d1 by (simp add: afterExtraction_documents [OF d1])
      show ?thesis
        using Inr Inl w1
        by (simp add: runDocumentPipeline_result [OF doc] runDocumentPipeline_store [OF doc]
              setStatus_writes [OF d2] afterExtraction_writes [OF d1])
    next
      case (Inr r)
      show ?thesis
        using \<open>extractionOf e filePath (orElse (d_mimeType doc) ''application/pdf'') = Inr ex\<close> Inr w1
        by (simp add: runDocumentPipeline_result [OF doc] runDocumentPipeline_store [OF doc]
              afterExtraction_writes [OF d1])
    qed
  qed
qed

subsection \<open>The flags of a run\<close>

lemma set_map_filter: "set (List.map_filter f xs) = {y. \<exists>x \<in> set xs. f x = Some y}"
  by (induction xs) (auto simp: List.map_filter_simps split: option.splits)

lemma ruleFlag_documentId [simp]: "rf_documentId (ruleFlag documentId c t s x) = documentId"
  by (simp add: ruleFlag_def)

lemma category_documentId:
  "f \<in> set (missingClauseFlags documentId rawText) \<Longrightarrow> rf_documentId f = documentId"
  "f \<in> set (weakClauseFlags documentId rawText) \<Longrightarrow> rf_documentId f = documentId"
  "f \<in> set (paymentFlags documentId rawText) \<Longrightarrow> rf_documentId f = documentId"
  "f \<in> set (complianceFlags documentId rawText) \<Longrightarrow> rf_documentId f = documentId"
  "f \<in> set (imbalanceFlags documentId rawText) \<Longrightarrow> rf_documentId f = documentId"
  "f \<in> set (signatureFlags documentId rawText) \<Longrightarrow> rf_documentId f = documentId"
  "f \<in> set (structuralFlags documentId rawText) \<Longrightarrow> rf_documentId f = documentId"
  "f \<in> set (ambiguityFlags documentId rawText) \<Longrightarrow> rf_documentId f = documentId"
  "f \<in> set (metadataFlags documentId rawText) \<Longrightarrow> rf_documentId f = documentId"
  "f \<in> set (gstFlags documentId rawText) \<Longrightarrow> rf_documentId f = documentId"
  "f \<in> set (requiredFieldFlags documentId finalDocType rawText) \<Longrightarrow> rf_documentId f = documentId"
  by (auto simp add: missingClauseFlags_def weakClauseFlags_def paymentFlags_def
        complianceFlags_def imbalanceFlags_def signatureFlags_def structuralFlags_def
        ambiguityFlags_def metadataFlags_def gstFlags_def requiredFieldFlags_def
        set_map_filter split: if_splits)

lemma semantic_documentId:
  "f \<in> set (semanticFlags sem documentId rawText) \<Longrightarrow> rf_documentId f = documentId"
  by (cases "100 < length rawText"; cases "sem (strSlice rawText 0 5000)")
    (simp_all add: semanticFlags_def)

lemma detectRisks_documentId:
  "f \<in> set (detectRisks sem documentId finalDocType rawText) \<Longrightarrow> rf_documentId f = documentId"
  by (auto simp: detectRisks_def category_documentId semantic_documentId split: if_splits)

lemma flagsToInsert_documentId:
  "f \<in> set (flagsToInsert e documentId ex) \<Longrightarrow> rf_documentId f = documentId"
  using keepFirst_set [of riskKey] detectRisks_documentId
  by (fastforce simp: flagsToInsert_def Let_def uniqueRiskFlags_keepFirst)

lemma flagsToInsert_distinct: "distinct (map riskKey (flagsToInsert e documentId ex))"
  by (simp add: flagsToInsert_def Let_def uniqueRiskFlags_keepFirst keepFirst_distinct)

text \<open>The number of flags of a severity.\<close>

definition severityCount :: "Severity \<Rightarrow> riskFlag list \<Rightarrow> int" where
  "severityCount s flags = int (length (filter (\<lambda>f. rf_severity f = s) flags))"

lemma length_filter_or:
  "(\<And>x. \<not> (P x \<and> Q x)) \<Longrightarrow>
   length (filter (\<lambda>x. P x \<or> Q x) xs) = length (filter P xs) + length (filter Q xs)"
  by (induction xs) auto

lemma riskScoreOf_counts:
  "riskScoreOf finalDocType flags =
     (if finalDocType = ''identity_document'' then min 15 (5 * severityCount Low flags)
      else min 100 (25 * (severityCount High flags + severityCount Critical flags)
                    + 15 * severityCount Medium flags + 5 * severityCount Low flags))"
  by (simp add: riskScoreOf_def severityCount_def Let_def length_filter_or algebra_simps)

lemma riskScoreOf_range: "0 \<le> riskScoreOf finalDocType flags \<and> riskScoreOf finalDocType flags \<le> 100"
  by (auto simp add: riskScoreOf_def Let_def min_def)

subsection \<open>The stored structure\<close>

lemma runDocumentPipeline_structure:
  assumes doc: "st_documents st documentId = Some doc"
    and ex: "extractionOf e filePath (orElse (d_mimeType doc) ''application/pdf'') = Inr ex"
  shows "st_structures (fst (runDocumentPipeline e st documentId filePath)) documentId
           = Some (structureOf ex)"
  using ex
  by (cases "resultOf e documentId ex")
     (simp_all add: runDocumentPipeline_store [OF doc] afterExtraction_structure)

lemma keepFirst_filter_key:
  "keepFirst key (filter (\<lambda>y. Q (key y)) xs) = filter (\<lambda>y. Q (key y)) (keepFirst key xs)"
proof (induction key xs rule: keepFirst.induct)
  case (1 key)
  then show ?case by simp
next
  case (2 key x xs)
  show ?case
  proof (cases "Q (key x)")
    case True
    have "filter (\<lambda>y. key y \<noteq> key x) (filter (\<lambda>y. Q (key y)) xs)
            = filter (\<lambda>y. Q (key y)) (filter (\<lambda>y. key y \<noteq> key x) xs)"
      by (simp add: conj_commute)
    then show ?thesis
      using True "2.IH" by simp
  next
    case False
    have "filter (\<lambda>y. Q (key y)) (filter (\<lambda>y. key y \<noteq> key x) xs) = filter (\<lambda>y. Q (key y)) xs"
      using False by (auto intro: filter_cong)
    then show ?thesis
      using False "2.IH" by simp
  qed
qed

lemma idFieldPush_keepFirst:
  "idFieldPush idFields existingKeys extractedForDb =
     extractedForDb
     @ map stored (filter (\<lambda>f. toLowerCase (f_fieldName f) \<notin> set existingKeys)
                     (keepFirst (\<lambda>f. toLowerCase (f_fieldName f)) idFields))"
proof (induction idFields arbitrary: existingKeys extractedForDb)
  case Nil
  then show ?case by simp
next
  case (Cons f fs)
  let ?k = "\<lambda>f. toLowerCase (f_fieldName f)"
  have comm: "keepFirst ?k (filter (\<lambda>y. ?k y \<noteq> ?k f) fs) = filter (\<lambda>y. ?k y \<noteq> ?k f) (keepFirst ?k fs)"
    using keepFirst_filter_key [of ?k "\<lambda>k. k \<noteq> ?k f" fs] by simp
  show ?case
  proof (cases "?k f \<in> set existingKeys")
    case True
    have "filter (\<lambda>g. ?k g \<notin> set existingKeys) (filter (\<lambda>y. ?k y \<noteq> ?k f) (keepFirst ?k fs))
            = filter (\<lambda>g. ?k g \<notin> set existingKeys) (keepFirst ?k fs)"
      using True by (auto intro: filter_cong)
    then show ?thesis
      using True Cons.IH [of existingKeys extractedForDb] by (simp add: comm)
  next
    case False
    have "filter (\<lambda>g. ?k g \<notin> set (existingKeys @ [?k f])) (keepFirst ?k fs)
            = filter (\<lambda>g. ?k g \<notin> set existingKeys) (filter (\<lambda>y. ?k y \<noteq> ?k f) (keepFirst ?k fs))"
      by (auto intro: filter_cong)
    then show ?thesis
      using False Cons.IH [of "existingKeys @ [?k f]" "extractedForDb @ [stored f]"]
      by (simp add: comm)
  qed
qed

lemma mergeFields_names:
  "mergeFields aiFields heuristicFields =
     (if aiFields = [] then heuristicFields
      else aiFields @ filter (\<lambda>h. toLowerCase (f_fieldName h)
                                    \<notin> (\<lambda>f. toLowerCase (f_fieldName f)) ` set aiFields)
                        heuristicFields)"
proof -
  have "(\<lambda>h::extractedField. \<not> list_ex (\<lambda>a. toLowerCase (f_fieldName a) = toLowerCase (f_fieldName h)) aiFields)
          = (\<lambda>h. toLowerCase (f_fieldName h) \<notin> (\<lambda>f. toLowerCase (f_fieldName f)) ` set aiFields)"
    unfolding list_ex_iff fun_eq_iff image_iff by metis
  then show ?thesis
    by (simp add: mergeFields_def)
qed

lemma f_fieldName_stored [simp]: "f_fieldName (stored f) = f_fieldName f"
  by (simp add: stored_def)

section \<open>Runs of the pipeline\<close>

text \<open>A text in which the detection finds no type.\<close>

definition foxText :: string where
  "foxText = ''The quick brown fox jumps over the lazy dog.''"

text \<open>
  An environment without an API key, in which every file can be read and is a PDF with the
  given page texts.
\<close>

definition pdfEnv :: "string list \<Rightarrow> env" where
  "pdfEnv pageTexts =
     \<lparr>en_genAI = False, en_GENERATION_MODEL = ''gemini-3-flash-preview'',
      en_readFile = (\<lambda>p. True),
      en_ocrExtractText = (\<lambda>p m. None),
      en_extractStructureFromImage = (\<lambda>p m. None),
      en_extractText = (\<lambda>p. Some (length pageTexts, pageTexts)),
      en_generateStructure = (\<lambda>m n t. None),
      en_generateRisk = (\<lambda>m t. None)\<rparr>"

text \<open>An uploaded PDF, and the store that holds it alone.\<close>

definition uploadedPdf :: document where
  "uploadedPdf = newDocument 7
     \<lparr>ub_documentName = [], ub_title = [], ub_documentType = [], ub_fileType = [],
      ub_category = [], ub_version = []\<rparr>
     \<lparr>uf_path = ''uploads/a.pdf'', uf_originalname = ''a.pdf'', uf_mimetype = ''application/pdf''\<rparr>"

definition emptyStore :: store where
  "emptyStore = \<lparr>st_documents = Map.empty, st_structures = Map.empty, st_embeddings = [],
     st_riskFlags = [], st_statusWrites = []\<rparr>"

definition uploadedStore :: store where
  "uploadedStore = emptyStore\<lparr>st_documents := [2 \<mapsto> uploadedPdf], st_statusWrites := [(2, Pending)]\<rparr>"

text \<open>The rules by which the examples are evaluated.\<close>

lemmas evc = if_weak_cong option.case_cong_weak list.case_cong_weak

lemma createDocument_uploadedPdf: "createDocument emptyStore 2 uploadedPdf = Some uploadedStore"
  by (simp add: createDocument_def uploadedPdf_def newDocument_def documentSchema_def orElse_def
        uploadedStore_def emptyStore_def)

lemma uploadedStore_document: "st_documents uploadedStore 2 = Some uploadedPdf"
  by (simp add: uploadedStore_def)

lemma uploadedPdf_mimeType: "orElse (d_mimeType uploadedPdf) ''application/pdf'' = ''application/pdf''"
  by (simp add: uploadedPdf_def newDocument_def orElse_def)

lemma pdf_not_image: "\<not> isImage ''application/pdf''"
  by (simp only: isImage_def ev cong: evc)

lemma foxText_lower: "toLowerCase foxText = ''the quick brown fox jumps over the lazy dog.''"
  by (simp only: foxText_def ev cong: evc)

lemma foxText_scores:
  "indicatorScore contractIndicators (toLowerCase foxText) = 0"
  "indicatorScore invoiceIndicators (toLowerCase foxText) = 0"
  "indicatorScore idIndicators (toLowerCase foxText) = 0"
  unfolding foxText_lower
  by (simp only: contractIndicators_def invoiceIndicators_def idIndicators_def ev cong: evc)+

lemma foxText_tests:
  "\<not> rxTest True ndaPattern (toLowerCase foxText)"
  "\<not> rxTest True slaPattern (toLowerCase foxText)"
  "\<not> rxTest True purchaseOrderPattern (toLowerCase foxText)"
  unfolding foxText_lower
  by (simp only: ndaPattern_def ndaSecretPattern_def slaPattern_def purchaseOrderPattern_def ev cong: evc)+

lemma foxText_length: "length foxText = 44"
  by (simp add: foxText_def)

lemma foxText_type: "detectDocumentType foxText = Unknown"
proof -
  have "foxText \<noteq> []"
    using foxText_length by auto
  then show ?thesis
    by (simp add: detectDocumentType_def Let_def foxText_scores foxText_tests foxText_length)
qed

lemmas rk = riskPattern.simps List.map_filter_simps matches_def ruleFlag_def clauseTypeText_def
  riskFlag.simps Severity.distinct fun_upd_apply list_ex_Nil_iff list_ex_Cons_iff list_all_Nil_iff list_all_Cons_iff

lemma foxText_required:
  "requiredFieldFlags 2 ''unknown'' foxText =
     map (\<lambda>field. ruleFlag 2 (''Missing required: '' @ field) ''validation'' Medium
            (''Document type '' @ [CHR 0x22] @ ''unknown'' @ [CHR 0x22] @ '' typically requires ''
             @ [CHR 0x22] @ field @ [CHR 0x22] @ ''. Not found or not extracted.''))
       [''parties'', ''effective date'', ''term'', ''termination'']"
  unfolding foxText_lower requiredFieldFlags_def fieldFound_def
  by (simp only: foxText_def requiredForType_def REQUIRED_FIELDS_def fieldPatterns_def rk ev cong: evc)

lemma trim_apiKey: "trim ''API key not set.'' = ''API key not set.''"
  by (simp only: ev cong: evc)

lemma extractPdf_pdfEnv:
  "\<exists>ex. extractionOf (pdfEnv pageTexts) filePath ''application/pdf'' = Inr ex
        \<and> ex_rawText ex = joinWith [CHR 0x0A] pageTexts \<and> ex_documentType ex = ''unknown''
        \<and> ex_summary ex = ''API key not set.''"
  using trim_apiKey
  by (simp add: extractionOf_def pdf_not_image extractPdf_def pdfEnv_def Let_def
        extractStructureFromPdf_def defaultResult_def orElse_def orEmpty_def)

lemmas dd = uniqueRiskFlags_def dedupLoop.simps riskKey_def normalizeKey_def Let_def

lemma foxText_unique:
  "uniqueRiskFlags (requiredFieldFlags 2 ''unknown'' foxText) = requiredFieldFlags 2 ''unknown'' foxText"
  unfolding foxText_required
  by (simp only: dd rk ev cong: evc)

lemma foxText_flags:
  assumes "ex_rawText ex = foxText" "ex_documentType ex = ''unknown''"
  shows "flagsToInsert e 2 ex = requiredFieldFlags 2 ''unknown'' foxText"
  using assms foxText_unique
  by (simp add: flagsToInsert_def Let_def foxText_type finalDocTypeOf_def detectRisks_def)

lemma foxText_score:
  "list_all riskFlagSchema (requiredFieldFlags 2 ''unknown'' foxText)"
  "riskScoreOf ''unknown'' (requiredFieldFlags 2 ''unknown'' foxText) = 60"
  unfolding foxText_required
  by (simp_all add: riskFlagSchema_def ruleFlag_def riskScoreOf_def)

lemma foxText_result:
  "snd (runDocumentPipeline (pdfEnv [foxText]) uploadedStore 2 ''uploads/a.pdf'')
     = Inr (60, codeUnits ''API key not set.'')"
proof -
  obtain ex where ex: "extractionOf (pdfEnv [foxText]) ''uploads/a.pdf'' ''application/pdf'' = Inr ex"
    and t: "ex_rawText ex = foxText" "ex_documentType ex = ''unknown''"
    and s: "ex_summary ex = ''API key not set.''"
    using extractPdf_pdfEnv [of "[foxText]" "''uploads/a.pdf''"] by auto
  have "resultOf (pdfEnv [foxText]) 2 ex = Inr (60, codeUnits ''API key not set.'')"
    using t s trim_apiKey foxText_score
    by (simp add: resultOf_def Let_def foxText_flags [OF t] structureOf_def
          finalDocTypeOf_def foxText_type finalSummaryOf_def)
  then show ?thesis
    using ex by (simp add: runDocumentPipeline_result [OF uploadedStore_document] uploadedPdf_mimeType)
qed

subsection \<open>A contract with an unlimited liability\<close>

text \<open>A text that the detection takes for a contract, with an unlimited liability.\<close>

definition liabilityText :: string where
  "liabilityText = ''This agreement imposes unlimited liability on the contractor for all costs.''"

lemma liabilityText_lower:
  "toLowerCase liabilityText = ''this agreement imposes unlimited liability on the contractor for all costs.''"
  by (simp only: liabilityText_def ev cong: evc)

lemma liabilityText_score: "indicatorScore contractIndicators (toLowerCase liabilityText) = 4"
  unfolding liabilityText_lower
  by (simp only: contractIndicators_def ev cong: evc)

lemma liabilityText_length: "length liabilityText = 75"
  by (simp add: liabilityText_def)

lemma liabilityText_type: "detectDocumentType liabilityText = Contract"
proof -
  have "liabilityText \<noteq> []"
    using liabilityText_length by auto
  then show ?thesis
    by (simp add: detectDocumentType_def Let_def liabilityText_score liabilityText_length)
qed

lemma liabilityText_quality: "\<not> isLowQualityText liabilityText"
  by (simp only: isLowQualityText_def liabilityText_def ev cong: evc)

text \<open>The flag that the payment rules push for it.\<close>

definition criticalFlag :: riskFlag where
  "criticalFlag =
     ruleFlag 2 ''Unlimited financial exposure'' ''payment_risk'' Critical
       ''Critical financial exposure: Unlimited financial exposure. This could result in unlimited liability.''"

lemma liabilityText_payment:
  "filter (\<lambda>f. rf_severity f = Critical) (paymentFlags 2 liabilityText) = [criticalFlag]"
  by (simp only: liabilityText_def paymentFlags_def PAYMENT_RISK_PATTERNS_def criticalFlag_def rk ev
        cong: evc)

text \<open>The rules of all categories.\<close>

lemmas categories = detectRisks_def missingClauseFlags_def weakClauseFlags_def paymentFlags_def
  complianceFlags_def imbalanceFlags_def signatureFlags_def structuralFlags_def
  ambiguityFlags_def metadataFlags_def semanticFlags_def gstFlags_def requiredFieldFlags_def
  fieldFound_def requiredForType_def REQUIRED_FIELDS_def fieldPatterns_def isLowQualityText_def
  MISSING_CLAUSE_RISKS_def WEAK_CLAUSE_PATTERNS_def PAYMENT_RISK_PATTERNS_def
  COMPLIANCE_RISK_PATTERNS_def IMBALANCE_RISK_PATTERNS_def SIGNATURE_RISK_PATTERNS_def
  STRUCTURAL_RISK_PATTERNS_def AMBIGUITY_RISK_PATTERNS_def METADATA_RISK_PATTERNS_def
  GST_INVOICE_COMPLIANCE_def

lemma liabilityText_invalid:
  "filter (\<lambda>f. \<not> riskFlagSchema f)
     (uniqueRiskFlags (detectRisks sem 2 ''contract'' liabilityText)) = [criticalFlag]"
  by (simp only: liabilityText_def categories criticalFlag_def riskFlagSchema_def dd rk ev
        cong: evc)

subsection \<open>Fields of an identity card and of an invoice\<close>

lemma idCardText_fields: "extractFieldsFromText idCardText = []"
  by (simp only: idCardText_def fieldPatternsFromText_def ev cong: evc)

lemma idCardText_idFields:
  "extractIdFieldsFromText idCardText =
     [\<lparr>f_fieldName = ''Date of Birth'', f_value = ''1/2/1990'', f_pageNumber = 1,
       f_confidenceScore = 0.88\<rparr>,
      \<lparr>f_fieldName = ''Expiry'', f_value = ''2030'', f_pageNumber = 1, f_confidenceScore = 0.88\<rparr>]"
  by (simp only: idCardText_def idFieldPatterns_def Let_def ev cong: evc)

text \<open>A text with two fields of an invoice.\<close>

definition invoiceText :: string where
  "invoiceText = ''Invoice Number: 42\<newline>Vendor: Acme Ltd''"

lemma invoiceText_fields:
  "extractFieldsFromText invoiceText =
     [\<lparr>f_fieldName = ''Invoice Number'', f_value = ''42'', f_pageNumber = 1, f_confidenceScore = 0.85\<rparr>,
      \<lparr>f_fieldName = ''Vendor'', f_value = ''Acme Ltd'', f_pageNumber = 1, f_confidenceScore = 0.85\<rparr>]"
  by (simp only: invoiceText_def fieldPatternsFromText_def ev cong: evc)

lemma invoiceText_lower: "toLowerCase invoiceText = ''invoice number: 42\<newline>vendor: acme ltd''"
  by (simp only: invoiceText_def ev cong: evc)

lemma invoiceText_scores:
  "indicatorScore contractIndicators (toLowerCase invoiceText) = 0"
  "indicatorScore invoiceIndicators (toLowerCase invoiceText) = 2"
  "indicatorScore idIndicators (toLowerCase invoiceText) = 0"
  unfolding invoiceText_lower
  by (simp only: contractIndicators_def invoiceIndicators_def idIndicators_def ev cong: evc)+

lemma invoiceText_tests:
  "\<not> rxTest True ndaPattern (toLowerCase invoiceText)"
  "\<not> rxTest True slaPattern (toLowerCase invoiceText)"
  "\<not> rxTest True purchaseOrderPattern (toLowerCase invoiceText)"
  unfolding invoiceText_lower
  by (simp only: ndaPattern_def slaPattern_def purchaseOrderPattern_def ev cong: evc)+

lemma invoiceText_type: "detectDocumentType invoiceText = Unknown"
  by (simp add: detectDocumentType_def Let_def invoiceText_scores invoiceText_tests)

text \<open>
  An environment with an API key, in which the second model answers one field, a vendor
  in capital letters, and nothing else.
\<close>

definition vendorAnswer :: parsedStructure where
  "vendorAnswer =
     \<lparr>pa_sections = None, pa_clauses = None,
      pa_extractedFields = Some [\<lparr>pf_fieldName = Some ''VENDOR'', pf_value = ''ACME'',
                                  pf_pageNumber = None, pf_confidenceScore = None\<rparr>],
      pa_tables = None, pa_summary = None, pa_documentType = None\<rparr>"

definition aiEnv :: "string list \<Rightarrow> env" where
  "aiEnv pageTexts =
     (pdfEnv pageTexts)\<lparr>en_genAI := True,
        en_generateStructure :=
          (\<lambda>modelId pageCount slice. if modelId = ''gemini-1.5-pro'' then Some vendorAnswer else None)\<rparr>"

lemma aiEnv_fields:
  "x_extractedFields (extractStructureFromPdf (aiEnv pageTexts) rawText pageCount) =
     [\<lparr>f_fieldName = ''VENDOR'', f_value = ''ACME'', f_pageNumber = 1, f_confidenceScore = 0.5\<rparr>]"
  by (simp add: extractStructureFromPdf_def aiEnv_def pdfEnv_def modelsToTry_def
        structureOfParsed_def vendorAnswer_def orEmpty_def orPageOne_def)

lemma pdfEnv_fields:
  "x_extractedFields (extractStructureFromPdf (pdfEnv pageTexts) rawText pageCount) = []"
  by (simp add: extractStructureFromPdf_def pdfEnv_def defaultResult_def)

lemma names_lower:
  "toLowerCase ''VENDOR'' = ''vendor''" "toLowerCase ''Vendor'' = ''vendor''"
  "toLowerCase ''Invoice Number'' = ''invoice number''"
  "toLowerCase ''Date of Birth'' = ''date of birth''" "toLowerCase ''Expiry'' = ''expiry''"
  by (simp_all only: ev cong: evc)

section \<open>The claims on the pipeline\<close>

text \<open>
  Claim C7. A document that is uploaded is created with status \<open>pending\<close> and risk score 0.
  A run of \<^verbatim>\<open>runDocumentPipeline\<close> on a document of the store first writes the status
  \<open>processing\<close>; then, if no step throws, it ends by writing the status \<open>completed\<close> together
  with the risk score and the summary that it returns and the document type that it has
  stored in the structure; and if a step throws, it writes the status \<open>failed\<close>, changes no
  other field of the document, and throws the error again. So no run ends with the document
  in status \<open>processing\<close>. (A run on an identifier that the store does not hold throws
  before any write. The database itself is taken not to fail.)
\<close>

theorem pipeline_status:
  assumes doc: "st_documents st documentId = Some doc"
  shows "d_status (newDocument userId body file) = Pending
         \<and> d_riskScore (newDocument userId body file) = 0
         \<and> (\<forall>st1. createDocument st0 newId (newDocument userId body file) = Some st1 \<longrightarrow>
                st_documents st1 newId = Some (newDocument userId body file)
                \<and> st_statusWrites st1 = st_statusWrites st0 @ [(newId, Pending)])
         \<and> (st_documents st0 newId = None \<longrightarrow>
                runDocumentPipeline e st0 newId filePath = (st0, Inl DocumentNotFound))
         \<and> (case runDocumentPipeline e st documentId filePath of
               (st', Inl err) \<Rightarrow>
                 st_documents st' = (st_documents st)(documentId \<mapsto> doc\<lparr>d_status := Failed\<rparr>)
                 \<and> st_statusWrites st' =
                     st_statusWrites st @ [(documentId, Processing), (documentId, Failed)]
             | (st', Inr (riskScore, summary)) \<Rightarrow>
                 (\<exists>s. st_structures st' documentId = Some s
                    \<and> st_documents st' =
                        (st_documents st)(documentId \<mapsto>
                           doc\<lparr>d_status := Completed, d_riskScore := riskScore,
                               d_summary := Some summary,
                               d_documentType := ds_documentType s\<rparr>))
                 \<and> st_statusWrites st' =
                     st_statusWrites st @ [(documentId, Processing), (documentId, Completed)])"
proof -
  obtain st' r where run: "runDocumentPipeline e st documentId filePath = (st', r)"
    by (cases "runDocumentPipeline e st documentId filePath")
  then have f: "fst (runDocumentPipeline e st documentId filePath) = st'"
    and s: "snd (runDocumentPipeline e st documentId filePath) = r"
    by simp_all
  note d = runDocumentPipeline_documents [OF doc, of e filePath, unfolded f s]
  note w = runDocumentPipeline_writes [OF doc, of e filePath, unfolded f s]
  have last: "case (st', r) of
               (st', Inl err) \<Rightarrow>
                 st_documents st' = (st_documents st)(documentId \<mapsto> doc\<lparr>d_status := Failed\<rparr>)
                 \<and> st_statusWrites st' =
                     st_statusWrites st @ [(documentId, Processing), (documentId, Failed)]
             | (st', Inr (riskScore, summary)) \<Rightarrow>
                 (\<exists>s. st_structures st' documentId = Some s
                    \<and> st_documents st' =
                        (st_documents st)(documentId \<mapsto>
                           doc\<lparr>d_status := Completed, d_riskScore := riskScore,
                               d_summary := Some summary,
                               d_documentType := ds_documentType s\<rparr>))
                 \<and> st_statusWrites st' =
                     st_statusWrites st @ [(documentId, Processing), (documentId, Completed)]"
  proof (cases r)
    case (Inl err)
    then show ?thesis using d w by simp
  next
    case (Inr res)
    obtain riskScore summary where res: "res = (riskScore, summary)" by (cases res)
    obtain ex where ex: "extractionOf e filePath (orElse (d_mimeType doc) ''application/pdf'') = Inr ex"
      using s Inr runDocumentPipeline_result [OF doc, of e filePath]
      by (cases "extractionOf e filePath (orElse (d_mimeType doc) ''application/pdf'')") auto
    have r2: "resultOf e documentId ex = Inr res"
      using s Inr runDocumentPipeline_result [OF doc, of e filePath] ex by simp
    have "st' = fst (afterExtraction e documentId ex (setStatus documentId Processing st))"
      using f runDocumentPipeline_store [OF doc, of e filePath] ex r2 by simp
    then have "st_structures st' documentId = Some (structureOf ex)"
      by (simp add: afterExtraction_structure)
    then show ?thesis using d w Inr res by simp
  qed
  show ?thesis
    unfolding run using last
    by (auto simp: newDocument_def createDocument_def runDocumentPipeline_not_found
          split: if_splits)
qed

theorem pipeline_status_witness:
  "st_documents uploadedStore 2 = Some uploadedPdf
   \<and> createDocument emptyStore 2 uploadedPdf = Some uploadedStore
   \<and> st_documents emptyStore 2 = None
   \<and> d_status uploadedPdf = Pending \<and> d_riskScore uploadedPdf = 0
   \<and> runDocumentPipeline (pdfEnv [foxText]) emptyStore 2 ''uploads/a.pdf''
       = (emptyStore, Inl DocumentNotFound)
   \<and> st_statusWrites (fst (runDocumentPipeline (pdfEnv [foxText]) uploadedStore 2 ''uploads/a.pdf''))
       = [(2, Pending), (2, Processing), (2, Completed)]
   \<and> map_option (\<lambda>d. (d_status d, d_riskScore d, d_summary d))
         (st_documents (fst (runDocumentPipeline (pdfEnv [foxText]) uploadedStore 2 ''uploads/a.pdf'')) 2)
       = Some (Completed, 60, Some (codeUnits ''API key not set.''))"
proof -
  obtain st' where run: "runDocumentPipeline (pdfEnv [foxText]) uploadedStore 2 ''uploads/a.pdf''
      = (st', Inr (60, codeUnits ''API key not set.''))"
    using foxText_result
    by (cases "runDocumentPipeline (pdfEnv [foxText]) uploadedStore 2 ''uploads/a.pdf''") simp
  have none: "st_documents emptyStore 2 = None"
    by (simp add: emptyStore_def)
  have up: "uploadedPdf = newDocument 7
     \<lparr>ub_documentName = [], ub_title = [], ub_documentType = [], ub_fileType = [],
      ub_category = [], ub_version = []\<rparr>
     \<lparr>uf_path = ''uploads/a.pdf'', uf_originalname = ''a.pdf'', uf_mimetype = ''application/pdf''\<rparr>"
    by (simp add: uploadedPdf_def)
  have w: "st_statusWrites uploadedStore = [(2, Pending)]"
    by (simp add: uploadedStore_def)
  show ?thesis
    using pipeline_status [OF uploadedStore_document, of 7
        "\<lparr>ub_documentName = [], ub_title = [], ub_documentType = [], ub_fileType = [],
          ub_category = [], ub_version = []\<rparr>"
        "\<lparr>uf_path = ''uploads/a.pdf'', uf_originalname = ''a.pdf'', uf_mimetype = ''application/pdf''\<rparr>"
        emptyStore 2 "pdfEnv [foxText]" "''uploads/a.pdf''"]
      none createDocument_uploadedPdf uploadedStore_document w
    unfolding up [symmetric] run
    by auto
qed

text \<open>
  Claim C1. After every run of \<^verbatim>\<open>runDocumentPipeline\<close> that returns, the risk score that
  is stored on the document is the one returned, and it equals
  \<open>min 100 (25 * H + 15 * M + 5 * L)\<close>, where \<open>H\<close> counts the deduplicated flags of the
  run, which are the flags of the document in the store, with severity \<open>high\<close> or
  \<open>critical\<close>, \<open>M\<close> those with severity \<open>medium\<close> and \<open>L\<close> those with severity \<open>low\<close>; but
  when the final document type is \<open>identity_document\<close> it equals \<open>min 15 (5 * L)\<close>. So the
  score lies between 0 and 100. (The numbers are integers, so \<^verbatim>\<open>Math.round\<close> changes
  nothing.)
\<close>

theorem riskScore_formula:
  assumes run: "runDocumentPipeline e st documentId filePath = (st', Inr (riskScore, summary))"
  shows "\<exists>doc flags.
           st_documents st' documentId = Some doc \<and> d_status doc = Completed
           \<and> d_riskScore doc = riskScore
           \<and> flags = filter (\<lambda>f. rf_documentId f = documentId) (st_riskFlags st')
           \<and> distinct (map riskKey flags)
           \<and> riskScore =
               (if d_documentType doc = ''identity_document''
                then min 15 (5 * severityCount Low flags)
                else min 100 (25 * (severityCount High flags + severityCount Critical flags)
                              + 15 * severityCount Medium flags + 5 * severityCount Low flags))
           \<and> 0 \<le> riskScore \<and> riskScore \<le> 100"
proof -
  obtain doc0 where doc0: "st_documents st documentId = Some doc0"
    using run by (cases "st_documents st documentId") (auto simp: runDocumentPipeline_def)
  let ?m = "orElse (d_mimeType doc0) ''application/pdf''"
  let ?st1 = "setStatus documentId Processing st"
  have res: "snd (runDocumentPipeline e st documentId filePath) = Inr (riskScore, summary)"
    and st': "st' = fst (runDocumentPipeline e st documentId filePath)"
    using run by simp_all
  obtain ex where ex: "extractionOf e filePath ?m = Inr ex"
    using res runDocumentPipeline_result [OF doc0, of e filePath]
    by (cases "extractionOf e filePath ?m") auto
  have r: "resultOf e documentId ex = Inr (riskScore, summary)"
    using res runDocumentPipeline_result [OF doc0, of e filePath] ex by simp
  let ?flags = "flagsToInsert e documentId ex"
  let ?t = "ds_documentType (structureOf ex)"
  have valid: "?flags = [] \<or> list_all riskFlagSchema ?flags"
    and score: "riskScore = riskScoreOf ?t ?flags"
    using r by (auto simp: resultOf_def Let_def split: if_splits)
  have valid': "list_all riskFlagSchema ?flags" using valid by auto
  have st'2: "st' = fst (afterExtraction e documentId ex ?st1)"
    using st' runDocumentPipeline_store [OF doc0, of e filePath] ex r by simp
  have flags: "filter (\<lambda>f. rf_documentId f = documentId) (st_riskFlags st') = ?flags"
  proof -
    have "filter (\<lambda>f. rf_documentId f = documentId) ?flags = ?flags"
      using flagsToInsert_documentId by (simp add: filter_id_conv)
    then show ?thesis
      using valid' by (simp add: st'2 afterExtraction_flags)
  qed
  have docs: "st_documents st' documentId =
                Some (doc0\<lparr>d_status := Completed, d_riskScore := riskScore,
                          d_summary := Some summary, d_documentType := ?t\<rparr>)"
  proof -
    have "st_structures st' documentId = Some (structureOf ex)"
      by (simp add: st'2 afterExtraction_structure)
    then show ?thesis
      using runDocumentPipeline_documents [OF doc0, of e filePath] res st' by simp
  qed
  show ?thesis
    using docs flags score flagsToInsert_distinct [of e documentId ex]
      riskScoreOf_counts [of ?t ?flags] riskScoreOf_range [of ?t ?flags]
    by simp
qed


theorem riskScore_formula_witness:
  "runDocumentPipeline (pdfEnv [foxText]) uploadedStore 2 ''uploads/a.pdf''
     = (fst (runDocumentPipeline (pdfEnv [foxText]) uploadedStore 2 ''uploads/a.pdf''),
        Inr (60, codeUnits ''API key not set.''))
   \<and> (\<exists>doc.
         st_documents (fst (runDocumentPipeline (pdfEnv [foxText]) uploadedStore 2 ''uploads/a.pdf'')) 2
           = Some doc
         \<and> d_status doc = Completed \<and> d_riskScore doc = 60 \<and> d_documentType doc = ''unknown''
         \<and> severityCount Medium
               (filter (\<lambda>f. rf_documentId f = 2)
                  (st_riskFlags (fst (runDocumentPipeline (pdfEnv [foxText]) uploadedStore 2
                                        ''uploads/a.pdf'')))) = 4)"
proof -
  let ?st' = "fst (runDocumentPipeline (pdfEnv [foxText]) uploadedStore 2 ''uploads/a.pdf'')"
  have run: "runDocumentPipeline (pdfEnv [foxText]) uploadedStore 2 ''uploads/a.pdf''
     = (?st', Inr (60, codeUnits ''API key not set.''))"
    using foxText_result by (simp add: prod_eq_iff)
  from riskScore_formula [OF run]
  obtain doc where doc: "st_documents ?st' 2 = Some doc" "d_status doc = Completed"
      "d_riskScore doc = 60"
    and sc: "60 = (if d_documentType doc = ''identity_document''
                then min 15 (5 * severityCount Low (filter (\<lambda>f. rf_documentId f = 2) (st_riskFlags ?st')))
                else min 100 (25 * (severityCount High (filter (\<lambda>f. rf_documentId f = 2) (st_riskFlags ?st'))
                                    + severityCount Critical (filter (\<lambda>f. rf_documentId f = 2) (st_riskFlags ?st')))
                              + 15 * severityCount Medium (filter (\<lambda>f. rf_documentId f = 2) (st_riskFlags ?st'))
                              + 5 * severityCount Low (filter (\<lambda>f. rf_documentId f = 2) (st_riskFlags ?st'))))"
    by blast
  obtain ex where ex: "extractionOf (pdfEnv [foxText]) ''uploads/a.pdf'' ''application/pdf'' = Inr ex"
    and t: "ex_rawText ex = foxText" "ex_documentType ex = ''unknown''"
    using extractPdf_pdfEnv [of "[foxText]" "''uploads/a.pdf''"] by auto
  have res: "resultOf (pdfEnv [foxText]) 2 ex = Inr (60, codeUnits ''API key not set.'')"
    using foxText_result ex
    by (simp add: runDocumentPipeline_result [OF uploadedStore_document] uploadedPdf_mimeType)
  have st': "?st' = fst (afterExtraction (pdfEnv [foxText]) 2 ex (setStatus 2 Processing uploadedStore))"
    using ex res
    by (simp add: runDocumentPipeline_store [OF uploadedStore_document] uploadedPdf_mimeType)
  have flags: "filter (\<lambda>f. rf_documentId f = 2) (st_riskFlags ?st')
                 = requiredFieldFlags 2 ''unknown'' foxText"
    unfolding st' afterExtraction_flags foxText_flags [OF t]
    using foxText_score(1)
    by (simp add: uploadedStore_def emptyStore_def foxText_required ruleFlag_def)
  have m: "severityCount Medium (requiredFieldFlags 2 ''unknown'' foxText) = 4"
    and z: "severityCount Low (requiredFieldFlags 2 ''unknown'' foxText) = 0"
    unfolding foxText_required by (simp_all add: severityCount_def ruleFlag_def)
  have ty: "d_documentType doc = ''unknown''"
  proof -
    have "st_structures ?st' 2 = Some (structureOf ex)"
      by (simp add: st' afterExtraction_structure)
    then have "d_documentType doc = ds_documentType (structureOf ex)"
      using runDocumentPipeline_documents [OF uploadedStore_document, of "pdfEnv [foxText]" "''uploads/a.pdf''"]
        foxText_result doc(1)
      by auto
    then show ?thesis
      using t by (simp add: structureOf_def finalDocTypeOf_def foxText_type)
  qed
  show ?thesis
    using run doc ty flags m by simp
qed

text \<open>
  Claim C4, as stated, makes the stored fields of a PDF for which the model yields no field
  exactly the fields of \<^verbatim>\<open>extractFieldsFromText\<close>. It fails: for the text of an identity
  card the model yields no field and \<^verbatim>\<open>extractFieldsFromText\<close> finds none, but the stored
  structure holds the date of birth and the expiry, which the pipeline adds from
  \<^verbatim>\<open>extractIdFieldsFromText\<close> because \<^verbatim>\<open>detectDocumentType\<close> takes the text for an identity
  document.
\<close>

theorem pdf_fields_counterexample:
  "x_extractedFields (extractStructureFromPdf (pdfEnv [idCardText]) idCardText 1) = []
   \<and> extractFieldsFromText idCardText = []
   \<and> map_option (\<lambda>s. map (\<lambda>f. (f_fieldName f, f_value f)) (ds_extractedFields s))
         (st_structures (fst (runDocumentPipeline (pdfEnv [idCardText]) uploadedStore 2
                                ''uploads/a.pdf'')) 2)
       = Some [(''Date of Birth'', ''1/2/1990''), (''Expiry'', ''2030'')]"
proof -
  obtain ex where ex: "extractionOf (pdfEnv [idCardText]) ''uploads/a.pdf'' ''application/pdf'' = Inr ex"
    and exdef: "extractPdf (pdfEnv [idCardText]) ''uploads/a.pdf'' = Inr ex"
    by (simp add: extractionOf_def pdf_not_image extractPdf_def pdfEnv_def Let_def)
  have raw: "ex_rawText ex = idCardText"
    and fld: "ex_extractedForDb ex = []"
    using exdef
    by (auto simp: extractPdf_def Let_def pdfEnv_def extractStructureFromPdf_def defaultResult_def
          mergeFields_def idCardText_fields)
  have "ds_extractedFields (structureOf ex) =
          map stored (extractIdFieldsFromText idCardText)"
    unfolding structureOf_def raw fld idCardText_type
    by (simp add: withIdFields_def idCardText_idFields names_lower)
  then show ?thesis
    using runDocumentPipeline_structure [OF uploadedStore_document, of "pdfEnv [idCardText]"
        "''uploads/a.pdf''" ex] ex
    by (simp add: uploadedPdf_mimeType pdfEnv_fields idCardText_fields idCardText_idFields
          stored_def)
qed

text \<open>
  Claim C4, amended. For every PDF that the pipeline reads, the stored fields are, each
  with \<open>reviewed = false\<close>: the fields of \<^verbatim>\<open>extractFieldsFromText\<close> when the model yields no
  field, and otherwise the fields of the model followed by the fields of
  \<^verbatim>\<open>extractFieldsFromText\<close> whose name does not occur, whatever the case of the letters, among
  those of the model; followed, when \<^verbatim>\<open>detectDocumentType\<close> takes the text for an identity
  document, by the fields of \<^verbatim>\<open>extractIdFieldsFromText\<close>, the first of each name, whose name
  does not occur in the same sense among the fields before. The stored sections are those of
  the model if there are any and otherwise those of \<^verbatim>\<open>extractSectionsFromText\<close>, and the
  stored tables are those of the model if there are any and otherwise the tables that
  \<^verbatim>\<open>detectTablesFromText\<close> finds on each page.
\<close>

theorem pdf_fallback:
  assumes doc: "st_documents st documentId = Some doc"
    and pdf: "\<not> isImage (orElse (d_mimeType doc) ''application/pdf'')"
    and readable: "en_readFile e filePath"
    and pages: "en_extractText e filePath = Some (totalPages, pageTexts)"
  shows "\<exists>s. st_structures (fst (runDocumentPipeline e st documentId filePath)) documentId = Some s
           \<and> (let rawText = joinWith [CHR 0x0A] pageTexts;
                   numPages = (if totalPages = 0 then 1 else totalPages);
                   ai = extractStructureFromPdf e rawText numPages;
                   aiFields = x_extractedFields ai;
                   heuristicFields = extractFieldsFromText rawText;
                   name = (\<lambda>f. toLowerCase (f_fieldName f));
                   merged = (if aiFields = [] then heuristicFields
                             else aiFields @ filter (\<lambda>h. name h \<notin> name ` set aiFields) heuristicFields);
                   idFields = (if detectDocumentType rawText = IdentityDocument
                               then filter (\<lambda>f. name f \<notin> name ` set merged)
                                      (keepFirst name (extractIdFieldsFromText rawText))
                               else [])
               in ds_extractedFields s = map stored (merged @ idFields)
                  \<and> ds_sections s = (if x_sections ai \<noteq> [] then x_sections ai
                                     else extractSectionsFromText rawText)
                  \<and> ds_tables s = (if x_tables ai \<noteq> [] then x_tables ai
                                   else heuristicTables (pdfPages numPages pageTexts rawText)))"
proof -
  let ?rawText = "joinWith [CHR 0x0A] pageTexts"
  let ?numPages = "if totalPages = 0 then 1 else totalPages"
  let ?ai = "extractStructureFromPdf e ?rawText ?numPages"
  let ?name = "\<lambda>f. toLowerCase (f_fieldName f)"
  let ?merged = "if x_extractedFields ?ai = [] then extractFieldsFromText ?rawText
                 else x_extractedFields ?ai
                      @ filter (\<lambda>h. ?name h \<notin> ?name ` set (x_extractedFields ?ai))
                          (extractFieldsFromText ?rawText)"
  obtain ex where ex: "extractionOf e filePath (orElse (d_mimeType doc) ''application/pdf'') = Inr ex"
    and exdef: "extractPdf e filePath = Inr ex"
    using pdf readable pages by (simp add: extractionOf_def extractPdf_def Let_def)
  have raw: "ex_rawText ex = ?rawText"
    and sec: "ex_sections ex = (if x_sections ?ai \<noteq> [] then x_sections ?ai
                                else extractSectionsFromText ?rawText)"
    and tab: "ex_tables ex = (if x_tables ?ai \<noteq> [] then x_tables ?ai
                              else heuristicTables (pdfPages ?numPages pageTexts ?rawText))"
    and fld: "ex_extractedForDb ex = map stored (mergeFields (x_extractedFields ?ai)
                                            (extractFieldsFromText ?rawText))"
    using exdef pages by (auto simp: extractPdf_def Let_def orOne_def)
  have mf: "mergeFields (x_extractedFields ?ai) (extractFieldsFromText ?rawText) = ?merged"
    by (rule mergeFields_names)
  have names: "map (\<lambda>f. toLowerCase (f_fieldName f)) (map stored ?merged) = map ?name ?merged"
    by (simp add: comp_def)
  have "ds_extractedFields (structureOf ex) =
          map stored (?merged @ (if detectDocumentType ?rawText = IdentityDocument
                               then filter (\<lambda>f. ?name f \<notin> ?name ` set ?merged)
                                      (keepFirst ?name (extractIdFieldsFromText ?rawText))
                               else []))"
    unfolding structureOf_def raw fld mf
    by (simp add: withIdFields_def idFieldPush_keepFirst names del: map_map)
  then show ?thesis
    using runDocumentPipeline_structure [OF doc ex] sec tab
    by (simp add: Let_def structureOf_def)
qed

theorem pdf_fallback_witness:
  "st_documents uploadedStore 2 = Some uploadedPdf
   \<and> \<not> isImage (orElse (d_mimeType uploadedPdf) ''application/pdf'')
   \<and> en_readFile (aiEnv [invoiceText]) ''uploads/a.pdf''
   \<and> en_extractText (aiEnv [invoiceText]) ''uploads/a.pdf'' = Some (1, [invoiceText])
   \<and> (\<exists>s. st_structures (fst (runDocumentPipeline (aiEnv [invoiceText]) uploadedStore 2
                                 ''uploads/a.pdf'')) 2 = Some s
          \<and> ds_extractedFields s =
               map stored
                 [\<lparr>f_fieldName = ''VENDOR'', f_value = ''ACME'', f_pageNumber = 1,
                   f_confidenceScore = 0.5\<rparr>,
                  \<lparr>f_fieldName = ''Invoice Number'', f_value = ''42'', f_pageNumber = 1,
                   f_confidenceScore = 0.85\<rparr>]
          \<and> ds_sections s = extractSectionsFromText invoiceText
          \<and> ds_tables s = heuristicTables (pdfPages 1 [invoiceText] invoiceText))"
proof -
  have h: "st_documents uploadedStore 2 = Some uploadedPdf"
      "\<not> isImage (orElse (d_mimeType uploadedPdf) ''application/pdf'')"
      "en_readFile (aiEnv [invoiceText]) ''uploads/a.pdf''"
      "en_extractText (aiEnv [invoiceText]) ''uploads/a.pdf'' = Some (1, [invoiceText])"
    by (simp_all add: uploadedStore_document uploadedPdf_mimeType pdf_not_image aiEnv_def pdfEnv_def)
  have empty: "x_sections (extractStructureFromPdf (aiEnv [invoiceText]) invoiceText n) = []"
      "x_tables (extractStructureFromPdf (aiEnv [invoiceText]) invoiceText n) = []" for n
    by (simp_all add: extractStructureFromPdf_def aiEnv_def pdfEnv_def modelsToTry_def
          structureOfParsed_def vendorAnswer_def)
  show ?thesis
    using pdf_fallback [OF h] h
    by (simp add: Let_def aiEnv_fields invoiceText_fields invoiceText_type names_lower empty)
qed

text \<open>
  Claim C8 says that every risk flag that the pipeline inserts has a severity among \<open>low\<close>,
  \<open>medium\<close> and \<open>high\<close> and an explanation that is not empty. For the contract above the
  payment rules push a flag of severity \<open>critical\<close>, which the pipeline hands to
  \<^verbatim>\<open>insertMany\<close> unchanged, whereas it turns the severity \<open>critical\<close> of the semantic analysis
  into \<open>high\<close>. It is the only flag of the run that the schema refuses; \<^verbatim>\<open>insertMany\<close> then
  throws, no flag is stored, and the run ends with the status \<open>failed\<close>.
\<close>

theorem critical_flag_rejected:
  "(case extractPdf (pdfEnv [liabilityText]) ''uploads/a.pdf'' of
      Inl err \<Rightarrow> False
    | Inr ex \<Rightarrow>
        filter (\<lambda>f. \<not> riskFlagSchema f) (flagsToInsert (pdfEnv [liabilityText]) 2 ex)
          = [criticalFlag])
   \<and> rf_severity criticalFlag = Critical
   \<and> rf_explanation criticalFlag \<noteq> []
   \<and> snd (runDocumentPipeline (pdfEnv [liabilityText]) uploadedStore 2 ''uploads/a.pdf'')
       = Inl ValidationError
   \<and> map_option d_status
         (st_documents (fst (runDocumentPipeline (pdfEnv [liabilityText]) uploadedStore 2
                               ''uploads/a.pdf'')) 2) = Some Failed
   \<and> st_riskFlags (fst (runDocumentPipeline (pdfEnv [liabilityText]) uploadedStore 2
                          ''uploads/a.pdf'')) = []"
proof -
  let ?e = "pdfEnv [liabilityText]"
  obtain ex where ex: "extractionOf ?e ''uploads/a.pdf'' ''application/pdf'' = Inr ex"
    and t: "ex_rawText ex = liabilityText" "ex_documentType ex = ''unknown''"
    using extractPdf_pdfEnv [of "[liabilityText]" "''uploads/a.pdf''"] by auto
  have exdef: "extractPdf ?e ''uploads/a.pdf'' = Inr ex"
    using ex by (simp add: extractionOf_def pdf_not_image pdfEnv_def)
  have flags: "flagsToInsert ?e 2 ex
                 = uniqueRiskFlags (detectRisks (detectRisksSemantic ?e) 2 ''contract'' liabilityText)"
    using t by (simp add: flagsToInsert_def Let_def finalDocTypeOf_def liabilityText_type)
  have bad: "filter (\<lambda>f. \<not> riskFlagSchema f) (flagsToInsert ?e 2 ex) = [criticalFlag]"
    unfolding flags by (rule liabilityText_invalid)
  then have "criticalFlag \<in> set (filter (\<lambda>f. \<not> riskFlagSchema f) (flagsToInsert ?e 2 ex))"
    by simp
  then have inv: "flagsToInsert ?e 2 ex \<noteq> []" "\<not> list_all riskFlagSchema (flagsToInsert ?e 2 ex)"
    by (auto simp: list_all_iff)
  have res: "resultOf ?e 2 ex = Inl ValidationError"
    using inv by (simp add: resultOf_def Let_def)
  have r: "snd (runDocumentPipeline ?e uploadedStore 2 ''uploads/a.pdf'') = Inl ValidationError"
    using ex res
    by (simp add: runDocumentPipeline_result [OF uploadedStore_document] uploadedPdf_mimeType)
  have d: "map_option d_status
         (st_documents (fst (runDocumentPipeline ?e uploadedStore 2 ''uploads/a.pdf'')) 2) = Some Failed"
    using runDocumentPipeline_documents [OF uploadedStore_document, of ?e "''uploads/a.pdf''"] r
    by simp
  have f: "st_riskFlags (fst (runDocumentPipeline ?e uploadedStore 2 ''uploads/a.pdf'')) = []"
  proof -
    have "st_riskFlags (fst (runDocumentPipeline ?e uploadedStore 2 ''uploads/a.pdf''))
            = filter (\<lambda>f. rf_documentId f \<noteq> 2) (st_riskFlags uploadedStore)"
      using ex res inv
      by (simp add: runDocumentPipeline_store [OF uploadedStore_document] uploadedPdf_mimeType
            afterExtraction_flags)
    then show ?thesis
      by (simp add: uploadedStore_def emptyStore_def)
  qed
  show ?thesis
    using exdef bad r d f by (simp add: criticalFlag_def ruleFlag_def)
qed

end
